(* ===== verification/Prelude.thy ===== *)
theory Prelude
  imports Main "HOL-Library.Word" "HOL-Library.AList"
begin

text \<open>
  The JavaScript runtime the chat server runs on, as far as the server's code depends on
  it: strings are sequences of UTF-16 code units (\<open>16 word list\<close>), a \<open>Map\<close> is an
  association list kept in insertion order (\<open>Map.prototype.set\<close> overwrites an existing
  key in place and appends a new one, \<open>delete\<close> removes the one entry with that key),
  \<open>String.prototype.trim\<close> and the regular-expression class \<open>\s\<close> share the set of
  ECMAScript white-space and line-terminator code units, \<open>Array.prototype.slice\<close>
  with a negative start counts from the end, and \<open>Number.prototype.toString\<close> prints a
  non-negative integer in decimal. These are library semantics (ECMA-262), not code of
  the repository; the components' theories build on them.
\<close>

named_theorems model_defs "definitions of the chat model, unfolded to evaluate concrete runs"
named_theorems jsmap_simps "rewrite rules for JavaScript Maps with distinct keys"

subsection \<open>Strings\<close>

type_synonym jstr = "16 word list"

definition js :: "string \<Rightarrow> jstr" where
  "js s = map (\<lambda>c. of_nat (of_char c)) s"

declare js_def [model_defs]

lemma unat_js_char: "unat (of_nat (of_char c) :: 16 word) = (of_char c :: nat)"
proof -
  have "(of_char c :: nat) < 65536" using nat_of_char_less_256 [of c] by linarith
  then show ?thesis by (simp add: unat_of_nat)
qed

lemma js_inj [simp]: "js s = js t \<longleftrightarrow> s = t"
proof
  assume eq: "js s = js t"
  have "inj (\<lambda>c::char. of_nat (of_char c) :: 16 word)"
    by (rule injI) (metis unat_js_char of_char_eq_iff)
  with eq show "s = t" by (simp add: js_def)
qed simp

lemma length_js [simp]: "length (js s) = length s"
  by (simp add: js_def)

text \<open>ECMAScript WhiteSpace and LineTerminator code units: what \<open>trim\<close> removes and
  what \<open>\s\<close> matches.\<close>

definition js_space :: "16 word \<Rightarrow> bool" where
  "js_space c \<longleftrightarrow>
     c \<in> {9, 11, 12, 32, 160, 65279, 5760, 8239, 8287, 12288, 10, 13, 8232, 8233}
     \<or> (8192 \<le> c \<and> c \<le> 8202)"

definition js_trim :: "jstr \<Rightarrow> jstr" where
  "js_trim s = rev (dropWhile js_space (rev (dropWhile js_space s)))"

lemma all_set_dropWhile: "(\<forall>x \<in> set (dropWhile P xs). P x) \<longleftrightarrow> (\<forall>x \<in> set xs. P x)"
  by (induction xs) auto

lemma js_trim_Nil_iff: "js_trim s = [] \<longleftrightarrow> (\<forall>c \<in> set s. js_space c)"
  by (simp add: js_trim_def dropWhile_eq_Nil_conv all_set_dropWhile)

text \<open>\<open>String.prototype.includes\<close>.\<close>

fun js_includes :: "jstr \<Rightarrow> jstr \<Rightarrow> bool" where
  "js_includes [] t = (t = [])"
| "js_includes (c # s) t = (take (length t) (c # s) = t \<or> js_includes s t)"

text \<open>\<open>String.prototype.toLowerCase\<close> on the ASCII capitals, which is also how the
  flag \<open>i\<close> of a regular expression, and so Express's route matching, compares
  letters; letters outside Basic Latin are kept (Arabic has no case).\<close>

definition ascii_lower :: "16 word \<Rightarrow> 16 word" where
  "ascii_lower ch = (if 65 \<le> ch \<and> ch \<le> 90 then ch + 32 else ch)"

definition js_lower :: "jstr \<Rightarrow> jstr" where
  "js_lower s = map ascii_lower s"

lemma ascii_lower_idem [simp]: "ascii_lower (ascii_lower ch) = ascii_lower ch"
  unfolding ascii_lower_def by unat_arith

lemma js_space_range: "js_space c \<Longrightarrow> c < 65 \<or> 122 < c"
  unfolding js_space_def by (auto simp: word_le_nat_alt word_less_nat_alt)

lemma ascii_capital_shift: "65 \<le> ch \<Longrightarrow> ch \<le> (90::16 word) \<Longrightarrow> 65 \<le> ch + 32 \<and> ch + 32 \<le> 122"
  by (simp add: word_le_nat_alt unat_word_ariths)

lemma js_space_ascii_lower [simp]: "js_space (ascii_lower ch) \<longleftrightarrow> js_space ch"
  using js_space_range [of ch] js_space_range [of "ch + 32"] ascii_capital_shift [of ch]
  by (auto simp: ascii_lower_def word_le_nat_alt word_less_nat_alt)

subsection \<open>Maps\<close>

type_synonym ('k, 'v) jsmap = "('k \<times> 'v) list"

abbreviation jm_get :: "('k, 'v) jsmap \<Rightarrow> 'k \<Rightarrow> 'v option" where
  "jm_get m k \<equiv> map_of m k"

abbreviation jm_set :: "'k \<Rightarrow> 'v \<Rightarrow> ('k, 'v) jsmap \<Rightarrow> ('k, 'v) jsmap" where
  "jm_set \<equiv> AList.update"

abbreviation jm_delete :: "'k \<Rightarrow> ('k, 'v) jsmap \<Rightarrow> ('k, 'v) jsmap" where
  "jm_delete \<equiv> AList.delete_aux"

abbreviation jm_keys :: "('k, 'v) jsmap \<Rightarrow> 'k list" where
  "jm_keys m \<equiv> map fst m"

abbreviation jm_values :: "('k, 'v) jsmap \<Rightarrow> 'v list" where
  "jm_values m \<equiv> map snd m"

definition jm_has :: "('k, 'v) jsmap \<Rightarrow> 'k \<Rightarrow> bool" where
  "jm_has m k \<longleftrightarrow> k \<in> set (jm_keys m)"

definition jm_wf :: "('k, 'v) jsmap \<Rightarrow> bool" where
  "jm_wf m \<longleftrightarrow> distinct (jm_keys m)"

lemma jm_has_get: "jm_has m k \<longleftrightarrow> jm_get m k \<noteq> None"
  by (simp add: jm_has_def map_of_eq_None_iff)

lemma jm_wf_set [jsmap_simps]: "jm_wf m \<Longrightarrow> jm_wf (jm_set k v m)"
  by (simp add: jm_wf_def distinct_update)

lemma jm_wf_delete [jsmap_simps]: "jm_wf m \<Longrightarrow> jm_wf (jm_delete k m)"
  by (simp add: jm_wf_def)

lemma jm_get_set [jsmap_simps]: "jm_get (jm_set k v m) k' = (if k' = k then Some v else jm_get m k')"
  by (simp add: update_conv)

lemma jm_get_delete [jsmap_simps]:
  "jm_wf m \<Longrightarrow> jm_get (jm_delete k m) k' = (if k' = k then None else jm_get m k')"
  by (simp add: jm_wf_def map_of_delete_aux)

text \<open>\<open>Map.prototype.delete\<close> leaves the other keys' values, whatever the list holds.\<close>

lemma jm_get_delete_other [jsmap_simps]: "k' \<noteq> k \<Longrightarrow> jm_get (jm_delete k m) k' = jm_get m k'"
  by (induction m rule: AList.delete_aux.induct) auto

lemma jm_keys_set:
  "jm_keys (jm_set k v m) = (if k \<in> set (jm_keys m) then jm_keys m else jm_keys m @ [k])"
  by (induction m) auto

lemma jm_keys_delete [jsmap_simps]:
  "jm_wf m \<Longrightarrow> set (jm_keys (jm_delete k m)) = set (jm_keys m) - {k}"
  using dom_delete_aux [of m k] by (simp add: jm_wf_def)

lemma jm_set_subset: "set (jm_set k v m) \<subseteq> insert (k, v) (set m)"
  by (induction m) auto

lemma jm_delete_subset: "set (jm_delete k m) \<subseteq> set m"
  by (induction m rule: AList.delete_aux.induct) (auto split: if_splits)

lemma jm_wf_Nil [simp]: "jm_wf []"
  by (simp add: jm_wf_def)

subsection \<open>Arrays\<close>

text \<open>\<open>Array.prototype.slice(start)\<close>: a negative start counts from the end and is
  clamped at 0, a start beyond the end gives the empty array.\<close>

definition js_slice_from :: "'a list \<Rightarrow> int \<Rightarrow> 'a list" where
  "js_slice_from xs start =
     (let len = int (length xs);
          k = (if start < 0 then max (len + start) 0 else min start len)
      in drop (nat k) xs)"

lemma js_slice_from_neg: "0 < n \<Longrightarrow> js_slice_from xs (- int n) = drop (length xs - n) xs"
  by (simp add: js_slice_from_def Let_def max_def nat_diff_distrib')

subsection \<open>Numbers as strings\<close>

text \<open>\<open>Number.prototype.toString()\<close> of a non-negative integer below \<open>10\<^sup>21\<close>: its
  decimal digits, most significant first, as the code units \<open>'0'\<close> to \<open>'9'\<close>.\<close>

fun dec_digits :: "nat \<Rightarrow> nat list" where
  "dec_digits n = (if n < 10 then [n] else dec_digits (n div 10) @ [n mod 10])"

declare dec_digits.simps [simp del]

definition js_nat_str :: "nat \<Rightarrow> jstr" where
  "js_nat_str n = map (\<lambda>d. of_nat (48 + d)) (dec_digits n)"

text \<open>Reading a decimal string back (what \<open>Number(id)\<close> gives for such a string).\<close>

definition dec_value :: "jstr \<Rightarrow> nat" where
  "dec_value s = foldl (\<lambda>n c. 10 * n + (unat c - 48)) 0 s"

lemma unat_digit: "d < 10 \<Longrightarrow> unat (of_nat (48 + d) :: 16 word) = 48 + d"
  by (subst unat_of_nat) simp

lemma dec_value_snoc: "dec_value (s @ [c]) = 10 * dec_value s + (unat c - 48)"
  by (simp add: dec_value_def)

lemma dec_value_js_nat_str: "dec_value (js_nat_str n) = n"
proof (induction n rule: dec_digits.induct)
  case (1 n)
  show ?case
  proof (cases "n < 10")
    case True
    then have "js_nat_str n = [of_nat (48 + n)]"
      by (simp add: js_nat_str_def dec_digits.simps [of n])
    with True show ?thesis
      using dec_value_snoc [of "[]" "of_nat (48 + n)"] unat_digit [of n]
      by (simp add: dec_value_def del: of_nat_add)
  next
    case False
    then have "js_nat_str n = js_nat_str (n div 10) @ [of_nat (48 + n mod 10)]"
      by (simp add: js_nat_str_def dec_digits.simps [of n])
    with False "1.IH" show ?thesis
      using unat_digit [of "n mod 10"] by (simp add: dec_value_snoc del: of_nat_add)
  qed
qed

lemma js_nat_str_inj: "js_nat_str a = js_nat_str b \<longleftrightarrow> a = b"
  by (metis dec_value_js_nat_str)

end
