(* ===== verification/Presence.thy ===== *)
theory Presence
  imports Prelude
begin

text \<open>
  The Presence Registry: \<open>connectedUsers\<close> of \<^verbatim>\<open>src/server.js\<close> (line 254), a \<open>Map\<close>
  from a user id to \<open>{socketId, user, status}\<close>. The connection handler inserts or
  replaces the entry of the connecting user (lines 260-264), the disconnect handler
  deletes the entry of the disconnecting socket's user (line 335) without looking at which
  socket the entry names, and the roster sent to a new connection is the list of the
  entries' users in the Map's insertion order (lines 276-280). The user is the payload of
  the verified token, as \<open>/api/login\<close> signs it (lines 186-190).
\<close>

record identity =
  uid :: jstr
  uemail :: jstr
  display_name :: jstr

datatype status = Online | Offline

record presence =
  p_socket :: jstr
  p_user :: identity
  p_status :: status

type_synonym presence_map = "(jstr, presence) jsmap"

record user_entry =
  ue_id :: jstr
  ue_name :: jstr
  ue_status :: status

definition presence_register :: "jstr \<Rightarrow> identity \<Rightarrow> presence_map \<Rightarrow> presence_map" where
  "presence_register sid u c = jm_set (uid u) \<lparr>p_socket = sid, p_user = u, p_status = Online\<rparr> c"

definition presence_unregister :: "identity \<Rightarrow> presence_map \<Rightarrow> presence_map" where
  "presence_unregister u c = jm_delete (uid u) c"

definition users_list :: "presence_map \<Rightarrow> user_entry list" where
  "users_list c =
     map (\<lambda>p. \<lparr>ue_id = uid (p_user p), ue_name = display_name (p_user p), ue_status = p_status p\<rparr>)
       (jm_values c)"

declare presence_register_def [model_defs] presence_unregister_def [model_defs]
  users_list_def [model_defs]

text \<open>The registry's invariant: one entry per key, and each entry is keyed by its own
  user's id.\<close>

definition presence_inv :: "presence_map \<Rightarrow> bool" where
  "presence_inv c \<longleftrightarrow> jm_wf c \<and> (\<forall>(k, p) \<in> set c. uid (p_user p) = k)"

definition online :: "presence_map \<Rightarrow> jstr \<Rightarrow> bool" where
  "online c u \<longleftrightarrow> jm_has c u"

text \<open>The registry the design asks for (spec, sections 4.4 and 9): unregistering removes the
  entry only when it still names the disconnecting connection.\<close>

definition presence_unregister_guarded :: "jstr \<Rightarrow> identity \<Rightarrow> presence_map \<Rightarrow> presence_map" where
  "presence_unregister_guarded sid u c =
     (case jm_get c (uid u) of
        Some p \<Rightarrow> if p_socket p = sid then jm_delete (uid u) c else c
      | None \<Rightarrow> c)"

subsection \<open>Lemmas\<close>

lemma presence_inv_Nil [simp]: "presence_inv []"
  by (simp add: presence_inv_def)

lemma presence_inv_wf: "presence_inv c \<Longrightarrow> jm_wf c"
  by (simp add: presence_inv_def)

lemma presence_inv_key:
  "presence_inv c \<Longrightarrow> jm_get c k = Some p \<Longrightarrow> uid (p_user p) = k"
  by (auto simp: presence_inv_def dest: map_of_SomeD)

lemma presence_register_get [simp]:
  "jm_get (presence_register sid u c) k =
     (if k = uid u then Some \<lparr>p_socket = sid, p_user = u, p_status = Online\<rparr> else jm_get c k)"
  by (simp add: presence_register_def jm_get_set)

lemma presence_unregister_get:
  "presence_inv c \<Longrightarrow>
   jm_get (presence_unregister u c) k = (if k = uid u then None else jm_get c k)"
  by (simp add: presence_unregister_def jm_get_delete presence_inv_wf)

lemma presence_register_inv:
  "presence_inv c \<Longrightarrow> presence_inv (presence_register sid u c)"
  using jm_set_subset [of "uid u" _ c]
  by (fastforce simp: presence_inv_def presence_register_def jm_wf_set)

lemma presence_unregister_inv:
  "presence_inv c \<Longrightarrow> presence_inv (presence_unregister u c)"
  using jm_delete_subset [of "uid u" c]
  by (fastforce simp: presence_inv_def presence_unregister_def jm_wf_delete)

lemma users_list_ids: "map ue_id (users_list c) = map (uid \<circ> p_user) (jm_values c)"
  by (simp add: users_list_def)

lemma presence_inv_ids: "presence_inv c \<Longrightarrow> map (uid \<circ> p_user) (jm_values c) = jm_keys c"
  by (induction c) (auto simp: presence_inv_def jm_wf_def)

end
