(* ===== verification/MessageLog.thy ===== *)
theory MessageLog
  imports Prelude "HOL-Library.Sublist"
begin

text \<open>
  The Room Directory and the Message Log with its Retention Sweeper, from
  \<^verbatim>\<open>src/server.js\<close>: the \<open>rooms\<close> Map created with the one public room
  \<open>general\<close> (lines 61-71); the \<open>messages\<close> Map from a room id to the array of its
  messages, created lazily by the send handler and appended to (lines 304-307) and read
  back whole by \<open>GET /api/messages/:roomId\<close> (lines 214-218); and the sweep that runs
  every 30 minutes (lines 74-98): for every room it keeps the messages stamped after the
  cutoff two hours back, then the last 100 of those, and stores the result when it is
  shorter than the room's log. A message's \<open>timestamp\<close> is the ISO string of a clock
  reading in milliseconds, and \<open>new Date(msg.timestamp)\<close> reads the same milliseconds
  back, so the model stores the milliseconds. The retention policy of the spec is stated
  on its own, without the sweep's code, as \<open>retention_ok\<close> and \<open>sweep_spec\<close>.
\<close>

record room =
  r_id :: jstr
  r_name :: jstr
  r_type :: jstr
  r_members :: "jstr list"
  r_created :: nat

record message =
  msg_id :: jstr
  msg_room :: jstr
  sender_id :: jstr
  sender_name :: jstr
  content :: jstr
  msg_type :: jstr
  timestamp :: nat

type_synonym room_dir = "(jstr, room) jsmap"
type_synonym msg_log = "(jstr, message list) jsmap"

subsection \<open>Rooms\<close>

text \<open>The name of the default room (Arabic for "the general channel"), as UTF-16 code units.\<close>

definition general_name :: jstr where
  "general_name = [1575, 1604, 1602, 1606, 1575, 1577, 32, 1575, 1604, 1593, 1575, 1605, 1577]"

definition initial_rooms :: "nat \<Rightarrow> room_dir" where
  "initial_rooms t0 =
     jm_set (js ''general'')
       \<lparr>r_id = js ''general'', r_name = general_name, r_type = js ''public'', r_members = [],
        r_created = t0\<rparr> []"

subsection \<open>The log\<close>

definition log_append :: "jstr \<Rightarrow> message \<Rightarrow> msg_log \<Rightarrow> msg_log" where
  "log_append r m ms =
     (let ms1 = (if jm_has ms r then ms else jm_set r [] ms)
      in case jm_get ms1 r of
           Some xs \<Rightarrow> jm_set r (xs @ [m]) ms1
         | None \<Rightarrow> ms1)"

definition api_messages :: "msg_log \<Rightarrow> jstr \<Rightarrow> message list" where
  "api_messages ms r = (case jm_get ms r of Some xs \<Rightarrow> xs | None \<Rightarrow> [])"

subsection \<open>Retention\<close>

text \<open>Lines 82-84: the age filter, then \<open>.slice(-100)\<close>.\<close>

definition keep_recent :: "int \<Rightarrow> message list \<Rightarrow> message list" where
  "keep_recent cutoff xs = js_slice_from (filter (\<lambda>m. cutoff < int (timestamp m)) xs) (-100)"

text \<open>Lines 79-91: one room of the \<open>forEach\<close>; the log is stored only when it shrank.\<close>

definition sweep_room :: "int \<Rightarrow> jstr \<Rightarrow> message list \<Rightarrow> msg_log \<Rightarrow> msg_log" where
  "sweep_room cutoff r xs ms =
     (let kept = keep_recent cutoff xs
      in if length kept < length xs then jm_set r kept ms else ms)"

text \<open>\<open>messages.forEach\<close> visits the entries in insertion order; a visit only rewrites
  the entry it visits, so every later visit reads the entry the sweep started with.\<close>

fun sweep_rooms :: "int \<Rightarrow> (jstr \<times> message list) list \<Rightarrow> msg_log \<Rightarrow> msg_log" where
  "sweep_rooms cutoff [] ms = ms"
| "sweep_rooms cutoff ((r, xs) # rest) ms = sweep_rooms cutoff rest (sweep_room cutoff r xs ms)"

definition sweep :: "nat \<Rightarrow> msg_log \<Rightarrow> msg_log" where
  "sweep now ms = sweep_rooms (int now - 2 * 60 * 60 * 1000) ms ms"

declare initial_rooms_def [model_defs] log_append_def [model_defs] api_messages_def [model_defs]
  keep_recent_def [model_defs] sweep_room_def [model_defs] sweep_def [model_defs]

text \<open>What the retention promises for one room (spec, section 4.3), said without the
  code's filter and slice: the kept messages \<open>ys\<close> are messages of the log \<open>xs\<close> in
  their order, all younger than the cutoff, as many as the young messages up to 100, and
  every young message not kept is no newer than every kept one.\<close>

definition retention_ok :: "int \<Rightarrow> message list \<Rightarrow> message list \<Rightarrow> bool" where
  "retention_ok cutoff xs ys \<longleftrightarrow>
     subseq ys xs \<and> (\<forall>m \<in> set ys. cutoff < int (timestamp m)) \<and>
     length ys = min 100 (length (filter (\<lambda>m. cutoff < int (timestamp m)) xs)) \<and>
     (\<forall>m \<in> set xs. cutoff < int (timestamp m) \<and> m \<notin> set ys \<longrightarrow> (\<forall>k \<in> set ys. timestamp m \<le> timestamp k))"

text \<open>What a sweep promises for the whole log: the same rooms in the same order, each
  room's messages retained as above.\<close>

definition sweep_spec :: "int \<Rightarrow> msg_log \<Rightarrow> msg_log \<Rightarrow> bool" where
  "sweep_spec cutoff ms ms' \<longleftrightarrow>
     map fst ms' = map fst ms \<and> list_all2 (\<lambda>(r, xs) (r', ys). retention_ok cutoff xs ys) ms ms'"

definition log_sorted :: "msg_log \<Rightarrow> bool" where
  "log_sorted ms \<longleftrightarrow> (\<forall>(r, xs) \<in> set ms. sorted (map timestamp xs))"

subsection \<open>Lemmas on one room\<close>

abbreviation younger :: "int \<Rightarrow> message list \<Rightarrow> message list" where
  "younger cutoff xs \<equiv> filter (\<lambda>m. cutoff < int (timestamp m)) xs"

lemma keep_recent_drop:
  "keep_recent cutoff xs = drop (length (younger cutoff xs) - 100) (younger cutoff xs)"
proof -
  have "(-100 :: int) = - int 100" by simp
  then show ?thesis
    by (simp only: keep_recent_def js_slice_from_neg [of 100] zero_less_numeral)
qed

lemma keep_recent_subseq: "subseq (keep_recent cutoff xs) xs"
proof -
  have "subseq (keep_recent cutoff xs) (younger cutoff xs)"
    by (simp add: keep_recent_drop suffix_drop suffix_imp_subseq)
  then show ?thesis
    using subseq_filter_left by (rule subseq_order.trans)
qed

lemma keep_recent_set: "set (keep_recent cutoff xs) \<subseteq> set (younger cutoff xs)"
  by (metis keep_recent_drop set_drop_subset)

lemma keep_recent_length_le: "length (keep_recent cutoff xs) \<le> length xs"
  using keep_recent_subseq list_emb_length by blast

lemma sorted_map_drop: "sorted (map f xs) \<Longrightarrow> sorted (map f (drop n xs))"
  by (metis append_take_drop_id map_append sorted_append)

lemma keep_recent_sorted:
  "sorted (map timestamp xs) \<Longrightarrow> sorted (map timestamp (keep_recent cutoff xs))"
  by (simp add: keep_recent_drop sorted_filter sorted_map_drop)

text \<open>The guard of line 86 only skips a store that would not change the log.\<close>

lemma sweep_room_store:
  assumes "jm_get ms r = Some xs"
  shows "sweep_room cutoff r xs ms = jm_set r (keep_recent cutoff xs) ms"
proof (cases "length (keep_recent cutoff xs) < length xs")
  case True
  then show ?thesis by (simp add: sweep_room_def)
next
  case False
  then have "length (keep_recent cutoff xs) = length xs"
    using keep_recent_length_le [of cutoff xs] by linarith
  then have "keep_recent cutoff xs = xs"
    by (rule subseq_same_length [OF keep_recent_subseq])
  with assms False show ?thesis by (simp add: sweep_room_def update_triv)
qed

subsection \<open>Lemmas on the whole log\<close>

lemma update_append_first:
  "r \<notin> set (map fst qs) \<Longrightarrow> AList.update r v (qs @ (r, w) # rest) = qs @ (r, v) # rest"
  by (induction qs) auto

lemma sweep_rooms_map_ran:
  assumes "distinct (map fst (pre @ ps))"
  shows "sweep_rooms cutoff ps (AList.map_ran (\<lambda>_ xs. keep_recent cutoff xs) pre @ ps)
         = AList.map_ran (\<lambda>_ xs. keep_recent cutoff xs) (pre @ ps)"
  using assms
proof (induction ps arbitrary: pre)
  case Nil
  then show ?case by simp
next
  case (Cons p rest)
  obtain r xs where p: "p = (r, xs)" by fastforce
  let ?f = "AList.map_ran (\<lambda>_ xs. keep_recent cutoff xs)"
  from Cons.prems p have r: "r \<notin> set (map fst (?f pre))" by auto
  then have "jm_get (?f pre @ (r, xs) # rest) r = Some xs"
    by (simp add: map_add_Some_iff map_of_eq_None_iff dom_map_ran)
  then have "sweep_room cutoff r xs (?f pre @ (r, xs) # rest) = ?f (pre @ [(r, xs)]) @ rest"
    using r by (simp add: sweep_room_store update_append_first map_ran_def)
  moreover have "distinct (map fst ((pre @ [(r, xs)]) @ rest))"
    using Cons.prems p by simp
  ultimately show ?case
    using Cons.IH [of "pre @ [(r, xs)]"] p by simp
qed

lemma sweep_eq_map_ran:
  "jm_wf ms \<Longrightarrow> sweep now ms = AList.map_ran (\<lambda>_ xs. keep_recent (int now - 2 * 60 * 60 * 1000) xs) ms"
  using sweep_rooms_map_ran [of "[]" ms] by (simp add: sweep_def jm_wf_def)

lemma sweep_get:
  "jm_wf ms \<Longrightarrow>
   jm_get (sweep now ms) r = map_option (keep_recent (int now - 2 * 60 * 60 * 1000)) (jm_get ms r)"
  by (simp add: sweep_eq_map_ran map_ran_conv)

lemma keep_recent_length: "length (keep_recent cutoff xs) \<le> 100"
  by (simp add: keep_recent_drop)

lemma keep_recent_young: "m \<in> set (keep_recent cutoff xs) \<Longrightarrow> cutoff < int (timestamp m)"
  using keep_recent_set by fastforce

lemma keep_recent_few: "length (younger cutoff xs) \<le> 100 \<Longrightarrow> keep_recent cutoff xs = younger cutoff xs"
  by (simp add: keep_recent_drop)

lemma keep_recent_idem: "keep_recent cutoff (keep_recent cutoff xs) = keep_recent cutoff xs"
proof -
  have "younger cutoff (keep_recent cutoff xs) = keep_recent cutoff xs"
    using keep_recent_young by (simp add: filter_id_conv)
  then show ?thesis
    using keep_recent_few keep_recent_length by metis
qed

lemma map_ran_comp: "AList.map_ran f (AList.map_ran g al) = AList.map_ran (\<lambda>k v. f k (g k v)) al"
  by (induction al) auto

lemma log_append_get:
  "jm_get (log_append r m ms) r' = (if r' = r then Some (api_messages ms r @ [m]) else jm_get ms r')"
  by (auto simp: log_append_def api_messages_def jm_has_get jm_get_set split: option.splits)

subsection \<open>Properties of the sweep\<close>

text \<open>C16: after a sweep every room holds at most 100 messages, each stamped after the
  cutoff two hours before the sweep.\<close>

theorem sweep_bounds:
  assumes "jm_wf ms" and "jm_get (sweep now ms) r = Some xs"
  shows "length xs \<le> 100 \<and> (\<forall>m \<in> set xs. int now - 2 * 60 * 60 * 1000 < int (timestamp m))"
  using assms by (auto simp: sweep_get keep_recent_length keep_recent_young)

theorem sweep_bounds_witness:
  "jm_wf [(js ''general'', [\<lparr>msg_id = js ''1'', msg_room = js ''general'', sender_id = js ''7'', sender_name = js ''a'', content = js ''hi'', msg_type = js ''text'', timestamp = 1000\<rparr>,
      \<lparr>msg_id = js ''2'', msg_room = js ''general'', sender_id = js ''7'', sender_name = js ''a'', content = js ''ho'', msg_type = js ''text'', timestamp = 8000000\<rparr>])] \<and>
   jm_get (sweep 9000000 [(js ''general'', [\<lparr>msg_id = js ''1'', msg_room = js ''general'', sender_id = js ''7'', sender_name = js ''a'', content = js ''hi'', msg_type = js ''text'', timestamp = 1000\<rparr>,
      \<lparr>msg_id = js ''2'', msg_room = js ''general'', sender_id = js ''7'', sender_name = js ''a'', content = js ''ho'', msg_type = js ''text'', timestamp = 8000000\<rparr>])]) (js ''general'') = Some [\<lparr>msg_id = js ''2'', msg_room = js ''general'', sender_id = js ''7'', sender_name = js ''a'', content = js ''ho'', msg_type = js ''text'', timestamp = 8000000\<rparr>] \<and>
   length [\<lparr>msg_id = js ''2'', msg_room = js ''general'', sender_id = js ''7'', sender_name = js ''a'', content = js ''ho'', msg_type = js ''text'', timestamp = 8000000\<rparr>] \<le> 100"
proof -
  have wf: "jm_wf [(js ''general'', [\<lparr>msg_id = js ''1'', msg_room = js ''general'', sender_id = js ''7'', sender_name = js ''a'', content = js ''hi'', msg_type = js ''text'', timestamp = 1000\<rparr>,
      \<lparr>msg_id = js ''2'', msg_room = js ''general'', sender_id = js ''7'', sender_name = js ''a'', content = js ''ho'', msg_type = js ''text'', timestamp = 8000000\<rparr>])]"
    by (simp add: jm_wf_def)
  have get: "jm_get (sweep 9000000 [(js ''general'', [\<lparr>msg_id = js ''1'', msg_room = js ''general'', sender_id = js ''7'', sender_name = js ''a'', content = js ''hi'', msg_type = js ''text'', timestamp = 1000\<rparr>,
      \<lparr>msg_id = js ''2'', msg_room = js ''general'', sender_id = js ''7'', sender_name = js ''a'', content = js ''ho'', msg_type = js ''text'', timestamp = 8000000\<rparr>])]) (js ''general'') = Some [\<lparr>msg_id = js ''2'', msg_room = js ''general'', sender_id = js ''7'', sender_name = js ''a'', content = js ''ho'', msg_type = js ''text'', timestamp = 8000000\<rparr>]"
    by (simp add: sweep_def sweep_room_def keep_recent_def js_slice_from_def)
  from sweep_bounds [OF wf get] wf get show ?thesis by simp
qed

text \<open>A sweep loses no message younger than two hours from a room that has at most
  100 of them.\<close>

theorem sweep_keeps_young:
  assumes "jm_wf ms" and "jm_get ms r = Some xs"
    and "length (younger (int now - 2 * 60 * 60 * 1000) xs) \<le> 100"
  shows "jm_get (sweep now ms) r = Some (younger (int now - 2 * 60 * 60 * 1000) xs)"
  using assms by (simp add: sweep_get keep_recent_few)

theorem sweep_keeps_young_witness:
  "jm_get (sweep 9000000 [(js ''general'', [\<lparr>msg_id = js ''1'', msg_room = js ''general'', sender_id = js ''7'', sender_name = js ''a'', content = js ''hi'', msg_type = js ''text'', timestamp = 1000\<rparr>,
      \<lparr>msg_id = js ''2'', msg_room = js ''general'', sender_id = js ''7'', sender_name = js ''a'', content = js ''ho'', msg_type = js ''text'', timestamp = 8000000\<rparr>])]) (js ''general'') = Some [\<lparr>msg_id = js ''2'', msg_room = js ''general'', sender_id = js ''7'', sender_name = js ''a'', content = js ''ho'', msg_type = js ''text'', timestamp = 8000000\<rparr>]"
proof -
  have wf: "jm_wf [(js ''general'', [\<lparr>msg_id = js ''1'', msg_room = js ''general'', sender_id = js ''7'', sender_name = js ''a'', content = js ''hi'', msg_type = js ''text'', timestamp = 1000\<rparr>,
      \<lparr>msg_id = js ''2'', msg_room = js ''general'', sender_id = js ''7'', sender_name = js ''a'', content = js ''ho'', msg_type = js ''text'', timestamp = 8000000\<rparr>])]"
    by (simp add: jm_wf_def)
  show ?thesis
    using sweep_keeps_young [OF wf, of "js ''general''" _ 9000000] by simp
qed

text \<open>Of the young messages of a room whose log is in time order, the sweep keeps a
  suffix, and every young message it drops is no newer than every message it keeps.\<close>

theorem keep_recent_newest:
  assumes "sorted (map timestamp xs)"
  shows "\<exists>dropped. younger cutoff xs = dropped @ keep_recent cutoff xs \<and>
           (\<forall>m \<in> set dropped. \<forall>k \<in> set (keep_recent cutoff xs). timestamp m \<le> timestamp k)"
proof -
  let ?ys = "younger cutoff xs"
  let ?n = "length ?ys - 100"
  have split: "?ys = take ?n ?ys @ keep_recent cutoff xs"
    by (simp add: keep_recent_drop)
  have "sorted (map timestamp ?ys)"
    using assms by (rule sorted_filter)
  then have "sorted (map timestamp (take ?n ?ys) @ map timestamp (keep_recent cutoff xs))"
    using split by (metis map_append)
  then have "\<forall>m \<in> set (take ?n ?ys). \<forall>k \<in> set (keep_recent cutoff xs). timestamp m \<le> timestamp k"
    by (simp add: sorted_append)
  with split show ?thesis by blast
qed

theorem keep_recent_newest_witness:
  "\<exists>dropped. younger 5000 [\<lparr>msg_id = js ''1'', msg_room = js ''general'', sender_id = js ''7'', sender_name = js ''a'', content = js ''hi'', msg_type = js ''text'', timestamp = 1000\<rparr>,
      \<lparr>msg_id = js ''2'', msg_room = js ''general'', sender_id = js ''7'', sender_name = js ''a'', content = js ''ho'', msg_type = js ''text'', timestamp = 8000000\<rparr>] = dropped @ [\<lparr>msg_id = js ''2'', msg_room = js ''general'', sender_id = js ''7'', sender_name = js ''a'', content = js ''ho'', msg_type = js ''text'', timestamp = 8000000\<rparr>] \<and>
     (\<forall>m \<in> set dropped. timestamp m \<le> 8000000)"
proof -
  have "sorted (map timestamp [\<lparr>msg_id = js ''1'', msg_room = js ''general'', sender_id = js ''7'', sender_name = js ''a'', content = js ''hi'', msg_type = js ''text'', timestamp = 1000\<rparr>,
      \<lparr>msg_id = js ''2'', msg_room = js ''general'', sender_id = js ''7'', sender_name = js ''a'', content = js ''ho'', msg_type = js ''text'', timestamp = 8000000\<rparr>])" by simp
  from keep_recent_newest [OF this, of 5000] show ?thesis
    by (simp add: keep_recent_def js_slice_from_def)
qed

text \<open>Sweeping twice at the same instant removes nothing more than sweeping once.\<close>

theorem sweep_idem:
  "jm_wf ms \<Longrightarrow> sweep now (sweep now ms) = sweep now ms"
proof -
  assume wf: "jm_wf ms"
  then have "jm_wf (sweep now ms)"
    by (simp add: sweep_eq_map_ran jm_wf_def distinct_map_ran)
  with wf show ?thesis
    by (simp add: sweep_eq_map_ran map_ran_comp keep_recent_idem)
qed

theorem sweep_idem_witness:
  "sweep 9000000 (sweep 9000000 [(js ''general'', [\<lparr>msg_id = js ''1'', msg_room = js ''general'', sender_id = js ''7'', sender_name = js ''a'', content = js ''hi'', msg_type = js ''text'', timestamp = 1000\<rparr>,
      \<lparr>msg_id = js ''2'', msg_room = js ''general'', sender_id = js ''7'', sender_name = js ''a'', content = js ''ho'', msg_type = js ''text'', timestamp = 8000000\<rparr>])]) = [(js ''general'', [\<lparr>msg_id = js ''2'', msg_room = js ''general'', sender_id = js ''7'', sender_name = js ''a'', content = js ''ho'', msg_type = js ''text'', timestamp = 8000000\<rparr>])]"
proof -
  have wf: "jm_wf [(js ''general'', [\<lparr>msg_id = js ''1'', msg_room = js ''general'', sender_id = js ''7'', sender_name = js ''a'', content = js ''hi'', msg_type = js ''text'', timestamp = 1000\<rparr>,
      \<lparr>msg_id = js ''2'', msg_room = js ''general'', sender_id = js ''7'', sender_name = js ''a'', content = js ''ho'', msg_type = js ''text'', timestamp = 8000000\<rparr>])]"
    by (simp add: jm_wf_def)
  have "sweep 9000000 [(js ''general'', [\<lparr>msg_id = js ''1'', msg_room = js ''general'', sender_id = js ''7'', sender_name = js ''a'', content = js ''hi'', msg_type = js ''text'', timestamp = 1000\<rparr>,
      \<lparr>msg_id = js ''2'', msg_room = js ''general'', sender_id = js ''7'', sender_name = js ''a'', content = js ''ho'', msg_type = js ''text'', timestamp = 8000000\<rparr>])] = [(js ''general'', [\<lparr>msg_id = js ''2'', msg_room = js ''general'', sender_id = js ''7'', sender_name = js ''a'', content = js ''ho'', msg_type = js ''text'', timestamp = 8000000\<rparr>])]"
    by (simp add: sweep_def sweep_room_def keep_recent_def js_slice_from_def)
  with sweep_idem [OF wf, of 9000000] show ?thesis by simp
qed

text \<open>Appending a message to a room's log and reading the room back through
  \<open>GET /api/messages/:roomId\<close> gives the room's earlier messages followed by the new one,
  also for a room with no log yet; the logs of other rooms are unchanged.\<close>

theorem log_append_api_messages:
  "api_messages (log_append r m ms) r' =
     (if r' = r then api_messages ms r @ [m] else api_messages ms r')"
  by (simp add: log_append_get api_messages_def)

lemma keep_recent_retention:
  assumes "sorted (map timestamp xs)"
  shows "retention_ok cutoff xs (keep_recent cutoff xs)"
proof -
  obtain dropped where split: "younger cutoff xs = dropped @ keep_recent cutoff xs"
    and old: "\<forall>m \<in> set dropped. \<forall>k \<in> set (keep_recent cutoff xs). timestamp m \<le> timestamp k"
    using keep_recent_newest [OF assms] by blast
  have len: "length (keep_recent cutoff xs) = min 100 (length (younger cutoff xs))"
    by (simp add: keep_recent_drop)
  have "set (younger cutoff xs) = set dropped \<union> set (keep_recent cutoff xs)"
    using split by (metis set_append)
  then have "\<forall>m \<in> set xs. cutoff < int (timestamp m) \<and> m \<notin> set (keep_recent cutoff xs) \<longrightarrow> m \<in> set dropped"
    by auto
  then show ?thesis
    using keep_recent_subseq keep_recent_young len old by (auto simp: retention_ok_def)
qed

text \<open>C15: a sweep pass meets the retention the design asks for, stated apart from the
  sweep's code (\<open>retention_ok\<close>): in a log kept in time order, every room, in its
  place, keeps a subsequence of its messages younger than two hours, as many of them as
  there are up to 100, and no young message it drops is newer than one it keeps.\<close>

theorem sweep_meets_retention:
  assumes "jm_wf ms" and "log_sorted ms"
  shows "sweep_spec (int now - 2 * 60 * 60 * 1000) ms (sweep now ms)"
proof -
  have "\<forall>(r, xs) \<in> set ms. retention_ok (int now - 2 * 60 * 60 * 1000) xs (keep_recent (int now - 2 * 60 * 60 * 1000) xs)"
    using assms(2) keep_recent_retention by (auto simp: log_sorted_def)
  then have "list_all2 (\<lambda>(r, xs) (r', ys). retention_ok (int now - 2 * 60 * 60 * 1000) xs ys) ms
      (AList.map_ran (\<lambda>_ xs. keep_recent (int now - 2 * 60 * 60 * 1000) xs) ms)"
    by (induction ms) (auto simp: AList.map_ran_def)
  then show ?thesis
    by (simp add: sweep_spec_def sweep_eq_map_ran [OF assms(1)] AList.map_ran_def comp_def case_prod_beta)
qed

theorem sweep_meets_retention_witness:
  "sweep_spec (int 9000000 - 2 * 60 * 60 * 1000) [(js ''general'', [\<lparr>msg_id = js ''1'', msg_room = js ''general'', sender_id = js ''7'', sender_name = js ''a'', content = js ''hi'', msg_type = js ''text'', timestamp = 1000\<rparr>,
      \<lparr>msg_id = js ''2'', msg_room = js ''general'', sender_id = js ''7'', sender_name = js ''a'', content = js ''ho'', msg_type = js ''text'', timestamp = 8000000\<rparr>])] (sweep 9000000 [(js ''general'', [\<lparr>msg_id = js ''1'', msg_room = js ''general'', sender_id = js ''7'', sender_name = js ''a'', content = js ''hi'', msg_type = js ''text'', timestamp = 1000\<rparr>,
      \<lparr>msg_id = js ''2'', msg_room = js ''general'', sender_id = js ''7'', sender_name = js ''a'', content = js ''ho'', msg_type = js ''text'', timestamp = 8000000\<rparr>])])"
  by (rule sweep_meets_retention) (simp_all add: jm_wf_def log_sorted_def)

end
