(* ===== verification/Server.thy ===== *)
theory Server
  imports Presence MessageLog
begin

text \<open>
  The Session Manager and the Broadcast Router: the Socket.IO part of
  \<^verbatim>\<open>src/server.js\<close> (lines 239-342). The state \<open>rt\<close> holds the server's Maps that the
  socket handlers touch (\<open>rooms\<close>, \<open>messages\<close>, \<open>connectedUsers\<close>), Socket.IO's table
  of connected sockets with the rooms each has joined, and the outbox: every event the
  server emits, addressed to one socket, in emission order. One function per handler; the
  Socket.IO operations they call (\<open>join\<close>, \<open>emit\<close>, \<open>io.to(r)\<close>, \<open>socket.to(r)\<close>,
  \<open>socket.broadcast\<close>) are the library's semantics: every socket is in the room named by
  its own id, \<open>join\<close> adds a room to a set, \<open>io.to(r)\<close> reaches every socket in
  \<open>r\<close>, and \<open>socket.to(r)\<close> and \<open>socket.broadcast\<close> leave out every socket in the
  room named by the sender's id. On disconnect Socket.IO removes the socket (and its
  rooms) before the handler runs. \<open>rt_step\<close> dispatches one event; \<open>reachable\<close> is the
  set of states a run of events reaches with a clock that does not go back. The send
  handler reads the clock twice, \<open>Date.now()\<close> for the id (line 294) and
  \<open>new Date()\<close> for the timestamp (line 300); the event carries the time between them.
\<close>

datatype chat_error = AuthenticationError | Crash

record sock =
  s_user :: identity
  s_rooms :: "jstr list"

record send_data =
  sd_room :: jstr
  sd_content :: jstr
  sd_type :: "jstr option"

datatype out_event =
    UserOnline jstr jstr
  | UserOffline jstr jstr
  | UsersList "user_entry list"
  | NewMessage message
  | UserTyping jstr jstr bool

record rt =
  rt_rooms :: room_dir
  rt_messages :: msg_log
  rt_connected :: presence_map
  rt_sockets :: "(jstr, sock) jsmap"
  rt_outbox :: "(jstr \<times> out_event) list"

subsection \<open>Socket.IO\<close>

definition room_members :: "jstr \<Rightarrow> rt \<Rightarrow> jstr list" where
  "room_members r s = map fst (filter (\<lambda>p. r \<in> set (s_rooms (snd p))) (rt_sockets s))"

definition deliver :: "jstr list \<Rightarrow> out_event \<Rightarrow> rt \<Rightarrow> rt" where
  "deliver targets ev s = s\<lparr>rt_outbox := rt_outbox s @ map (\<lambda>t. (t, ev)) targets\<rparr>"

definition sio_emit :: "jstr \<Rightarrow> out_event \<Rightarrow> rt \<Rightarrow> rt" where
  "sio_emit sid ev s = deliver [sid] ev s"

definition sio_to_room :: "jstr \<Rightarrow> out_event \<Rightarrow> rt \<Rightarrow> rt" where
  "sio_to_room r ev s = deliver (room_members r s) ev s"

definition sio_to_except :: "jstr \<Rightarrow> jstr \<Rightarrow> out_event \<Rightarrow> rt \<Rightarrow> rt" where
  "sio_to_except sid r ev s =
     deliver (filter (\<lambda>t. t \<notin> set (room_members sid s)) (room_members r s)) ev s"

definition sio_broadcast :: "jstr \<Rightarrow> out_event \<Rightarrow> rt \<Rightarrow> rt" where
  "sio_broadcast sid ev s =
     deliver (filter (\<lambda>t. t \<notin> set (room_members sid s)) (jm_keys (rt_sockets s))) ev s"

definition sio_join :: "jstr \<Rightarrow> jstr \<Rightarrow> rt \<Rightarrow> rt" where
  "sio_join sid r s =
     (case jm_get (rt_sockets s) sid of
        None \<Rightarrow> s
      | Some k \<Rightarrow>
          if r \<in> set (s_rooms k) then s
          else s\<lparr>rt_sockets := jm_set sid (k\<lparr>s_rooms := s_rooms k @ [r]\<rparr>) (rt_sockets s)\<rparr>)"

definition sio_add :: "jstr \<Rightarrow> identity \<Rightarrow> rt \<Rightarrow> rt" where
  "sio_add sid u s = s\<lparr>rt_sockets := jm_set sid \<lparr>s_user = u, s_rooms = [sid]\<rparr> (rt_sockets s)\<rparr>"

definition sio_remove :: "jstr \<Rightarrow> rt \<Rightarrow> rt" where
  "sio_remove sid s = s\<lparr>rt_sockets := jm_delete sid (rt_sockets s)\<rparr>"

subsection \<open>The handlers\<close>

text \<open>Lines 239-252: the handshake middleware. A missing or empty token and a token the
  verifier rejects both refuse the connection.\<close>

definition authenticate :: "(jstr \<Rightarrow> identity option) \<Rightarrow> jstr option \<Rightarrow> chat_error + identity" where
  "authenticate verify tok =
     (case tok of
        None \<Rightarrow> Inl AuthenticationError
      | Some t \<Rightarrow>
          if t = [] then Inl AuthenticationError
          else (case verify t of None \<Rightarrow> Inl AuthenticationError | Some u \<Rightarrow> Inr u))"

text \<open>Lines 256-281.\<close>

definition on_connection :: "jstr \<Rightarrow> identity \<Rightarrow> rt \<Rightarrow> rt" where
  "on_connection sid u s =
     (let s1 = s\<lparr>rt_connected := presence_register sid u (rt_connected s)\<rparr>;
          s2 = sio_join sid (js ''general'') s1;
          s3 = sio_broadcast sid (UserOnline (uid u) (display_name u)) s2
      in sio_emit sid (UsersList (users_list (rt_connected s3))) s3)"

text \<open>Lines 284-287: no check that the room exists.\<close>

definition on_join_room :: "jstr \<Rightarrow> jstr \<Rightarrow> rt \<Rightarrow> rt" where
  "on_join_room sid r s = sio_join sid r s"

text \<open>Lines 291-301: the message object; \<open>type\<close> defaults to \<open>'text'\<close> when the
  payload has none. The clock is read twice: \<open>tid\<close> by \<open>Date.now()\<close> for the id
  (line 294), \<open>now\<close> by \<open>new Date()\<close> for the timestamp (line 300).\<close>

definition new_message :: "identity \<Rightarrow> nat \<Rightarrow> nat \<Rightarrow> send_data \<Rightarrow> message" where
  "new_message u tid now d =
     \<lparr>msg_id = js_nat_str tid, msg_room = sd_room d, sender_id = uid u,
      sender_name = display_name u, content = sd_content d,
      msg_type = (case sd_type d of None \<Rightarrow> js ''text'' | Some ty \<Rightarrow> ty), timestamp = now\<rparr>"

text \<open>Lines 290-311. Destructuring a missing payload throws a \<open>TypeError\<close> in the
  handler, which reaches \<open>process.on('uncaughtException')\<close> and ends the process
  (lines 345-348): \<open>Crash\<close>. No check that the sender joined the room, that the room
  exists, or that the content is not blank.\<close>

definition on_send_message :: "identity \<Rightarrow> nat \<Rightarrow> nat \<Rightarrow> send_data option \<Rightarrow> rt \<Rightarrow> chat_error + rt" where
  "on_send_message u tid now data s =
     (case data of
        None \<Rightarrow> Inl Crash
      | Some d \<Rightarrow>
          (let m = new_message u tid now d;
               s1 = s\<lparr>rt_messages := log_append (sd_room d) m (rt_messages s)\<rparr>
           in Inr (sio_to_room (sd_room d) (NewMessage m) s1)))"

text \<open>Lines 314-329.\<close>

definition on_typing_start :: "jstr \<Rightarrow> identity \<Rightarrow> jstr \<Rightarrow> rt \<Rightarrow> rt" where
  "on_typing_start sid u r s = sio_to_except sid r (UserTyping (uid u) (display_name u) True) s"

definition on_typing_stop :: "jstr \<Rightarrow> identity \<Rightarrow> jstr \<Rightarrow> rt \<Rightarrow> rt" where
  "on_typing_stop sid u r s = sio_to_except sid r (UserTyping (uid u) (display_name u) False) s"

text \<open>Lines 332-341: the registry entry of the user is deleted whichever socket it names.\<close>

definition on_disconnect :: "jstr \<Rightarrow> identity \<Rightarrow> rt \<Rightarrow> rt" where
  "on_disconnect sid u s =
     (let s1 = s\<lparr>rt_connected := presence_unregister u (rt_connected s)\<rparr>
      in sio_broadcast sid (UserOffline (uid u) (display_name u)) s1)"

text \<open>Lines 74-98 as an event of the state: the timer's callback at time \<open>now\<close>.\<close>

definition on_sweep :: "nat \<Rightarrow> rt \<Rightarrow> rt" where
  "on_sweep now s = s\<lparr>rt_messages := sweep now (rt_messages s)\<rparr>"

subsection \<open>Dispatch and runs\<close>

datatype sock_event =
    Connect jstr "jstr option"
  | JoinRoom jstr jstr
  | SendMessage jstr "send_data option" nat
  | TypingStart jstr jstr
  | TypingStop jstr jstr
  | Disconnect jstr
  | SweepTick

definition rt_init :: "nat \<Rightarrow> rt" where
  "rt_init t0 = \<lparr>rt_rooms = initial_rooms t0, rt_messages = [], rt_connected = [],
                 rt_sockets = [], rt_outbox = []\<rparr>"

fun rt_step :: "(jstr \<Rightarrow> identity option) \<Rightarrow> nat \<Rightarrow> sock_event \<Rightarrow> rt \<Rightarrow> chat_error + rt" where
  "rt_step verify now (Connect sid tok) s =
     (case authenticate verify tok of
        Inl e \<Rightarrow> Inl e
      | Inr u \<Rightarrow> Inr (on_connection sid u (sio_add sid u s)))"
| "rt_step verify now (JoinRoom sid r) s =
     (case jm_get (rt_sockets s) sid of None \<Rightarrow> Inr s | Some k \<Rightarrow> Inr (on_join_room sid r s))"
| "rt_step verify now (SendMessage sid d lag) s =
     (case jm_get (rt_sockets s) sid of
        None \<Rightarrow> Inr s | Some k \<Rightarrow> on_send_message (s_user k) (now - lag) now d s)"
| "rt_step verify now (TypingStart sid r) s =
     (case jm_get (rt_sockets s) sid of
        None \<Rightarrow> Inr s | Some k \<Rightarrow> Inr (on_typing_start sid (s_user k) r s))"
| "rt_step verify now (TypingStop sid r) s =
     (case jm_get (rt_sockets s) sid of
        None \<Rightarrow> Inr s | Some k \<Rightarrow> Inr (on_typing_stop sid (s_user k) r s))"
| "rt_step verify now (Disconnect sid) s =
     (case jm_get (rt_sockets s) sid of
        None \<Rightarrow> Inr s | Some k \<Rightarrow> Inr (on_disconnect sid (s_user k) (sio_remove sid s)))"
| "rt_step verify now SweepTick s = Inr (on_sweep now s)"

text \<open>Socket.IO gives every new connection a fresh id.\<close>

fun fresh_event :: "sock_event \<Rightarrow> rt \<Rightarrow> bool" where
  "fresh_event (Connect sid tok) s = (\<not> jm_has (rt_sockets s) sid)"
| "fresh_event ev s = True"

inductive reachable :: "(jstr \<Rightarrow> identity option) \<Rightarrow> nat \<Rightarrow> rt \<Rightarrow> bool"
  for verify :: "jstr \<Rightarrow> identity option" where
  init: "reachable verify t0 (rt_init t0)"
| step: "reachable verify t s \<Longrightarrow> t \<le> t' \<Longrightarrow> fresh_event ev s \<Longrightarrow>
         rt_step verify t' ev s = Inr s' \<Longrightarrow> reachable verify t' s'"

fun rt_run :: "(jstr \<Rightarrow> identity option) \<Rightarrow> (nat \<times> sock_event) list \<Rightarrow> rt \<Rightarrow> chat_error + rt" where
  "rt_run verify [] s = Inr s"
| "rt_run verify ((t, ev) # evs) s =
     (case rt_step verify t ev s of Inl e \<Rightarrow> Inl e | Inr s' \<Rightarrow> rt_run verify evs s')"

declare room_members_def [model_defs] deliver_def [model_defs] sio_emit_def [model_defs]
  sio_to_room_def [model_defs] sio_to_except_def [model_defs] sio_broadcast_def [model_defs]
  sio_join_def [model_defs] sio_add_def [model_defs] sio_remove_def [model_defs]
  authenticate_def [model_defs] on_connection_def [model_defs] on_join_room_def [model_defs]
  new_message_def [model_defs] on_send_message_def [model_defs] on_typing_start_def [model_defs]
  on_typing_stop_def [model_defs] on_disconnect_def [model_defs] on_sweep_def [model_defs]
  rt_init_def [model_defs]

text \<open>What one socket has received, in order.\<close>

definition inbox :: "jstr \<Rightarrow> rt \<Rightarrow> out_event list" where
  "inbox x s = map snd (filter (\<lambda>p. fst p = x) (rt_outbox s))"

text \<open>Fixtures for the witnesses: one user and a verifier that accepts one token for it.\<close>

definition demo_user :: identity where
  "demo_user = \<lparr>uid = js ''1'', uemail = js ''a@b.c'', display_name = js ''A''\<rparr>"

definition demo_verify :: "jstr \<Rightarrow> identity option" where
  "demo_verify t = (if t = js ''tokA'' then Some demo_user else None)"

subsection \<open>The invariant\<close>

text \<open>What every reachable state keeps: the Maps have distinct keys; the registry is
  keyed by its entries' user ids (so at most one entry per identity); every entry names a
  live socket of its own user (nobody is shown online without a connection); every live
  socket is in its own room and in \<open>general\<close>; every room's log is in time order and
  no message is stamped after the current time.\<close>

definition rt_inv :: "nat \<Rightarrow> rt \<Rightarrow> bool" where
  "rt_inv t s \<longleftrightarrow>
     presence_inv (rt_connected s) \<and> jm_wf (rt_sockets s) \<and> jm_wf (rt_messages s) \<and>
     (\<forall>u p. jm_get (rt_connected s) u = Some p \<longrightarrow>
        (\<exists>k. jm_get (rt_sockets s) (p_socket p) = Some k \<and> s_user k = p_user p)) \<and>
     (\<forall>sid k. jm_get (rt_sockets s) sid = Some k \<longrightarrow>
        sid \<in> set (s_rooms k) \<and> js ''general'' \<in> set (s_rooms k)) \<and>
     (\<forall>r xs. jm_get (rt_messages s) r = Some xs \<longrightarrow>
        sorted (map timestamp xs) \<and> (\<forall>m \<in> set xs. timestamp m \<le> t))"

subsection \<open>Frame lemmas\<close>

lemma rt_invI:
  assumes "presence_inv (rt_connected s)" "jm_wf (rt_sockets s)" "jm_wf (rt_messages s)"
    and "\<And>u p. jm_get (rt_connected s) u = Some p \<Longrightarrow>
           \<exists>k. jm_get (rt_sockets s) (p_socket p) = Some k \<and> s_user k = p_user p"
    and "\<And>sid k. jm_get (rt_sockets s) sid = Some k \<Longrightarrow>
           sid \<in> set (s_rooms k) \<and> js ''general'' \<in> set (s_rooms k)"
    and "\<And>r xs. jm_get (rt_messages s) r = Some xs \<Longrightarrow>
           sorted (map timestamp xs) \<and> (\<forall>m \<in> set xs. timestamp m \<le> t)"
  shows "rt_inv t s"
  using assms by (simp add: rt_inv_def)

lemma rt_invD:
  assumes "rt_inv t s"
  shows rt_inv_presence: "presence_inv (rt_connected s)"
    and rt_inv_sockets_wf: "jm_wf (rt_sockets s)"
    and rt_inv_messages_wf: "jm_wf (rt_messages s)"
    and rt_inv_entry: "jm_get (rt_connected s) u = Some p \<Longrightarrow>
           \<exists>k. jm_get (rt_sockets s) (p_socket p) = Some k \<and> s_user k = p_user p"
    and rt_inv_rooms: "jm_get (rt_sockets s) sid = Some k \<Longrightarrow>
           sid \<in> set (s_rooms k) \<and> js ''general'' \<in> set (s_rooms k)"
    and rt_inv_log: "jm_get (rt_messages s) r = Some xs \<Longrightarrow>
           sorted (map timestamp xs) \<and> (\<forall>m \<in> set xs. timestamp m \<le> t)"
  using assms by (auto simp: rt_inv_def)


lemmas emit_defs = sio_emit_def sio_to_room_def sio_to_except_def sio_broadcast_def deliver_def

lemma deliver_frame [simp]:
  "rt_rooms (deliver ts ev s) = rt_rooms s" "rt_messages (deliver ts ev s) = rt_messages s"
  "rt_connected (deliver ts ev s) = rt_connected s" "rt_sockets (deliver ts ev s) = rt_sockets s"
  by (simp_all add: deliver_def)

lemma emit_frame [simp]:
  "rt_connected (sio_emit sid ev s) = rt_connected s" "rt_sockets (sio_emit sid ev s) = rt_sockets s"
  "rt_messages (sio_emit sid ev s) = rt_messages s" "rt_rooms (sio_emit sid ev s) = rt_rooms s"
  "rt_connected (sio_to_room r ev s) = rt_connected s" "rt_sockets (sio_to_room r ev s) = rt_sockets s"
  "rt_messages (sio_to_room r ev s) = rt_messages s" "rt_rooms (sio_to_room r ev s) = rt_rooms s"
  "rt_connected (sio_to_except sid r ev s) = rt_connected s"
  "rt_sockets (sio_to_except sid r ev s) = rt_sockets s"
  "rt_messages (sio_to_except sid r ev s) = rt_messages s"
  "rt_rooms (sio_to_except sid r ev s) = rt_rooms s"
  "rt_connected (sio_broadcast sid ev s) = rt_connected s"
  "rt_sockets (sio_broadcast sid ev s) = rt_sockets s"
  "rt_messages (sio_broadcast sid ev s) = rt_messages s"
  "rt_rooms (sio_broadcast sid ev s) = rt_rooms s"
  by (simp_all add: emit_defs)

lemma rt_inv_outbox [simp]: "rt_inv t (s\<lparr>rt_outbox := ob\<rparr>) = rt_inv t s"
  by (simp add: rt_inv_def)

lemma rt_inv_emit:
  "rt_inv t (sio_emit sid ev s) = rt_inv t s"
  "rt_inv t (sio_to_room r ev s) = rt_inv t s"
  "rt_inv t (sio_to_except sid r ev s) = rt_inv t s"
  "rt_inv t (sio_broadcast sid ev s) = rt_inv t s"
  by (simp_all add: emit_defs)

lemma sio_join_frame [simp]:
  "rt_connected (sio_join sid r s) = rt_connected s" "rt_messages (sio_join sid r s) = rt_messages s"
  "rt_rooms (sio_join sid r s) = rt_rooms s" "rt_outbox (sio_join sid r s) = rt_outbox s"
  by (simp_all add: sio_join_def split: option.splits)

lemma sio_join_get:
  "jm_get (rt_sockets (sio_join sid r s)) x =
     (if x = sid then map_option (\<lambda>k. if r \<in> set (s_rooms k) then k else k\<lparr>s_rooms := s_rooms k @ [r]\<rparr>)
                        (jm_get (rt_sockets s) sid)
      else jm_get (rt_sockets s) x)"
  by (auto simp: sio_join_def jm_get_set split: option.splits)

lemma sio_join_wf: "jm_wf (rt_sockets s) \<Longrightarrow> jm_wf (rt_sockets (sio_join sid r s))"
  by (simp add: sio_join_def jm_wf_set split: option.splits)

lemma sio_join_user:
  "jm_get (rt_sockets (sio_join sid r s)) x = Some k' \<Longrightarrow>
   \<exists>k. jm_get (rt_sockets s) x = Some k \<and> s_user k' = s_user k \<and> set (s_rooms k) \<subseteq> set (s_rooms k')"
  by (auto simp: sio_join_get split: if_splits)

lemma sio_join_user_back:
  assumes "jm_get (rt_sockets s) x = Some k"
  shows "\<exists>k'. jm_get (rt_sockets (sio_join sid r s)) x = Some k' \<and> s_user k' = s_user k \<and>
           set (s_rooms k) \<subseteq> set (s_rooms k')"
proof (cases "x = sid \<and> r \<notin> set (s_rooms k)")
  case True
  with assms show ?thesis
    by (intro exI [of _ "k\<lparr>s_rooms := s_rooms k @ [r]\<rparr>"]) (auto simp: sio_join_get)
next
  case False
  with assms show ?thesis
    by (intro exI [of _ k]) (auto simp: sio_join_get)
qed

lemma sio_join_joined:
  "jm_get (rt_sockets s) sid \<noteq> None \<Longrightarrow> jm_get (rt_sockets (sio_join sid r s)) sid = Some k' \<Longrightarrow>
   r \<in> set (s_rooms k')"
  by (auto simp: sio_join_get split: if_splits dest: arg_cong [where f = s_rooms])

subsection \<open>Each handler keeps the invariant\<close>

lemma rt_inv_mono: "rt_inv t s \<Longrightarrow> t \<le> t' \<Longrightarrow> rt_inv t' s"
  by (fastforce simp: rt_inv_def)

lemma rt_inv_join:
  assumes inv: "rt_inv t s"
  shows "rt_inv t (sio_join sid r s)"
proof (rule rt_invI)
  show "presence_inv (rt_connected (sio_join sid r s))" "jm_wf (rt_messages (sio_join sid r s))"
    "jm_wf (rt_sockets (sio_join sid r s))"
    using rt_invD [OF inv] by (simp_all add: sio_join_wf)
next
  fix u p
  assume "jm_get (rt_connected (sio_join sid r s)) u = Some p"
  then obtain k where "jm_get (rt_sockets s) (p_socket p) = Some k" "s_user k = p_user p"
    using rt_inv_entry [OF inv] by auto
  then show "\<exists>k. jm_get (rt_sockets (sio_join sid r s)) (p_socket p) = Some k \<and> s_user k = p_user p"
    using sio_join_user_back by fastforce
next
  fix x k'
  assume "jm_get (rt_sockets (sio_join sid r s)) x = Some k'"
  then obtain k where "jm_get (rt_sockets s) x = Some k" "set (s_rooms k) \<subseteq> set (s_rooms k')"
    using sio_join_user by blast
  with rt_inv_rooms [OF inv] show "x \<in> set (s_rooms k') \<and> js ''general'' \<in> set (s_rooms k')"
    by blast
next
  fix r' xs
  assume "jm_get (rt_messages (sio_join sid r s)) r' = Some xs"
  with rt_inv_log [OF inv] show "sorted (map timestamp xs) \<and> (\<forall>m \<in> set xs. timestamp m \<le> t)"
    by simp
qed

lemma rt_inv_on_join_room: "rt_inv t s \<Longrightarrow> rt_inv t (on_join_room sid r s)"
  by (simp add: on_join_room_def rt_inv_join)

lemma rt_inv_typing:
  "rt_inv t (on_typing_start sid u r s) = rt_inv t s"
  "rt_inv t (on_typing_stop sid u r s) = rt_inv t s"
  by (simp_all add: on_typing_start_def on_typing_stop_def rt_inv_emit)

lemma log_append_wf: "jm_wf ms \<Longrightarrow> jm_wf (log_append r m ms)"
  by (simp add: log_append_def Let_def jm_wf_set split: option.splits)

lemma log_append_timed:
  assumes "\<And>r xs. jm_get ms r = Some xs \<Longrightarrow> sorted (map timestamp xs) \<and> (\<forall>x \<in> set xs. timestamp x \<le> t)"
    and "t \<le> timestamp m" and "jm_get (log_append r m ms) r' = Some xs"
  shows "sorted (map timestamp xs) \<and> (\<forall>x \<in> set xs. timestamp x \<le> timestamp m)"
proof (cases "r' = r")
  case True
  then have xs: "xs = api_messages ms r @ [m]"
    using assms(3) by (simp add: log_append_get)
  have "sorted (map timestamp (api_messages ms r)) \<and> (\<forall>x \<in> set (api_messages ms r). timestamp x \<le> t)"
    using assms(1) by (simp add: api_messages_def split: option.splits)
  with xs assms(2) show ?thesis
    by (auto simp: sorted_append)
next
  case False
  then have "jm_get ms r' = Some xs"
    using assms(3) by (simp add: log_append_get)
  with assms(1,2) show ?thesis by fastforce
qed

lemma rt_inv_send:
  assumes inv: "rt_inv t s" and le: "t \<le> now" and ok: "on_send_message u tid now d s = Inr s'"
  shows "rt_inv now s'"
proof -
  obtain dd where d: "d = Some dd" using ok by (cases d) (auto simp: on_send_message_def)
  let ?m = "new_message u tid now dd"
  let ?s1 = "s\<lparr>rt_messages := log_append (sd_room dd) ?m (rt_messages s)\<rparr>"
  have s': "s' = sio_to_room (sd_room dd) (NewMessage ?m) ?s1"
    using ok d by (simp add: on_send_message_def Let_def)
  have "rt_inv now ?s1"
  proof (rule rt_invI)
    show "presence_inv (rt_connected ?s1)" "jm_wf (rt_sockets ?s1)" "jm_wf (rt_messages ?s1)"
      using rt_invD [OF inv] by (simp_all add: log_append_wf)
    show "\<And>u p. jm_get (rt_connected ?s1) u = Some p \<Longrightarrow>
            \<exists>k. jm_get (rt_sockets ?s1) (p_socket p) = Some k \<and> s_user k = p_user p"
      using rt_inv_entry [OF inv] by simp
    show "\<And>sid k. jm_get (rt_sockets ?s1) sid = Some k \<Longrightarrow>
            sid \<in> set (s_rooms k) \<and> js ''general'' \<in> set (s_rooms k)"
      using rt_inv_rooms [OF inv] by simp
    show "\<And>r xs. jm_get (rt_messages ?s1) r = Some xs \<Longrightarrow>
            sorted (map timestamp xs) \<and> (\<forall>m \<in> set xs. timestamp m \<le> now)"
      using log_append_timed [of "rt_messages s" t ?m] rt_inv_log [OF inv] le
      by (simp add: new_message_def)
  qed
  with s' show ?thesis by (simp add: rt_inv_emit)
qed

lemma rt_inv_sweep:
  assumes inv: "rt_inv t s" and le: "t \<le> now"
  shows "rt_inv now (on_sweep now s)"
proof (rule rt_invI)
  have wf: "jm_wf (rt_messages s)" by (rule rt_inv_messages_wf [OF inv])
  show "presence_inv (rt_connected (on_sweep now s))" "jm_wf (rt_sockets (on_sweep now s))"
    using rt_invD [OF inv] by (simp_all add: on_sweep_def)
  show "jm_wf (rt_messages (on_sweep now s))"
    using wf by (simp add: on_sweep_def sweep_eq_map_ran jm_wf_def distinct_map_ran)
  show "\<And>u p. jm_get (rt_connected (on_sweep now s)) u = Some p \<Longrightarrow>
          \<exists>k. jm_get (rt_sockets (on_sweep now s)) (p_socket p) = Some k \<and> s_user k = p_user p"
    using rt_inv_entry [OF inv] by (simp add: on_sweep_def)
  show "\<And>sid k. jm_get (rt_sockets (on_sweep now s)) sid = Some k \<Longrightarrow>
          sid \<in> set (s_rooms k) \<and> js ''general'' \<in> set (s_rooms k)"
    using rt_inv_rooms [OF inv] by (simp add: on_sweep_def)
next
  fix r xs
  assume "jm_get (rt_messages (on_sweep now s)) r = Some xs"
  then obtain ys where ys: "jm_get (rt_messages s) r = Some ys"
    and xs: "xs = keep_recent (int now - 2 * 60 * 60 * 1000) ys"
    using rt_inv_messages_wf [OF inv] by (auto simp: on_sweep_def sweep_get)
  have "set xs \<subseteq> set ys"
    using xs keep_recent_set by fastforce
  with rt_inv_log [OF inv ys] le xs show "sorted (map timestamp xs) \<and> (\<forall>m \<in> set xs. timestamp m \<le> now)"
    by (fastforce simp: keep_recent_sorted)
qed

lemma on_connection_frame:
  "rt_connected (on_connection sid u s) = presence_register sid u (rt_connected s)"
  "rt_sockets (on_connection sid u s) = rt_sockets (sio_join sid (js ''general'') s)"
  "rt_messages (on_connection sid u s) = rt_messages s"
  by (simp_all add: on_connection_def Let_def sio_join_def split: option.splits)

lemma connect_sockets_get:
  "jm_get (rt_sockets (sio_join sid g (sio_add sid u s))) x =
     (if x = sid then Some \<lparr>s_user = u, s_rooms = (if g = sid then [sid] else [sid, g])\<rparr>
      else jm_get (rt_sockets s) x)"
  by (simp add: sio_join_get sio_add_def jm_get_set)

lemma rt_inv_connect:
  assumes inv: "rt_inv t s" and fresh: "\<not> jm_has (rt_sockets s) sid"
  shows "rt_inv t (on_connection sid u (sio_add sid u s))"
proof (rule rt_invI)
  let ?s = "on_connection sid u (sio_add sid u s)"
  have get: "\<And>x. jm_get (rt_sockets ?s) x =
     (if x = sid then Some \<lparr>s_user = u, s_rooms = (if js ''general'' = sid then [sid] else [sid, js ''general''])\<rparr>
      else jm_get (rt_sockets s) x)"
    by (simp add: on_connection_frame connect_sockets_get)
  show "presence_inv (rt_connected ?s)"
    using rt_inv_presence [OF inv] by (simp add: on_connection_frame sio_add_def presence_register_inv)
  show "jm_wf (rt_sockets ?s)"
    using rt_inv_sockets_wf [OF inv] by (simp add: on_connection_frame sio_join_wf sio_add_def jm_wf_set)
  show "jm_wf (rt_messages ?s)"
    using rt_inv_messages_wf [OF inv] by (simp add: on_connection_frame sio_add_def)
  show "\<And>sid' k. jm_get (rt_sockets ?s) sid' = Some k \<Longrightarrow>
          sid' \<in> set (s_rooms k) \<and> js ''general'' \<in> set (s_rooms k)"
    using rt_inv_rooms [OF inv] by (auto simp: get split: if_splits)
  show "\<And>r xs. jm_get (rt_messages ?s) r = Some xs \<Longrightarrow>
          sorted (map timestamp xs) \<and> (\<forall>m \<in> set xs. timestamp m \<le> t)"
    using rt_inv_log [OF inv] by (simp add: on_connection_frame sio_add_def)
next
  fix v p
  assume "jm_get (rt_connected (on_connection sid u (sio_add sid u s))) v = Some p"
  then have "v = uid u \<and> p = \<lparr>p_socket = sid, p_user = u, p_status = Online\<rparr> \<or>
             v \<noteq> uid u \<and> jm_get (rt_connected s) v = Some p"
    by (auto simp: on_connection_frame sio_add_def split: if_splits)
  then show "\<exists>k. jm_get (rt_sockets (on_connection sid u (sio_add sid u s))) (p_socket p) = Some k \<and>
               s_user k = p_user p"
  proof
    assume "v = uid u \<and> p = \<lparr>p_socket = sid, p_user = u, p_status = Online\<rparr>"
    then show ?thesis by (simp add: on_connection_frame connect_sockets_get)
  next
    assume "v \<noteq> uid u \<and> jm_get (rt_connected s) v = Some p"
    then obtain k where k: "jm_get (rt_sockets s) (p_socket p) = Some k" "s_user k = p_user p"
      using rt_inv_entry [OF inv] by blast
    with fresh have "p_socket p \<noteq> sid" by (auto simp: jm_has_get)
    with k show ?thesis by (simp add: on_connection_frame connect_sockets_get)
  qed
qed

lemma rt_inv_disconnect:
  assumes inv: "rt_inv t s" and k: "jm_get (rt_sockets s) sid = Some k"
  shows "rt_inv t (on_disconnect sid (s_user k) (sio_remove sid s))"
proof (rule rt_invI)
  let ?s = "on_disconnect sid (s_user k) (sio_remove sid s)"
  have wf: "jm_wf (rt_sockets s)" by (rule rt_inv_sockets_wf [OF inv])
  have conn: "rt_connected ?s = presence_unregister (s_user k) (rt_connected s)"
    and socks: "rt_sockets ?s = jm_delete sid (rt_sockets s)"
    and msgs: "rt_messages ?s = rt_messages s"
    by (simp_all add: on_disconnect_def Let_def sio_remove_def)
  show "presence_inv (rt_connected ?s)"
    using rt_inv_presence [OF inv] by (simp add: conn presence_unregister_inv)
  show "jm_wf (rt_sockets ?s)" "jm_wf (rt_messages ?s)"
    using rt_invD [OF inv] by (simp_all add: socks msgs jm_wf_delete)
  show "\<And>sid' k'. jm_get (rt_sockets ?s) sid' = Some k' \<Longrightarrow>
          sid' \<in> set (s_rooms k') \<and> js ''general'' \<in> set (s_rooms k')"
    using rt_inv_rooms [OF inv] wf by (simp add: socks jm_get_delete split: if_splits)
  show "\<And>r xs. jm_get (rt_messages ?s) r = Some xs \<Longrightarrow>
          sorted (map timestamp xs) \<and> (\<forall>m \<in> set xs. timestamp m \<le> t)"
    using rt_inv_log [OF inv] by (simp add: msgs)
next
  fix v p
  assume "jm_get (rt_connected (on_disconnect sid (s_user k) (sio_remove sid s))) v = Some p"
  then have v: "v \<noteq> uid (s_user k)" and p: "jm_get (rt_connected s) v = Some p"
    using rt_inv_presence [OF inv]
    by (simp_all add: on_disconnect_def Let_def sio_remove_def presence_unregister_get split: if_splits)
  obtain k' where k': "jm_get (rt_sockets s) (p_socket p) = Some k'" "s_user k' = p_user p"
    using rt_inv_entry [OF inv p] by blast
  have "uid (p_user p) = v"
    using presence_inv_key [OF rt_inv_presence [OF inv] p] .
  with v k k' have "p_socket p \<noteq> sid" by auto
  with k' rt_inv_sockets_wf [OF inv]
  show "\<exists>k''. jm_get (rt_sockets (on_disconnect sid (s_user k) (sio_remove sid s))) (p_socket p) = Some k'' \<and>
          s_user k'' = p_user p"
    by (simp add: on_disconnect_def Let_def sio_remove_def jm_get_delete)
qed

lemma rt_inv_init: "rt_inv t0 (rt_init t0)"
  by (simp add: rt_inv_def rt_init_def)

lemma rt_inv_step:
  assumes inv: "rt_inv t s" and le: "t \<le> t'" and fresh: "fresh_event ev s"
    and step: "rt_step verify t' ev s = Inr s'"
  shows "rt_inv t' s'"
proof -
  have inv': "rt_inv t' s" using inv le by (rule rt_inv_mono)
  show ?thesis
  proof (cases ev)
    case (Connect sid tok)
    with step fresh inv' show ?thesis
      by (auto simp: rt_inv_connect split: sum.splits)
  next
    case (JoinRoom sid r)
    with step inv' show ?thesis
      by (auto simp: rt_inv_on_join_room split: option.splits)
  next
    case (SendMessage sid d lag)
    with step inv le show ?thesis
      by (auto intro: rt_inv_send rt_inv_mono split: option.splits)
  next
    case (TypingStart sid r)
    with step inv' show ?thesis
      by (auto simp: rt_inv_typing split: option.splits)
  next
    case (TypingStop sid r)
    with step inv' show ?thesis
      by (auto simp: rt_inv_typing split: option.splits)
  next
    case (Disconnect sid)
    with step inv' show ?thesis
      by (auto simp: rt_inv_disconnect split: option.splits)
  next
    case SweepTick
    with step inv le show ?thesis
      by (auto intro: rt_inv_sweep)
  qed
qed

lemma reachable_rt_inv: "reachable verify t s \<Longrightarrow> rt_inv t s"
proof (induction rule: reachable.induct)
  case (init t0)
  show ?case by (rule rt_inv_init)
next
  case (step t s t' ev s')
  then show ?case by (blast intro: rt_inv_step)
qed

subsection \<open>Delivery lemmas\<close>

lemma inbox_deliver: "inbox x (deliver ts ev s) = inbox x s @ map (\<lambda>_. ev) (filter (\<lambda>t. t = x) ts)"
  by (simp add: inbox_def deliver_def filter_map comp_def)

lemma filter_eq_single: "distinct ts \<Longrightarrow> x \<in> set ts \<Longrightarrow> filter (\<lambda>t. t = x) ts = [x]"
  by (induction ts) (auto simp: filter_empty_conv)

lemma room_members_distinct: "jm_wf (rt_sockets s) \<Longrightarrow> distinct (room_members r s)"
  by (simp add: room_members_def jm_wf_def distinct_map_filter)

lemma room_members_iff: "x \<in> set (room_members r s) \<longleftrightarrow> (\<exists>k. (x, k) \<in> set (rt_sockets s) \<and> r \<in> set (s_rooms k))"
  by (force simp: room_members_def)

lemma room_members_get:
  "jm_get (rt_sockets s) x = Some k \<Longrightarrow> r \<in> set (s_rooms k) \<Longrightarrow> x \<in> set (room_members r s)"
  by (auto simp: room_members_iff dest: map_of_SomeD)

lemma room_members_wf:
  "jm_wf (rt_sockets s) \<Longrightarrow> x \<in> set (room_members r s) \<longleftrightarrow>
     (\<exists>k. jm_get (rt_sockets s) x = Some k \<and> r \<in> set (s_rooms k))"
  by (auto simp: room_members_iff jm_wf_def dest: map_of_SomeD)

lemma own_room_member:
  "rt_inv t s \<Longrightarrow> jm_get (rt_sockets s) sid = Some k \<Longrightarrow> sid \<in> set (room_members sid s)"
  using rt_inv_rooms room_members_get by blast

lemma deliver_once:
  "distinct ts \<Longrightarrow> x \<in> set ts \<Longrightarrow> inbox x (deliver ts ev s) = inbox x s @ [ev]"
  by (simp add: inbox_deliver filter_eq_single)

lemma deliver_none:
  "x \<notin> set ts \<Longrightarrow> inbox x (deliver ts ev s) = inbox x s"
  by (auto simp: inbox_deliver filter_empty_conv)

lemma send_step:
  "jm_get (rt_sockets s) sid = Some k \<Longrightarrow>
   rt_step verify now (SendMessage sid (Some d) lag) s =
   Inr (deliver (room_members (sd_room d) s) (NewMessage (new_message (s_user k) (now - lag) now d))
         (s\<lparr>rt_messages := log_append (sd_room d) (new_message (s_user k) (now - lag) now d) (rt_messages s)\<rparr>))"
  by (simp add: on_send_message_def sio_to_room_def room_members_def Let_def)

lemma disconnect_step:
  "jm_get (rt_sockets s) sid = Some k \<Longrightarrow>
   rt_step verify now (Disconnect sid) s = Inr (on_disconnect sid (s_user k) (sio_remove sid s))"
  by simp

lemma to_except_inbox:
  assumes inv: "rt_inv t s" and k: "jm_get (rt_sockets s) sid = Some k"
  shows "inbox sid (sio_to_except sid r ev s) = inbox sid s \<and>
         (\<forall>x \<in> set (room_members r s). x \<notin> set (room_members sid s) \<longrightarrow>
            inbox x (sio_to_except sid r ev s) = inbox x s @ [ev])"
proof -
  let ?ts = "filter (\<lambda>x. x \<notin> set (room_members sid s)) (room_members r s)"
  have "sid \<notin> set ?ts"
    using own_room_member [OF inv k] by simp
  moreover have "distinct ?ts"
    using room_members_distinct [OF rt_inv_sockets_wf [OF inv]] by simp
  ultimately show ?thesis
    by (simp add: sio_to_except_def deliver_none deliver_once)
qed

lemma reachable_wf: "reachable verify t s \<Longrightarrow> jm_wf (rt_sockets s)"
  using reachable_rt_inv rt_inv_sockets_wf by blast

lemma sio_join_sockets_indep:
  "rt_sockets (sio_join sid r (s\<lparr>rt_connected := c\<rparr>)) = rt_sockets (sio_join sid r s)"
  by (simp add: sio_join_def split: option.splits)

lemma users_list_member:
  "jm_get c k = Some p \<Longrightarrow>
   \<lparr>ue_id = uid (p_user p), ue_name = display_name (p_user p), ue_status = p_status p\<rparr> \<in> set (users_list c)"
  by (force simp: users_list_def dest: map_of_SomeD)

lemma connect_step:
  "rt_step verify now (Connect sid tok) s = Inr s' \<Longrightarrow>
   \<exists>t u. tok = Some t \<and> t \<noteq> [] \<and> verify t = Some u \<and> s' = on_connection sid u (sio_add sid u s)"
  by (auto simp: authenticate_def split: option.splits if_splits sum.splits)

lemma rt_step_rooms: "rt_step verify now ev s = Inr s' \<Longrightarrow> rt_rooms s' = rt_rooms s"
  by (cases ev)
     (auto simp: on_connection_def on_join_room_def on_send_message_def on_typing_start_def
        on_typing_stop_def on_disconnect_def on_sweep_def Let_def sio_add_def sio_remove_def
        split: sum.splits option.splits)

lemma reachable_rooms: "reachable verify t s \<Longrightarrow> \<exists>t0. rt_rooms s = initial_rooms t0"
proof (induction rule: reachable.induct)
  case (init t0)
  then show ?case by (auto simp: rt_init_def)
next
  case (step t s t' ev s')
  then show ?case by (metis rt_step_rooms)
qed

lemma demo_two_sessions:
  "\<exists>s. reachable demo_verify 2 s \<and>
     jm_get (rt_sockets s) (js ''s1'') = Some \<lparr>s_user = demo_user, s_rooms = [js ''s1'', js ''general'']\<rparr> \<and>
     jm_get (rt_sockets s) (js ''s2'') = Some \<lparr>s_user = demo_user, s_rooms = [js ''s2'', js ''general'']\<rparr> \<and>
     jm_get (rt_connected s) (js ''1'') = Some \<lparr>p_socket = js ''s2'', p_user = demo_user, p_status = Online\<rparr>"
proof -
  obtain s1 where s1: "rt_step demo_verify 1 (Connect (js ''s1'') (Some (js ''tokA''))) (rt_init 0) = Inr s1"
    by (simp add: authenticate_def demo_verify_def js_def)
  have r1: "reachable demo_verify 1 s1"
    by (rule reachable.step [OF reachable.init _ _ s1]) (simp_all add: rt_init_def jm_has_def)
  obtain s2 where s2: "rt_step demo_verify 2 (Connect (js ''s2'') (Some (js ''tokA''))) s1 = Inr s2"
    by (simp add: authenticate_def demo_verify_def js_def)
  have "fresh_event (Connect (js ''s2'') (Some (js ''tokA''))) s1"
    using s1 by (clarsimp simp add: model_defs demo_verify_def del: set_map set_filter) (simp add: jm_has_def)
  then have r2: "reachable demo_verify 2 s2"
    by (rule reachable.step [OF r1 _ _ s2, rotated]) simp
  have "jm_get (rt_sockets s2) (js ''s1'') = Some \<lparr>s_user = demo_user, s_rooms = [js ''s1'', js ''general'']\<rparr> \<and>
     jm_get (rt_sockets s2) (js ''s2'') = Some \<lparr>s_user = demo_user, s_rooms = [js ''s2'', js ''general'']\<rparr> \<and>
     jm_get (rt_connected s2) (js ''1'') = Some \<lparr>p_socket = js ''s2'', p_user = demo_user, p_status = Online\<rparr>"
    using s1 s2 by (clarsimp simp add: model_defs demo_verify_def demo_user_def del: set_map set_filter)
  with r2 show ?thesis by blast
qed

subsection \<open>Properties of the session engine\<close>

text \<open>C1: in every reachable state the presence registry has at most one entry per
  identity, and the roster sent to a new connection (\<open>users-list\<close>) names every
  identity at most once.\<close>

theorem reachable_presence_unique:
  assumes "reachable verify t s"
  shows "distinct (jm_keys (rt_connected s)) \<and> distinct (map ue_id (users_list (rt_connected s)))"
proof -
  have inv: "presence_inv (rt_connected s)"
    using assms reachable_rt_inv rt_inv_presence by blast
  then have "map ue_id (users_list (rt_connected s)) = jm_keys (rt_connected s)"
    by (simp only: users_list_ids presence_inv_ids [OF inv])
  with inv show ?thesis
    by (metis presence_inv_wf jm_wf_def)
qed

theorem reachable_presence_unique_witness:
  "\<exists>s. reachable demo_verify 2 s \<and> distinct (jm_keys (rt_connected s)) \<and>
       distinct (map ue_id (users_list (rt_connected s)))"
proof -
  obtain s where r: "reachable demo_verify 2 s"
    and k1: "jm_get (rt_sockets s) (js ''s1'') = Some \<lparr>s_user = demo_user, s_rooms = [js ''s1'', js ''general'']\<rparr>"
    and k2: "jm_get (rt_sockets s) (js ''s2'') = Some \<lparr>s_user = demo_user, s_rooms = [js ''s2'', js ''general'']\<rparr>"
    and p: "jm_get (rt_connected s) (js ''1'') = Some \<lparr>p_socket = js ''s2'', p_user = demo_user, p_status = Online\<rparr>"
    using demo_two_sessions by blast
  from reachable_presence_unique [OF r] r show ?thesis by blast
qed

text \<open>C2: in every reachable state every identity the registry shows online has a live
  connection: its entry names a connected socket of that same user.\<close>

theorem reachable_presence_live:
  assumes "reachable verify t s" and "jm_get (rt_connected s) u = Some p"
  shows "\<exists>k. jm_get (rt_sockets s) (p_socket p) = Some k \<and> s_user k = p_user p \<and> uid (s_user k) = u"
proof -
  have inv: "rt_inv t s" using assms(1) by (rule reachable_rt_inv)
  obtain k where "jm_get (rt_sockets s) (p_socket p) = Some k" "s_user k = p_user p"
    using rt_inv_entry [OF inv assms(2)] by blast
  moreover have "uid (p_user p) = u"
    using presence_inv_key [OF rt_inv_presence [OF inv] assms(2)] .
  ultimately show ?thesis by auto
qed

theorem reachable_presence_live_witness:
  "\<exists>s. reachable demo_verify 2 s \<and> jm_get (rt_connected s) (js ''1'') = Some \<lparr>p_socket = js ''s2'', p_user = demo_user, p_status = Online\<rparr> \<and>
       (\<exists>k. jm_get (rt_sockets s) (js ''s2'') = Some k \<and> s_user k = demo_user \<and> uid (s_user k) = js ''1'')"
proof -
  obtain s where r: "reachable demo_verify 2 s"
    and k1: "jm_get (rt_sockets s) (js ''s1'') = Some \<lparr>s_user = demo_user, s_rooms = [js ''s1'', js ''general'']\<rparr>"
    and k2: "jm_get (rt_sockets s) (js ''s2'') = Some \<lparr>s_user = demo_user, s_rooms = [js ''s2'', js ''general'']\<rparr>"
    and p: "jm_get (rt_connected s) (js ''1'') = Some \<lparr>p_socket = js ''s2'', p_user = demo_user, p_status = Online\<rparr>"
    using demo_two_sessions by blast
  from reachable_presence_live [OF r p] r p show ?thesis by auto
qed

text \<open>C3: the stale-disconnect race. When one identity has two live connections, the
  disconnect of either one removes the identity from the registry although the other
  connection stays live: the handler deletes by user id alone (line 335), not by the
  connection the entry names as the design requires (spec, sections 4.1 and 9).\<close>

theorem stale_disconnect_evicts:
  assumes "reachable verify t s"
    and "jm_get (rt_sockets s) s1 = Some k1" and "jm_get (rt_sockets s) s2 = Some k2"
    and "s1 \<noteq> s2" and "uid (s_user k1) = uid (s_user k2)"
    and "rt_step verify now (Disconnect s1) s = Inr s'"
  shows "jm_get (rt_sockets s') s2 = Some k2 \<and> \<not> online (rt_connected s') (uid (s_user k2))"
proof -
  have inv: "rt_inv t s" using assms(1) by (rule reachable_rt_inv)
  have s': "s' = on_disconnect s1 (s_user k1) (sio_remove s1 s)"
    using assms(2,6) by simp
  have "jm_get (rt_sockets s') s2 = Some k2"
    using assms(3,4) rt_inv_sockets_wf [OF inv]
    by (simp add: s' on_disconnect_def Let_def sio_remove_def jm_get_delete)
  moreover have "jm_get (rt_connected s') (uid (s_user k2)) = None"
    using assms(5) rt_inv_presence [OF inv]
    by (simp add: s' on_disconnect_def Let_def sio_remove_def presence_unregister_get)
  ultimately show ?thesis
    by (simp add: online_def jm_has_get)
qed

theorem stale_disconnect_evicts_witness:
  "\<exists>s s'. reachable demo_verify 2 s \<and> rt_step demo_verify 3 (Disconnect (js ''s1'')) s = Inr s' \<and>
     jm_get (rt_sockets s') (js ''s2'') = Some \<lparr>s_user = demo_user, s_rooms = [js ''s2'', js ''general'']\<rparr> \<and> \<not> online (rt_connected s') (js ''1'')"
proof -
  obtain s where r: "reachable demo_verify 2 s"
    and k1: "jm_get (rt_sockets s) (js ''s1'') = Some \<lparr>s_user = demo_user, s_rooms = [js ''s1'', js ''general'']\<rparr>"
    and k2: "jm_get (rt_sockets s) (js ''s2'') = Some \<lparr>s_user = demo_user, s_rooms = [js ''s2'', js ''general'']\<rparr>"
    and p: "jm_get (rt_connected s) (js ''1'') = Some \<lparr>p_socket = js ''s2'', p_user = demo_user, p_status = Online\<rparr>"
    using demo_two_sessions by blast
  obtain s' where st: "rt_step demo_verify 3 (Disconnect (js ''s1'')) s = Inr s'"
    using disconnect_step [OF k1] by blast
  have "js ''s1'' \<noteq> js ''s2''" by simp
  from stale_disconnect_evicts [OF r k1 k2 this _ st] r st show ?thesis
    by (auto simp: demo_user_def)
qed

text \<open>C4: a message sent from a live socket is appended at the end of its room's log (the
  log is created when the room has none) and delivered, once, to every socket in the room,
  the sender included when it has joined the room; it carries the sender's id and name
  and the send time. Nothing else of the state changes. No check of membership, of the
  room's existence or of blank content stands in the way.\<close>

theorem send_message_delivers:
  assumes "jm_get (rt_sockets s) sid = Some k"
    and "rt_step verify now (SendMessage sid (Some d) lag) s = Inr s'"
  shows "api_messages (rt_messages s') (sd_room d) =
           api_messages (rt_messages s) (sd_room d) @ [new_message (s_user k) (now - lag) now d] \<and>
         rt_sockets s' = rt_sockets s \<and> rt_connected s' = rt_connected s \<and>
         rt_outbox s' = rt_outbox s @
           map (\<lambda>x. (x, NewMessage (new_message (s_user k) (now - lag) now d))) (room_members (sd_room d) s) \<and>
         sender_id (new_message (s_user k) (now - lag) now d) = uid (s_user k) \<and>
         timestamp (new_message (s_user k) (now - lag) now d) = now"
proof -
  have "s' = deliver (room_members (sd_room d) s) (NewMessage (new_message (s_user k) (now - lag) now d))
              (s\<lparr>rt_messages := log_append (sd_room d) (new_message (s_user k) (now - lag) now d) (rt_messages s)\<rparr>)"
    using assms(2) unfolding send_step [OF assms(1)] by simp
  then show ?thesis
    by (simp add: deliver_def log_append_get api_messages_def new_message_def)
qed

theorem send_message_delivers_witness:
  "\<exists>s s'. reachable demo_verify 2 s \<and>
     rt_step demo_verify 3 (SendMessage (js ''s1'') (Some \<lparr>sd_room = js ''general'', sd_content = js ''hi'', sd_type = None\<rparr>) 0) s = Inr s' \<and>
     api_messages (rt_messages s') (js ''general'') =
       api_messages (rt_messages s) (js ''general'') @ [new_message demo_user 3 3 \<lparr>sd_room = js ''general'', sd_content = js ''hi'', sd_type = None\<rparr>]"
proof -
  obtain s where r: "reachable demo_verify 2 s"
    and k1: "jm_get (rt_sockets s) (js ''s1'') = Some \<lparr>s_user = demo_user, s_rooms = [js ''s1'', js ''general'']\<rparr>"
    and k2: "jm_get (rt_sockets s) (js ''s2'') = Some \<lparr>s_user = demo_user, s_rooms = [js ''s2'', js ''general'']\<rparr>"
    and p: "jm_get (rt_connected s) (js ''1'') = Some \<lparr>p_socket = js ''s2'', p_user = demo_user, p_status = Online\<rparr>"
    using demo_two_sessions by blast
  obtain s' where st: "rt_step demo_verify 3 (SendMessage (js ''s1'') (Some \<lparr>sd_room = js ''general'', sd_content = js ''hi'', sd_type = None\<rparr>) 0) s = Inr s'"
    using send_step [OF k1] by blast
  from send_message_delivers [OF k1 st] r st show ?thesis by auto
qed

text \<open>C5: per-room delivery order. Two messages sent one after the other to the same room,
  from the same or from different sockets, reach every member of the room in the order
  they were sent, each once.\<close>

theorem send_order_per_room:
  assumes "reachable verify t s"
    and "jm_get (rt_sockets s) a = Some ka" and "jm_get (rt_sockets s) b = Some kb"
    and "sd_room d2 = sd_room d1" and "x \<in> set (room_members (sd_room d1) s)"
    and "rt_step verify t1 (SendMessage a (Some d1) lag1) s = Inr s1"
    and "rt_step verify t2 (SendMessage b (Some d2) lag2) s1 = Inr s2"
  shows "inbox x s2 = inbox x s @ [NewMessage (new_message (s_user ka) (t1 - lag1) t1 d1),
                                   NewMessage (new_message (s_user kb) (t2 - lag2) t2 d2)]"
proof -
  have dist: "distinct (room_members (sd_room d1) s)"
    using reachable_wf [OF assms(1)] by (rule room_members_distinct)
  let ?s1 = "s\<lparr>rt_messages := log_append (sd_room d1) (new_message (s_user ka) (t1 - lag1) t1 d1) (rt_messages s)\<rparr>"
  have s1: "s1 = deliver (room_members (sd_room d1) s) (NewMessage (new_message (s_user ka) (t1 - lag1) t1 d1)) ?s1"
    using assms(6) unfolding send_step [OF assms(2)] by simp
  have socks: "rt_sockets s1 = rt_sockets s"
    by (simp add: s1)
  have mem: "room_members (sd_room d2) s1 = room_members (sd_room d1) s"
    using assms(4) by (simp add: room_members_def socks)
  have s2: "s2 = deliver (room_members (sd_room d1) s) (NewMessage (new_message (s_user kb) (t2 - lag2) t2 d2))
                  (s1\<lparr>rt_messages := log_append (sd_room d2) (new_message (s_user kb) (t2 - lag2) t2 d2) (rt_messages s1)\<rparr>)"
    using assms(3,7) socks mem send_step [of s1 b kb verify t2 d2] by (simp del: rt_step.simps)
  have "inbox x s1 = inbox x ?s1 @ [NewMessage (new_message (s_user ka) (t1 - lag1) t1 d1)]"
    unfolding s1 using dist assms(5) by (rule deliver_once)
  moreover have "inbox x s2 = inbox x (s1\<lparr>rt_messages := log_append (sd_room d2)
                    (new_message (s_user kb) (t2 - lag2) t2 d2) (rt_messages s1)\<rparr>) @ [NewMessage (new_message (s_user kb) (t2 - lag2) t2 d2)]"
    unfolding s2 using dist assms(5) by (rule deliver_once)
  ultimately show ?thesis
    by (simp add: inbox_def)
qed

theorem send_order_per_room_witness:
  "\<exists>s s1 s2. reachable demo_verify 2 s \<and>
     rt_step demo_verify 3 (SendMessage (js ''s1'') (Some \<lparr>sd_room = js ''general'', sd_content = js ''a'', sd_type = None\<rparr>) 0) s = Inr s1 \<and>
     rt_step demo_verify 4 (SendMessage (js ''s2'') (Some \<lparr>sd_room = js ''general'', sd_content = js ''b'', sd_type = None\<rparr>) 0) s1 = Inr s2 \<and>
     inbox (js ''s1'') s2 = inbox (js ''s1'') s @
       [NewMessage (new_message demo_user 3 3 \<lparr>sd_room = js ''general'', sd_content = js ''a'', sd_type = None\<rparr>), NewMessage (new_message demo_user 4 4 \<lparr>sd_room = js ''general'', sd_content = js ''b'', sd_type = None\<rparr>)]"
proof -
  obtain s where r: "reachable demo_verify 2 s"
    and k1: "jm_get (rt_sockets s) (js ''s1'') = Some \<lparr>s_user = demo_user, s_rooms = [js ''s1'', js ''general'']\<rparr>"
    and k2: "jm_get (rt_sockets s) (js ''s2'') = Some \<lparr>s_user = demo_user, s_rooms = [js ''s2'', js ''general'']\<rparr>"
    and p: "jm_get (rt_connected s) (js ''1'') = Some \<lparr>p_socket = js ''s2'', p_user = demo_user, p_status = Online\<rparr>"
    using demo_two_sessions by blast
  obtain s1 where st1: "rt_step demo_verify 3 (SendMessage (js ''s1'') (Some \<lparr>sd_room = js ''general'', sd_content = js ''a'', sd_type = None\<rparr>) 0) s = Inr s1"
    using send_step [OF k1] by blast
  have "rt_sockets s1 = rt_sockets s"
    using st1 unfolding send_step [OF k1] by (auto simp: deliver_def)
  then have k2': "jm_get (rt_sockets s1) (js ''s2'') = Some \<lparr>s_user = demo_user, s_rooms = [js ''s2'', js ''general'']\<rparr>"
    using k2 by simp
  obtain s2 where st2: "rt_step demo_verify 4 (SendMessage (js ''s2'') (Some \<lparr>sd_room = js ''general'', sd_content = js ''b'', sd_type = None\<rparr>) 0) s1 = Inr s2"
    using send_step [OF k2'] by blast
  have "js ''s1'' \<in> set (room_members (js ''general'') s)"
    using k1 by (rule room_members_get) simp
  from send_order_per_room [OF r k1 k2 _ _ st1 st2] this r st1 st2 show ?thesis
    by auto
qed

text \<open>C6: when a live socket disconnects, its user is no longer online, the socket is
  gone, and every remaining socket receives exactly one \<open>user-offline\<close> event for that
  user (every socket, whether or not it shares a room with the one that left; Socket.IO
  leaves out only sockets that joined a room named after the leaving socket's id).\<close>

theorem disconnect_offline:
  assumes "reachable verify t s" and "jm_get (rt_sockets s) sid = Some k"
    and "rt_step verify now (Disconnect sid) s = Inr s'"
  shows "\<not> online (rt_connected s') (uid (s_user k)) \<and> \<not> jm_has (rt_sockets s') sid \<and>
         (\<forall>x \<in> set (jm_keys (rt_sockets s')). x \<notin> set (room_members sid s') \<longrightarrow>
            inbox x s' = inbox x s @ [UserOffline (uid (s_user k)) (display_name (s_user k))])"
proof -
  have inv: "rt_inv t s" using assms(1) by (rule reachable_rt_inv)
  have wf: "jm_wf (rt_sockets s)" by (rule rt_inv_sockets_wf [OF inv])
  let ?s1 = "(sio_remove sid s)\<lparr>rt_connected := presence_unregister (s_user k) (rt_connected s)\<rparr>"
  let ?ev = "UserOffline (uid (s_user k)) (display_name (s_user k))"
  have s': "s' = sio_broadcast sid ?ev ?s1"
    using assms(2,3) by (simp add: on_disconnect_def Let_def sio_remove_def)
  have socks: "rt_sockets s' = jm_delete sid (rt_sockets s)"
    by (simp add: s' sio_remove_def)
  have "\<not> online (rt_connected s') (uid (s_user k))"
    using rt_inv_presence [OF inv]
    by (simp add: s' sio_remove_def online_def jm_has_get presence_unregister_get)
  moreover have "\<not> jm_has (rt_sockets s') sid"
    using wf by (simp add: socks jm_has_get jm_get_delete)
  moreover have "inbox x s' = inbox x s @ [?ev]"
    if "x \<in> set (jm_keys (rt_sockets s'))" "x \<notin> set (room_members sid s')" for x
  proof -
    let ?ts = "filter (\<lambda>t. t \<notin> set (room_members sid ?s1)) (jm_keys (rt_sockets ?s1))"
    have "distinct (jm_keys (rt_sockets ?s1))"
      using jm_wf_delete [OF wf, of sid] by (simp add: sio_remove_def jm_wf_def)
    then have "distinct ?ts" by simp
    moreover have "x \<in> set ?ts"
      using that by (simp add: s' sio_remove_def room_members_def emit_defs)
    ultimately have "inbox x (deliver ?ts ?ev ?s1) = inbox x ?s1 @ [?ev]"
      by (rule deliver_once)
    then show ?thesis
      by (simp add: s' sio_broadcast_def inbox_def sio_remove_def)
  qed
  ultimately show ?thesis by blast
qed

theorem disconnect_offline_witness:
  "\<exists>s s'. reachable demo_verify 2 s \<and> rt_step demo_verify 3 (Disconnect (js ''s2'')) s = Inr s' \<and>
     \<not> online (rt_connected s') (js ''1'') \<and>
     inbox (js ''s1'') s' = inbox (js ''s1'') s @ [UserOffline (js ''1'') (js ''A'')]"
proof -
  obtain s where r: "reachable demo_verify 2 s"
    and k1: "jm_get (rt_sockets s) (js ''s1'') = Some \<lparr>s_user = demo_user, s_rooms = [js ''s1'', js ''general'']\<rparr>"
    and k2: "jm_get (rt_sockets s) (js ''s2'') = Some \<lparr>s_user = demo_user, s_rooms = [js ''s2'', js ''general'']\<rparr>"
    and p: "jm_get (rt_connected s) (js ''1'') = Some \<lparr>p_socket = js ''s2'', p_user = demo_user, p_status = Online\<rparr>"
    using demo_two_sessions by blast
  obtain s' where st: "rt_step demo_verify 3 (Disconnect (js ''s2'')) s = Inr s'"
    using disconnect_step [OF k2] by blast
  have wf: "jm_wf (rt_sockets s)" using r by (rule reachable_wf)
  have socks: "rt_sockets s' = jm_delete (js ''s2'') (rt_sockets s)"
    using st k2 by (auto simp: on_disconnect_def Let_def sio_remove_def emit_defs)
  then have get1: "jm_get (rt_sockets s') (js ''s1'') = Some \<lparr>s_user = demo_user, s_rooms = [js ''s1'', js ''general'']\<rparr>"
    using wf k1 by (simp add: jm_get_delete)
  then have "js ''s1'' \<in> set (jm_keys (rt_sockets s'))"
    by (force dest: map_of_SomeD)
  moreover have "js ''s1'' \<notin> set (room_members (js ''s2'') s')"
    using get1 wf socks by (simp add: room_members_wf jm_wf_delete)
  ultimately have inb: "inbox (js ''s1'') s' = inbox (js ''s1'') s @ [UserOffline (js ''1'') (js ''A'')]"
    using disconnect_offline [OF r k2 st] by (fastforce simp: demo_user_def)
  have "\<not> online (rt_connected s') (js ''1'')"
    using disconnect_offline [OF r k2 st] by (simp add: demo_user_def)
  with inb r st show ?thesis
    by (intro exI [of _ s] exI [of _ s']) simp
qed

text \<open>C7: a connection whose token verifies registers its user as online on this socket
  (replacing an earlier entry of the same user), joins the socket to \<open>general\<close>, and
  sends the socket exactly one event, the roster of online users, which lists the new
  user.\<close>

theorem connect_registers:
  assumes "rt_step verify now (Connect sid tok) s = Inr s'"
  shows "\<exists>t u. tok = Some t \<and> t \<noteq> [] \<and> verify t = Some u \<and>
           jm_get (rt_connected s') (uid u) = Some \<lparr>p_socket = sid, p_user = u, p_status = Online\<rparr> \<and>
           sid \<in> set (room_members (js ''general'') s') \<and>
           \<lparr>ue_id = uid u, ue_name = display_name u, ue_status = Online\<rparr> \<in> set (users_list (rt_connected s')) \<and>
           inbox sid s' = inbox sid s @ [UsersList (users_list (rt_connected s'))]"
proof -
  obtain t u where tok: "tok = Some t" "t \<noteq> []" "verify t = Some u"
    and s': "s' = on_connection sid u (sio_add sid u s)"
    using connect_step [OF assms] by blast
  let ?s1 = "(sio_add sid u s)\<lparr>rt_connected := presence_register sid u (rt_connected (sio_add sid u s))\<rparr>"
  let ?s2 = "sio_join sid (js ''general'') ?s1"
  let ?s3 = "sio_broadcast sid (UserOnline (uid u) (display_name u)) ?s2"
  have emit: "s' = sio_emit sid (UsersList (users_list (rt_connected ?s3))) ?s3"
    by (simp add: s' on_connection_def Let_def)
  have get: "jm_get (rt_sockets ?s2) sid =
     Some \<lparr>s_user = u, s_rooms = (if js ''general'' = sid then [sid] else [sid, js ''general''])\<rparr>"
    by (simp only: sio_join_sockets_indep connect_sockets_get) simp
  have entry: "jm_get (rt_connected s') (uid u) = Some \<lparr>p_socket = sid, p_user = u, p_status = Online\<rparr>"
    by (simp add: s' on_connection_frame sio_add_def)
  have "sid \<in> set (room_members (js ''general'') ?s2)"
    using get by (rule room_members_get) simp
  then have room: "sid \<in> set (room_members (js ''general'') s')"
    by (simp add: emit emit_defs room_members_def)
  have roster: "\<lparr>ue_id = uid u, ue_name = display_name u, ue_status = Online\<rparr> \<in> set (users_list (rt_connected s'))"
    using users_list_member [OF entry] by simp
  have "sid \<in> set (room_members sid ?s2)"
    using get by (rule room_members_get) simp
  then have "inbox sid ?s3 = inbox sid ?s2"
    by (simp add: sio_broadcast_def deliver_none)
  moreover have "inbox sid ?s2 = inbox sid s"
    by (simp add: inbox_def sio_add_def)
  moreover have "inbox sid s' = inbox sid ?s3 @ [UsersList (users_list (rt_connected ?s3))]"
    by (simp add: emit sio_emit_def deliver_once)
  moreover have "rt_connected ?s3 = rt_connected s'"
    by (simp add: emit)
  ultimately show ?thesis
    using tok entry room roster by auto
qed

theorem connect_registers_witness:
  "\<exists>s'. rt_step demo_verify 1 (Connect (js ''s1'') (Some (js ''tokA''))) (rt_init 0) = Inr s' \<and>
     jm_get (rt_connected s') (js ''1'') = Some \<lparr>p_socket = js ''s1'', p_user = demo_user, p_status = Online\<rparr>"
proof -
  obtain s' where st: "rt_step demo_verify 1 (Connect (js ''s1'') (Some (js ''tokA''))) (rt_init 0) = Inr s'"
    by (simp add: authenticate_def demo_verify_def js_def)
  from connect_registers [OF st] st show ?thesis
    by (auto simp: demo_verify_def demo_user_def)
qed

text \<open>A connection attempt is refused, with no state touched, exactly when the
  handshake carries no token, an empty token, or a token the verifier rejects; a
  refused connection is never a crash.\<close>

theorem connect_rejected:
  "rt_step verify now (Connect sid tok) s = Inl AuthenticationError \<longleftrightarrow>
     tok = None \<or> tok = Some [] \<or> (\<exists>t. tok = Some t \<and> verify t = None)"
  by (auto simp: authenticate_def split: option.splits if_splits sum.splits)

text \<open>A \<open>send-message\<close> event without a payload crashes the server: the
  destructuring throws and the uncaught exception ends the process.\<close>

theorem send_missing_payload_crash:
  "jm_has (rt_sockets s) sid \<Longrightarrow> rt_step verify now (SendMessage sid None lag) s = Inl Crash"
  by (auto simp: jm_has_get on_send_message_def)

theorem send_missing_payload_crash_witness:
  "\<exists>s. reachable demo_verify 2 s \<and> jm_has (rt_sockets s) (js ''s1'') \<and>
       rt_step demo_verify 3 (SendMessage (js ''s1'') None 0) s = Inl Crash"
proof -
  obtain s where r: "reachable demo_verify 2 s"
    and k1: "jm_get (rt_sockets s) (js ''s1'') = Some \<lparr>s_user = demo_user, s_rooms = [js ''s1'', js ''general'']\<rparr>"
    and k2: "jm_get (rt_sockets s) (js ''s2'') = Some \<lparr>s_user = demo_user, s_rooms = [js ''s2'', js ''general'']\<rparr>"
    and p: "jm_get (rt_connected s) (js ''1'') = Some \<lparr>p_socket = js ''s2'', p_user = demo_user, p_status = Online\<rparr>"
    using demo_two_sessions by blast
  have h: "jm_has (rt_sockets s) (js ''s1'')" using k1 by (simp add: jm_has_get)
  from send_missing_payload_crash [OF h] r h show ?thesis by blast
qed

text \<open>C10: in every reachable state every room's log is in non-decreasing time order and
  holds no message stamped after the current time (spec, section 3, invariant d), as long
  as the clock does not go back.\<close>

theorem reachable_logs_sorted:
  assumes "reachable verify t s"
  shows "log_sorted (rt_messages s) \<and> (\<forall>(r, xs) \<in> set (rt_messages s). \<forall>m \<in> set xs. timestamp m \<le> t)"
proof -
  have inv: "rt_inv t s" using assms by (rule reachable_rt_inv)
  have "\<And>r xs. (r, xs) \<in> set (rt_messages s) \<Longrightarrow> jm_get (rt_messages s) r = Some xs"
    using rt_inv_messages_wf [OF inv] by (simp add: jm_wf_def)
  then show ?thesis
    using rt_inv_log [OF inv] by (fastforce simp: log_sorted_def)
qed

theorem reachable_logs_sorted_witness:
  "\<exists>s. reachable demo_verify 2 s \<and> log_sorted (rt_messages s)"
proof -
  obtain s where r: "reachable demo_verify 2 s"
    and k1: "jm_get (rt_sockets s) (js ''s1'') = Some \<lparr>s_user = demo_user, s_rooms = [js ''s1'', js ''general'']\<rparr>"
    and k2: "jm_get (rt_sockets s) (js ''s2'') = Some \<lparr>s_user = demo_user, s_rooms = [js ''s2'', js ''general'']\<rparr>"
    and p: "jm_get (rt_connected s) (js ''1'') = Some \<lparr>p_socket = js ''s2'', p_user = demo_user, p_status = Online\<rparr>"
    using demo_two_sessions by blast
  from reachable_logs_sorted [OF r] r show ?thesis by blast
qed

text \<open>Joining a room that is not in the room directory succeeds: the socket becomes
  a member of it and the directory is unchanged (the design asks for \<open>RoomNotFound\<close>).\<close>

theorem join_unknown_room:
  assumes "jm_has (rt_sockets s) sid" and "\<not> jm_has (rt_rooms s) r"
    and "rt_step verify now (JoinRoom sid r) s = Inr s'"
  shows "sid \<in> set (room_members r s') \<and> rt_rooms s' = rt_rooms s"
proof -
  obtain k where k: "jm_get (rt_sockets s) sid = Some k"
    using assms(1) by (auto simp: jm_has_get)
  then have s': "s' = sio_join sid r s"
    using assms(3) by (simp add: on_join_room_def)
  obtain k' where "jm_get (rt_sockets s') sid = Some k'"
    using k sio_join_user_back [of s sid k sid r] s' by blast
  moreover from this have "r \<in> set (s_rooms k')"
    using k s' sio_join_joined by blast
  ultimately show ?thesis
    using s' room_members_get by simp
qed

theorem join_unknown_room_witness:
  "\<exists>s s'. reachable demo_verify 2 s \<and> \<not> jm_has (rt_rooms s) (js ''x'') \<and>
     rt_step demo_verify 3 (JoinRoom (js ''s1'') (js ''x'')) s = Inr s' \<and>
     js ''s1'' \<in> set (room_members (js ''x'') s')"
proof -
  obtain s where r: "reachable demo_verify 2 s"
    and k1: "jm_get (rt_sockets s) (js ''s1'') = Some \<lparr>s_user = demo_user, s_rooms = [js ''s1'', js ''general'']\<rparr>"
    and k2: "jm_get (rt_sockets s) (js ''s2'') = Some \<lparr>s_user = demo_user, s_rooms = [js ''s2'', js ''general'']\<rparr>"
    and p: "jm_get (rt_connected s) (js ''1'') = Some \<lparr>p_socket = js ''s2'', p_user = demo_user, p_status = Online\<rparr>"
    using demo_two_sessions by blast
  have h: "jm_has (rt_sockets s) (js ''s1'')" using k1 by (simp add: jm_has_get)
  obtain t0 where "rt_rooms s = initial_rooms t0"
    using reachable_rooms [OF r] by blast
  then have nr: "\<not> jm_has (rt_rooms s) (js ''x'')"
    by (simp add: initial_rooms_def jm_has_def)
  obtain s' where st: "rt_step demo_verify 3 (JoinRoom (js ''s1'') (js ''x'')) s = Inr s'"
    using k1 by simp
  from join_unknown_room [OF h nr st] r nr st show ?thesis by blast
qed

text \<open>The design's invariant that every message's room is in the room directory
  (spec, section 3, invariant a) does not hold: one send to a room nobody created gives a
  reachable state with a log for a room the directory does not have.\<close>

theorem log_for_unknown_room:
  "\<exists>verify t s. reachable verify t s \<and> (\<exists>r. jm_has (rt_messages s) r \<and> \<not> jm_has (rt_rooms s) r)"
proof -
  obtain s where r: "reachable demo_verify 2 s"
    and k1: "jm_get (rt_sockets s) (js ''s1'') = Some \<lparr>s_user = demo_user, s_rooms = [js ''s1'', js ''general'']\<rparr>"
    and k2: "jm_get (rt_sockets s) (js ''s2'') = Some \<lparr>s_user = demo_user, s_rooms = [js ''s2'', js ''general'']\<rparr>"
    and p: "jm_get (rt_connected s) (js ''1'') = Some \<lparr>p_socket = js ''s2'', p_user = demo_user, p_status = Online\<rparr>"
    using demo_two_sessions by blast
  obtain s' where st: "rt_step demo_verify 3 (SendMessage (js ''s1'') (Some \<lparr>sd_room = js ''x'', sd_content = js ''hi'', sd_type = None\<rparr>) 0) s = Inr s'"
    using send_step [OF k1] by blast
  have r': "reachable demo_verify 3 s'"
    by (rule reachable.step [OF r _ _ st]) simp_all
  have "s' = deliver (room_members (js ''x'') s) (NewMessage (new_message demo_user 3 3 \<lparr>sd_room = js ''x'', sd_content = js ''hi'', sd_type = None\<rparr>))
              (s\<lparr>rt_messages := log_append (js ''x'') (new_message demo_user 3 3 \<lparr>sd_room = js ''x'', sd_content = js ''hi'', sd_type = None\<rparr>) (rt_messages s)\<rparr>)"
    using st unfolding send_step [OF k1] by simp
  then have "jm_has (rt_messages s') (js ''x'')"
    by (simp add: deliver_def jm_has_get log_append_get)
  moreover obtain t0 where "rt_rooms s' = initial_rooms t0"
    using reachable_rooms [OF r'] by blast
  then have "\<not> jm_has (rt_rooms s') (js ''x'')"
    by (simp add: initial_rooms_def jm_has_def)
  ultimately show ?thesis
    using r' by blast
qed

text \<open>A typing notice goes to the other members of the room, once each, and never
  back to the typing socket; it changes no state but the outbox.\<close>

theorem typing_start_excludes_sender:
  assumes "reachable verify t s" and "jm_get (rt_sockets s) sid = Some k"
    and "rt_step verify now (TypingStart sid r) s = Inr s'"
  shows "inbox sid s' = inbox sid s \<and>
         (\<forall>x \<in> set (room_members r s). x \<notin> set (room_members sid s) \<longrightarrow>
            inbox x s' = inbox x s @ [UserTyping (uid (s_user k)) (display_name (s_user k)) True]) \<and>
         rt_sockets s' = rt_sockets s \<and> rt_connected s' = rt_connected s \<and> rt_messages s' = rt_messages s"
proof -
  have inv: "rt_inv t s" using assms(1) by (rule reachable_rt_inv)
  have s': "s' = sio_to_except sid r (UserTyping (uid (s_user k)) (display_name (s_user k)) True) s"
    using assms(2,3) by (simp add: on_typing_start_def)
  show ?thesis
    using to_except_inbox [OF inv assms(2)] by (simp add: s' sio_to_except_def)
qed

theorem typing_start_excludes_sender_witness:
  "\<exists>s s'. reachable demo_verify 2 s \<and>
     rt_step demo_verify 3 (TypingStart (js ''s1'') (js ''general'')) s = Inr s' \<and>
     inbox (js ''s1'') s' = inbox (js ''s1'') s \<and>
     inbox (js ''s2'') s' = inbox (js ''s2'') s @ [UserTyping (js ''1'') (js ''A'') True]"
proof -
  obtain s where r: "reachable demo_verify 2 s"
    and k1: "jm_get (rt_sockets s) (js ''s1'') = Some \<lparr>s_user = demo_user, s_rooms = [js ''s1'', js ''general'']\<rparr>"
    and k2: "jm_get (rt_sockets s) (js ''s2'') = Some \<lparr>s_user = demo_user, s_rooms = [js ''s2'', js ''general'']\<rparr>"
    and p: "jm_get (rt_connected s) (js ''1'') = Some \<lparr>p_socket = js ''s2'', p_user = demo_user, p_status = Online\<rparr>"
    using demo_two_sessions by blast
  have wf: "jm_wf (rt_sockets s)" using r by (rule reachable_wf)
  obtain s' where st: "rt_step demo_verify 3 (TypingStart (js ''s1'') (js ''general'')) s = Inr s'"
    using k1 by simp
  have "js ''s2'' \<in> set (room_members (js ''general'') s)"
    using k2 by (rule room_members_get) simp
  moreover have "js ''s2'' \<notin> set (room_members (js ''s1'') s)"
    using k2 wf by (simp add: room_members_wf)
  moreover note typing_start_excludes_sender [OF r k1 st]
  ultimately show ?thesis
    using r st by (auto simp: demo_user_def)
qed

text \<open>A message's id is \<open>Date.now().toString()\<close>: it reads back as the clock
  reading of line 294, so two messages get the same id exactly when that reading falls
  in the same millisecond, whoever sends them.\<close>

theorem message_id_time:
  "dec_value (msg_id (new_message u tid now d)) = tid \<and>
   (msg_id (new_message u t1 n1 d1) = msg_id (new_message u' t2 n2 d2) \<longleftrightarrow> t1 = t2)"
  by (simp add: new_message_def dec_value_js_nat_str js_nat_str_inj)

end
