(* ===== verification/Accounts.thy ===== *)
theory Accounts
  imports Presence
begin

text \<open>
  The account store and its HTTP handlers, from \<^verbatim>\<open>src/server.js\<close>: the \<open>users\<close> Map
  from an e-mail address to a user object (line 60), \<open>POST /api/register\<close> (lines
  119-162), \<open>POST /api/login\<close> (lines 165-205) and the \<open>authenticateToken\<close> middleware
  of the other routes (lines 101-116). Both POST handlers \<open>await\<close> bcrypt in the middle,
  so each is two steps: the part before the \<open>await\<close> runs when the request arrives and
  leaves a continuation in \<open>pending\<close>; the part after runs when bcrypt's promise
  settles, and other requests may run in between. The user objects live in a heap
  (\<open>objs\<close>, indexed by reference) because the login continuation mutates the object it
  fetched before its \<open>await\<close>, which need not be the one the Map holds by then.
  \<open>bcrypt.hash\<close>, \<open>bcrypt.compare\<close> and \<open>jwt.sign\<close>/\<open>jwt.verify\<close> are parameters.
  A thrown exception inside the handlers' \<open>try\<close> (a 500) is not modelled: the
  parameters are total.
\<close>

record account =
  a_id :: jstr
  a_email :: jstr
  a_password :: jstr
  a_name :: jstr
  a_status :: status
  a_created :: nat
  a_last_login :: "nat option"

record reg_body =
  rb_email :: "jstr option"
  rb_password :: "jstr option"
  rb_name :: "jstr option"

record login_body =
  lb_email :: "jstr option"
  lb_password :: "jstr option"

datatype api_error =
    MissingFields | InvalidEmail | ShortPassword | EmailTaken | BadCredentials
  | TokenMissing | TokenInvalid

datatype api_ok = Registered | LoggedIn jstr identity

datatype cont = RegCont jstr jstr jstr | LoginCont jstr nat

record acct_state =
  users :: "(jstr, nat) jsmap"
  objs :: "account list"
  pending :: "(nat \<times> cont) list"
  responses :: "(nat \<times> (api_error + api_ok)) list"

subsection \<open>JavaScript helpers\<close>

text \<open>Truthiness of an optional string field of a JSON body: absent and \<open>''\<close> are
  falsy.\<close>

definition js_truthy :: "jstr option \<Rightarrow> bool" where
  "js_truthy v = (case v of None \<Rightarrow> False | Some s \<Rightarrow> s \<noteq> [])"

text \<open>\<open>String.prototype.split(' ')\<close>: cut at every space.\<close>

fun js_split_space :: "jstr \<Rightarrow> jstr list" where
  "js_split_space [] = [[]]"
| "js_split_space (c # cs) =
     (let rest = js_split_space cs
      in if c = 32 then [] # rest else (c # hd rest) # tl rest)"

text \<open>The pattern \<open>/^[^\s@]+@[^\s@]+\.[^\s@]+$/\<close> of line 128, matched as a
  backtracking matcher does: each \<open>+\<close> group takes a non-empty run of code units that are
  neither white space nor \<open>@\<close>, tried at every split of the input.\<close>

definition email_char :: "16 word \<Rightarrow> bool" where
  "email_char c \<longleftrightarrow> \<not> js_space c \<and> c \<noteq> 64"

definition splits :: "'a list \<Rightarrow> ('a list \<times> 'a list) list" where
  "splits xs = map (\<lambda>i. (take i xs, drop i xs)) [0..<Suc (length xs)]"

definition plus_run :: "jstr \<Rightarrow> bool" where
  "plus_run w \<longleftrightarrow> w \<noteq> [] \<and> list_all email_char w"

definition email_re :: "jstr \<Rightarrow> bool" where
  "email_re s \<longleftrightarrow>
     list_ex (\<lambda>(a, r). plus_run a \<and>
       (case r of
          c # d \<Rightarrow> c = 64 \<and>
            list_ex (\<lambda>(b, r2). plus_run b \<and>
              (case r2 of c2 # e \<Rightarrow> c2 = 46 \<and> plus_run e | [] \<Rightarrow> False)) (splits d)
        | [] \<Rightarrow> False)) (splits s)"

subsection \<open>The handlers\<close>

definition respond :: "nat \<Rightarrow> api_error + api_ok \<Rightarrow> acct_state \<Rightarrow> acct_state" where
  "respond rid r s = s\<lparr>responses := responses s @ [(rid, r)]\<rparr>"

definition suspend :: "nat \<Rightarrow> cont \<Rightarrow> acct_state \<Rightarrow> acct_state" where
  "suspend rid k s = s\<lparr>pending := pending s @ [(rid, k)]\<rparr>"

definition resume :: "nat \<Rightarrow> acct_state \<Rightarrow> acct_state" where
  "resume rid s = s\<lparr>pending := AList.delete_aux rid (pending s)\<rparr>"

text \<open>Lines 119-141, up to the \<open>await\<close>.\<close>

definition register_start :: "nat \<Rightarrow> reg_body \<Rightarrow> acct_state \<Rightarrow> acct_state" where
  "register_start rid b s =
     (if \<not> (js_truthy (rb_email b) \<and> js_truthy (rb_password b) \<and> js_truthy (rb_name b))
      then respond rid (Inl MissingFields) s
      else
        let e = the (rb_email b); pw = the (rb_password b); n = the (rb_name b)
        in if \<not> email_re e then respond rid (Inl InvalidEmail) s
           else if length pw < 6 then respond rid (Inl ShortPassword) s
           else if jm_has (users s) e then respond rid (Inl EmailTaken) s
           else suspend rid (RegCont e pw n) s)"

text \<open>Lines 141-157, when \<open>bcrypt.hash\<close> has settled: a new user object, \<open>users.set\<close>,
  201.\<close>

definition register_finish :: "(jstr \<Rightarrow> jstr) \<Rightarrow> nat \<Rightarrow> nat \<Rightarrow> acct_state \<Rightarrow> acct_state" where
  "register_finish hash now rid s =
     (case jm_get (pending s) rid of
        Some (RegCont e pw n) \<Rightarrow>
          let a = \<lparr>a_id = js_nat_str now, a_email = e, a_password = hash pw, a_name = n,
                   a_status = Offline, a_created = now, a_last_login = None\<rparr>;
              s1 = (resume rid s)\<lparr>objs := objs s @ [a], users := jm_set e (length (objs s)) (users s)\<rparr>
          in respond rid (Inr Registered) s1
      | _ \<Rightarrow> s)"

text \<open>Lines 165-178, up to the \<open>await\<close>.\<close>

definition login_start :: "nat \<Rightarrow> login_body \<Rightarrow> acct_state \<Rightarrow> acct_state" where
  "login_start rid b s =
     (if \<not> (js_truthy (lb_email b) \<and> js_truthy (lb_password b))
      then respond rid (Inl MissingFields) s
      else case jm_get (users s) (the (lb_email b)) of
             None \<Rightarrow> respond rid (Inl BadCredentials) s
           | Some r \<Rightarrow> suspend rid (LoginCont (the (lb_password b)) r) s)"

text \<open>Lines 178-200, when \<open>bcrypt.compare\<close> has settled: the object fetched before the
  \<open>await\<close> is marked online and the token names it.\<close>

definition user_identity :: "account \<Rightarrow> identity" where
  "user_identity a = \<lparr>uid = a_id a, uemail = a_email a, display_name = a_name a\<rparr>"

definition login_finish ::
  "(jstr \<Rightarrow> jstr \<Rightarrow> bool) \<Rightarrow> (identity \<Rightarrow> jstr) \<Rightarrow> nat \<Rightarrow> nat \<Rightarrow> acct_state \<Rightarrow> acct_state" where
  "login_finish compare sign now rid s =
     (case jm_get (pending s) rid of
        Some (LoginCont pw r) \<Rightarrow>
          let a = objs s ! r
          in if \<not> compare pw (a_password a) then respond rid (Inl BadCredentials) (resume rid s)
             else
               let s1 = (resume rid s)\<lparr>objs := (objs s)[r := a\<lparr>a_status := Online, a_last_login := Some now\<rparr>]\<rparr>
               in respond rid (Inr (LoggedIn (sign (user_identity a)) (user_identity a))) s1
      | _ \<Rightarrow> s)"

text \<open>Lines 101-116: the bearer token is the second space-separated piece of the
  \<open>Authorization\<close> header.\<close>

definition authenticate_token ::
  "(jstr \<Rightarrow> identity option) \<Rightarrow> jstr option \<Rightarrow> api_error + identity" where
  "authenticate_token verify hdr =
     (let tok = (case hdr of
                   None \<Rightarrow> None
                 | Some h \<Rightarrow> if h = [] then None
                             else (case js_split_space h of _ # t # _ \<Rightarrow> Some t | _ \<Rightarrow> None))
      in case tok of
           None \<Rightarrow> Inl TokenMissing
         | Some t \<Rightarrow> if t = [] then Inl TokenMissing
                     else (case verify t of None \<Rightarrow> Inl TokenInvalid | Some u \<Rightarrow> Inr u))"

subsection \<open>Dispatch\<close>

datatype http_event =
    RegisterReq nat reg_body
  | RegisterDone nat
  | LoginReq nat login_body
  | LoginDone nat

fun acct_step ::
  "(jstr \<Rightarrow> jstr) \<Rightarrow> (jstr \<Rightarrow> jstr \<Rightarrow> bool) \<Rightarrow> (identity \<Rightarrow> jstr) \<Rightarrow> nat \<Rightarrow> http_event \<Rightarrow>
   acct_state \<Rightarrow> acct_state" where
  "acct_step hash compare sign now (RegisterReq rid b) s = register_start rid b s"
| "acct_step hash compare sign now (RegisterDone rid) s = register_finish hash now rid s"
| "acct_step hash compare sign now (LoginReq rid b) s = login_start rid b s"
| "acct_step hash compare sign now (LoginDone rid) s = login_finish compare sign now rid s"

fun acct_run ::
  "(jstr \<Rightarrow> jstr) \<Rightarrow> (jstr \<Rightarrow> jstr \<Rightarrow> bool) \<Rightarrow> (identity \<Rightarrow> jstr) \<Rightarrow> (nat \<times> http_event) list \<Rightarrow>
   acct_state \<Rightarrow> acct_state" where
  "acct_run hash compare sign [] s = s"
| "acct_run hash compare sign ((now, ev) # evs) s =
     acct_run hash compare sign evs (acct_step hash compare sign now ev s)"

definition acct_init :: acct_state where
  "acct_init = \<lparr>users = [], objs = [], pending = [], responses = []\<rparr>"

declare js_truthy_def [model_defs] email_char_def [model_defs] splits_def [model_defs]
  plus_run_def [model_defs] email_re_def [model_defs] respond_def [model_defs]
  suspend_def [model_defs] resume_def [model_defs] register_start_def [model_defs]
  register_finish_def [model_defs] login_start_def [model_defs] user_identity_def [model_defs]
  login_finish_def [model_defs] authenticate_token_def [model_defs] acct_init_def [model_defs]

text \<open>The store's invariant: one entry per address, every entry refers to an allocated
  object with that address, and every suspended login refers to an allocated object.\<close>

definition acct_inv :: "acct_state \<Rightarrow> bool" where
  "acct_inv s \<longleftrightarrow>
     jm_wf (users s) \<and> jm_wf (pending s) \<and>
     (\<forall>e r. jm_get (users s) e = Some r \<longrightarrow> r < length (objs s) \<and> a_email (objs s ! r) = e) \<and>
     (\<forall>rid pw r. jm_get (pending s) rid = Some (LoginCont pw r) \<longrightarrow> r < length (objs s))"

text \<open>The e-mail pattern, described without a matcher: one \<open>@\<close>, no white space, a
  non-empty part before the \<open>@\<close>, and a dot after it with something on both sides.\<close>

definition email_shape :: "jstr \<Rightarrow> bool" where
  "email_shape s \<longleftrightarrow>
     (\<exists>a d. s = a @ 64 # d \<and> a \<noteq> [] \<and> list_all email_char a \<and> list_all email_char d \<and>
            46 \<in> set (butlast (tl d)))"

fun acct_fresh :: "http_event \<Rightarrow> acct_state \<Rightarrow> bool" where
  "acct_fresh (RegisterReq rid b) s = (\<not> jm_has (pending s) rid)"
| "acct_fresh (LoginReq rid b) s = (\<not> jm_has (pending s) rid)"
| "acct_fresh ev s = True"

inductive acct_reachable :: "(jstr \<Rightarrow> jstr) \<Rightarrow> (jstr \<Rightarrow> jstr \<Rightarrow> bool) \<Rightarrow> (identity \<Rightarrow> jstr) \<Rightarrow> acct_state \<Rightarrow> bool"
  for hash compare sign where
  init: "acct_reachable hash compare sign acct_init"
| step: "acct_reachable hash compare sign s \<Longrightarrow> acct_fresh ev s \<Longrightarrow>
         acct_reachable hash compare sign (acct_step hash compare sign now ev s)"

subsection \<open>Lemmas\<close>

lemma acct_frames [simp]:
  "users (respond rid r s) = users s" "objs (respond rid r s) = objs s"
  "pending (respond rid r s) = pending s"
  "users (suspend rid k s) = users s" "objs (suspend rid k s) = objs s"
  "responses (suspend rid k s) = responses s"
  "users (resume rid s) = users s" "objs (resume rid s) = objs s"
  "responses (resume rid s) = responses s"
  by (simp_all add: respond_def suspend_def resume_def)

lemma pending_suspend: "pending (suspend rid k s) = pending s @ [(rid, k)]"
  by (simp add: suspend_def)

lemma pending_resume: "pending (resume rid s) = AList.delete_aux rid (pending s)"
  by (simp add: resume_def)

lemma responses_respond: "responses (respond rid r s) = responses s @ [(rid, r)]"
  by (simp add: respond_def)

lemma acct_invI:
  assumes "jm_wf (users s)" "jm_wf (pending s)"
    and "\<And>e r. jm_get (users s) e = Some r \<Longrightarrow> r < length (objs s) \<and> a_email (objs s ! r) = e"
    and "\<And>rid pw r. jm_get (pending s) rid = Some (LoginCont pw r) \<Longrightarrow> r < length (objs s)"
  shows "acct_inv s"
  using assms by (simp add: acct_inv_def)

lemma acct_invD:
  assumes "acct_inv s"
  shows acct_inv_users_wf: "jm_wf (users s)"
    and acct_inv_pending_wf: "jm_wf (pending s)"
    and acct_inv_ref: "jm_get (users s) e = Some r \<Longrightarrow> r < length (objs s) \<and> a_email (objs s ! r) = e"
    and acct_inv_login: "jm_get (pending s) rid = Some (LoginCont pw r) \<Longrightarrow> r < length (objs s)"
  using assms by (auto simp: acct_inv_def)

lemma acct_inv_respond: "acct_inv (respond rid r s) = acct_inv s"
  by (simp add: acct_inv_def)

lemma jm_wf_snoc: "jm_wf m \<Longrightarrow> \<not> jm_has m k \<Longrightarrow> jm_wf (m @ [(k, v)])"
  by (simp add: jm_wf_def jm_has_def)

lemma jm_get_snoc: "jm_get (m @ [(k, v)]) k' = (case jm_get m k' of None \<Rightarrow> if k' = k then Some v else None | Some x \<Rightarrow> Some x)"
  by (simp add: map_add_def split: option.splits)

lemma acct_inv_suspend:
  assumes "acct_inv s" and "\<not> jm_has (pending s) rid"
    and "\<And>pw r. k = LoginCont pw r \<Longrightarrow> r < length (objs s)"
  shows "acct_inv (suspend rid k s)"
proof (rule acct_invI)
  show "jm_wf (users (suspend rid k s))" "jm_wf (pending (suspend rid k s))"
    using acct_invD [OF assms(1)] assms(2) by (simp_all add: pending_suspend jm_wf_snoc)
  show "\<And>e r. jm_get (users (suspend rid k s)) e = Some r \<Longrightarrow>
          r < length (objs (suspend rid k s)) \<and> a_email (objs (suspend rid k s) ! r) = e"
    using acct_inv_ref [OF assms(1)] by simp
  show "\<And>rid' pw r. jm_get (pending (suspend rid k s)) rid' = Some (LoginCont pw r) \<Longrightarrow>
          r < length (objs (suspend rid k s))"
    using acct_inv_login [OF assms(1)] assms(3)
    by (auto simp: pending_suspend jm_get_snoc split: option.splits if_splits)
qed

lemma acct_inv_resume: "acct_inv s \<Longrightarrow> acct_inv (resume rid s)"
  by (rule acct_invI)
     (auto simp: pending_resume acct_invD jm_wf_delete jm_get_delete split: if_splits
        dest: acct_inv_ref acct_inv_login)

lemma acct_inv_register_start:
  "acct_inv s \<Longrightarrow> \<not> jm_has (pending s) rid \<Longrightarrow> acct_inv (register_start rid b s)"
  by (auto simp: register_start_def Let_def acct_inv_respond intro!: acct_inv_suspend)

lemma acct_inv_login_start:
  "acct_inv s \<Longrightarrow> \<not> jm_has (pending s) rid \<Longrightarrow> acct_inv (login_start rid b s)"
  by (auto simp: login_start_def acct_inv_respond dest: acct_inv_ref
      intro!: acct_inv_suspend split: option.splits)

lemma acct_inv_register_finish:
  assumes inv: "acct_inv s"
  shows "acct_inv (register_finish hash now rid s)"
proof (cases "jm_get (pending s) rid")
  case (Some k)
  show ?thesis
  proof (cases k)
    case (RegCont e pw n)
    let ?a = "\<lparr>a_id = js_nat_str now, a_email = e, a_password = hash pw, a_name = n,
               a_status = Offline, a_created = now, a_last_login = None\<rparr>"
    let ?s1 = "(resume rid s)\<lparr>objs := objs s @ [?a], users := jm_set e (length (objs s)) (users s)\<rparr>"
    have r: "acct_inv (resume rid s)" using inv by (rule acct_inv_resume)
    have "acct_inv ?s1"
    proof (rule acct_invI)
      show "jm_wf (users ?s1)" "jm_wf (pending ?s1)"
        using acct_invD [OF r] by (simp_all add: jm_wf_set)
      show "\<And>e' r'. jm_get (users ?s1) e' = Some r' \<Longrightarrow> r' < length (objs ?s1) \<and> a_email (objs ?s1 ! r') = e'"
        using acct_inv_ref [OF r] by (auto simp: jm_get_set nth_append split: if_splits)
      show "\<And>rid' pw' r'. jm_get (pending ?s1) rid' = Some (LoginCont pw' r') \<Longrightarrow> r' < length (objs ?s1)"
        using acct_inv_login [OF r] by fastforce
    qed
    with Some RegCont show ?thesis
      by (simp add: register_finish_def acct_inv_respond)
  next
    case (LoginCont pw r)
    with Some inv show ?thesis by (simp add: register_finish_def)
  qed
qed (simp add: register_finish_def inv)

lemma acct_inv_login_finish:
  assumes inv: "acct_inv s"
  shows "acct_inv (login_finish compare sign now rid s)"
proof (cases "jm_get (pending s) rid")
  case (Some k)
  show ?thesis
  proof (cases k)
    case (LoginCont pw r)
    have lt: "r < length (objs s)" using acct_inv_login [OF inv] Some LoginCont by blast
    let ?a = "objs s ! r"
    let ?s1 = "(resume rid s)\<lparr>objs := (objs s)[r := ?a\<lparr>a_status := Online, a_last_login := Some now\<rparr>]\<rparr>"
    have r: "acct_inv (resume rid s)" using inv by (rule acct_inv_resume)
    have "acct_inv ?s1"
    proof (rule acct_invI)
      show "jm_wf (users ?s1)" "jm_wf (pending ?s1)"
        using acct_invD [OF r] by simp_all
      show "\<And>e' r'. jm_get (users ?s1) e' = Some r' \<Longrightarrow> r' < length (objs ?s1) \<and> a_email (objs ?s1 ! r') = e'"
        using acct_inv_ref [OF r] lt by (auto simp: nth_list_update)
      show "\<And>rid' pw' r'. jm_get (pending ?s1) rid' = Some (LoginCont pw' r') \<Longrightarrow> r' < length (objs ?s1)"
        using acct_inv_login [OF r] by fastforce
    qed
    with Some LoginCont r show ?thesis
      by (simp add: login_finish_def Let_def acct_inv_respond)
  next
    case (RegCont e pw n)
    with Some inv show ?thesis by (simp add: login_finish_def)
  qed
qed (simp add: login_finish_def inv)

lemma acct_inv_step:
  "acct_inv s \<Longrightarrow> acct_fresh ev s \<Longrightarrow> acct_inv (acct_step hash compare sign now ev s)"
  by (cases ev)
     (simp_all add: acct_inv_register_start acct_inv_login_start acct_inv_register_finish
        acct_inv_login_finish)

lemma set_splits: "set (splits xs) = {(a, b). xs = a @ b}"
proof -
  have mem: "(a, b) \<in> set (splits (a @ b))" for a b :: "'a list"
    unfolding splits_def set_map by (rule image_eqI [of _ _ "length a"]) auto
  show ?thesis
  proof (intro set_eqI iffI)
    fix p
    assume "p \<in> set (splits xs)"
    then show "p \<in> {(a, b). xs = a @ b}"
      by (auto simp: splits_def)
  next
    fix p
    assume "p \<in> {(a, b). xs = a @ b}"
    then show "p \<in> set (splits xs)"
      using mem by auto
  qed
qed

lemma case_list_False_ex: "(case r of c # d \<Rightarrow> P c d | [] \<Rightarrow> False) \<longleftrightarrow> (\<exists>c d. r = c # d \<and> P c d)"
  by (cases r) auto

lemma email_re_iff:
  "email_re s \<longleftrightarrow> (\<exists>a b c. s = a @ 64 # b @ 46 # c \<and> plus_run a \<and> plus_run b \<and> plus_run c)"
  by (auto simp: email_re_def list_ex_iff set_splits case_list_False_ex) blast

lemma email_re_nonempty: "email_re s \<Longrightarrow> s \<noteq> []"
  by (auto simp: email_re_iff)

lemma js_split_space_nospace: "32 \<notin> set t \<Longrightarrow> js_split_space t = [t]"
  by (induction t) (auto simp: Let_def)

lemma js_split_space_append:
  "32 \<notin> set w \<Longrightarrow> js_split_space (w @ 32 # t) = w # js_split_space t"
  by (induction w) (auto simp: Let_def)

lemma delete_aux_append_first:
  "k \<notin> set (map fst xs) \<Longrightarrow> AList.delete_aux k (xs @ (k, v) # ys) = xs @ ys"
  by (induction xs) auto

lemma jm_get_append_notin: "k \<notin> set (map fst xs) \<Longrightarrow> jm_get (xs @ ys) k = jm_get ys k"
  by (induction xs) auto

lemma register_start_ok:
  assumes "email_re e" "6 \<le> length p" "n \<noteq> []" "\<not> jm_has (users s) e"
  shows "register_start rid \<lparr>rb_email = Some e, rb_password = Some p, rb_name = Some n\<rparr> s =
           suspend rid (RegCont e p n) s"
  using assms email_re_nonempty [OF assms(1)]
  by (cases p) (simp_all add: register_start_def js_truthy_def)

lemma register_finish_cont:
  "jm_get (pending s) rid = Some (RegCont e p n) \<Longrightarrow>
   register_finish hash now rid s =
     respond rid (Inr Registered)
       ((resume rid s)\<lparr>objs := objs s @ [\<lparr>a_id = js_nat_str now, a_email = e, a_password = hash p,
          a_name = n, a_status = Offline, a_created = now, a_last_login = None\<rparr>],
          users := jm_set e (length (objs s)) (users s)\<rparr>)"
  by (simp add: register_finish_def)

subsection \<open>Properties of the account store\<close>

lemma login_start_found:
  "e \<noteq> [] \<Longrightarrow> p \<noteq> [] \<Longrightarrow> jm_get (users s) e = Some r \<Longrightarrow>
   login_start rid \<lparr>lb_email = Some e, lb_password = Some p\<rparr> s = suspend rid (LoginCont p r) s"
  by (simp add: login_start_def js_truthy_def)

lemma login_finish_cont:
  "jm_get (pending s) rid = Some (LoginCont pw r) \<Longrightarrow>
   login_finish compare sign now rid s =
     (if \<not> compare pw (a_password (objs s ! r)) then respond rid (Inl BadCredentials) (resume rid s)
      else respond rid (Inr (LoggedIn (sign (user_identity (objs s ! r))) (user_identity (objs s ! r))))
             ((resume rid s)\<lparr>objs := (objs s)[r := (objs s ! r)\<lparr>a_status := Online, a_last_login := Some now\<rparr>]\<rparr>))"
  by (simp add: login_finish_def Let_def)

lemma email_char_dot: "email_char 46"
  by (simp add: email_char_def js_space_def)

lemma email_re_demo: "email_re (js ''a@b.c'')"
  unfolding email_re_iff
  by (rule exI [of _ "js ''a''"], rule exI [of _ "js ''b''"], rule exI [of _ "js ''c''"])
     (simp add: js_def plus_run_def email_char_def js_space_def)

subsection \<open>Properties of the account store\<close>

text \<open>Two registrations suspended on the same address, finished in order: both
  answer 201, each pushes its own user object, and the address ends naming the second.\<close>

lemma register_finish_pair:
  assumes rids: "ra \<noteq> rb" "\<not> jm_has (pending s) ra" "\<not> jm_has (pending s) rb"
    and s': "s' = register_finish hash tc rb (register_finish hash tb ra
                    (suspend rb (RegCont e pb nb) (suspend ra (RegCont e pa na) s)))"
  shows "responses s' = responses s @ [(ra, Inr Registered), (rb, Inr Registered)] \<and>
         jm_get (users s') e = Some (Suc (length (objs s))) \<and>
         a_name (objs s' ! length (objs s)) = na \<and> a_name (objs s' ! Suc (length (objs s))) = nb"
proof -
  let ?s2 = "suspend rb (RegCont e pb nb) (suspend ra (RegCont e pa na) s)"
  have k1: "ra \<notin> set (map fst (pending s))" and k2: "rb \<notin> set (map fst (pending s))"
    using rids by (simp_all add: jm_has_def)
  have na: "jm_get (pending s) ra = None" and nb: "jm_get (pending s) rb = None"
    using k1 k2 by (simp_all add: map_of_eq_None_iff)
  have g1: "jm_get (pending ?s2) ra = Some (RegCont e pa na)"
    using na rids(1) by (simp add: pending_suspend map_add_def)
  let ?s3 = "register_finish hash tb ra ?s2"
  have pend3: "pending ?s3 = pending s @ [(rb, RegCont e pb nb)]"
    using k1 by (simp add: register_finish_cont [OF g1] pending_resume pending_suspend
      delete_aux_append_first respond_def)
  have g2: "jm_get (pending ?s3) rb = Some (RegCont e pb nb)"
    using nb by (simp add: pend3 map_add_def)
  have s3: "responses ?s3 = responses s @ [(ra, Inr Registered)]"
      "users ?s3 = jm_set e (length (objs s)) (users s)"
      "length (objs ?s3) = Suc (length (objs s))" "a_name (objs ?s3 ! length (objs s)) = na"
    unfolding register_finish_cont [OF g1] by (simp_all add: respond_def)
  have s'': "s' = respond rb (Inr Registered) ((resume rb ?s3)\<lparr>objs := objs ?s3 @
      [\<lparr>a_id = js_nat_str tc, a_email = e, a_password = hash pb, a_name = nb, a_status = Offline,
         a_created = tc, a_last_login = None\<rparr>],
      users := jm_set e (length (objs ?s3)) (users ?s3)\<rparr>)"
    unfolding s' by (simp only: register_finish_cont [OF g2])
  have "responses s' = responses ?s3 @ [(rb, Inr Registered)]"
    "jm_get (users s') e = Some (length (objs ?s3))"
    "objs s' = objs ?s3 @ [\<lparr>a_id = js_nat_str tc, a_email = e, a_password = hash pb, a_name = nb,
       a_status = Offline, a_created = tc, a_last_login = None\<rparr>]"
    unfolding s'' by (simp_all add: respond_def jm_get_set)
  then show ?thesis
    using s3 by (simp add: nth_append)
qed

text \<open>C19: the register race. Two registrations of the same new address whose checks both
  run before either \<open>bcrypt.hash\<close> settles both succeed with 201; the address ends
  up naming the second account and the first account, already confirmed to its client,
  is unreachable. The \<open>users.has\<close> check (line 137) and the \<open>users.set\<close> (line 152)
  are separated by an \<open>await\<close>.\<close>

theorem register_race:
  assumes inv: "acct_inv s" and fresh: "\<not> jm_has (users s) e" and re: "email_re e"
    and rids: "ra \<noteq> rb" "\<not> jm_has (pending s) ra" "\<not> jm_has (pending s) rb"
    and pa: "6 \<le> length pa" "na \<noteq> []" and pb: "6 \<le> length pb" "nb \<noteq> []"
    and run: "acct_run hash compare sign
                [(ta, RegisterReq ra \<lparr>rb_email = Some e, rb_password = Some pa, rb_name = Some na\<rparr>),
                 (ta, RegisterReq rb \<lparr>rb_email = Some e, rb_password = Some pb, rb_name = Some nb\<rparr>),
                 (tb, RegisterDone ra), (tc, RegisterDone rb)] s = s'"
  shows "responses s' = responses s @ [(ra, Inr Registered), (rb, Inr Registered)] \<and>
         jm_get (users s') e = Some (Suc (length (objs s))) \<and>
         a_name (objs s' ! length (objs s)) = na \<and> a_name (objs s' ! Suc (length (objs s))) = nb"
proof -
  let ?s1 = "suspend ra (RegCont e pa na) s"
  let ?s2 = "suspend rb (RegCont e pb nb) ?s1"
  have st2: "acct_run hash compare sign [(tb, RegisterDone ra), (tc, RegisterDone rb)] ?s2 = s'"
  proof -
    have a: "register_start ra \<lparr>rb_email = Some e, rb_password = Some pa, rb_name = Some na\<rparr> s = ?s1"
      by (rule register_start_ok [OF re pa fresh])
    have b: "register_start rb \<lparr>rb_email = Some e, rb_password = Some pb, rb_name = Some nb\<rparr> ?s1 = ?s2"
      by (rule register_start_ok [OF re pb]) (simp add: suspend_def fresh)
    show ?thesis
      using run by (simp only: acct_run.simps acct_step.simps a b)
  qed
  then have "s' = register_finish hash tc rb (register_finish hash tb ra ?s2)"
    by simp
  from register_finish_pair [OF rids this] show ?thesis .
qed


theorem register_race_witness:
  "responses (acct_run id (\<lambda>p h. h = p) uid
      [(5, RegisterReq 1 \<lparr>rb_email = Some (js ''a@b.c''), rb_password = Some (js ''secret1''), rb_name = Some (js ''A'')\<rparr>),
       (5, RegisterReq 2 \<lparr>rb_email = Some (js ''a@b.c''), rb_password = Some (js ''secret2''), rb_name = Some (js ''B'')\<rparr>),
       (6, RegisterDone 1), (7, RegisterDone 2)] acct_init) = [(1, Inr Registered), (2, Inr Registered)] \<and>
   jm_get (users (acct_run id (\<lambda>p h. h = p) uid
      [(5, RegisterReq 1 \<lparr>rb_email = Some (js ''a@b.c''), rb_password = Some (js ''secret1''), rb_name = Some (js ''A'')\<rparr>),
       (5, RegisterReq 2 \<lparr>rb_email = Some (js ''a@b.c''), rb_password = Some (js ''secret2''), rb_name = Some (js ''B'')\<rparr>),
       (6, RegisterDone 1), (7, RegisterDone 2)] acct_init)) (js ''a@b.c'') = Some 1"
  using register_race [where s = acct_init and e = "js ''a@b.c''" and ra = 1 and rb = 2
      and pa = "js ''secret1''" and na = "js ''A''" and pb = "js ''secret2''" and nb = "js ''B''"
      and hash = id and compare = "\<lambda>p h. h = p" and sign = uid and ta = 5 and tb = 6 and tc = 7,
      OF _ _ email_re_demo _ _ _ _ _ _ _ refl]
  by (simp add: acct_init_def acct_inv_def jm_has_def js_def)


text \<open>Registration followed by a login whose password the stored hash accepts.\<close>

lemma register_login_flow:
  assumes fresh: "\<not> jm_has (users s) e" and re: "email_re e"
    and rids: "ra \<noteq> rb" "\<not> jm_has (pending s) ra" "\<not> jm_has (pending s) rb"
    and pw: "6 \<le> length p" "n \<noteq> []" and q: "q \<noteq> []" and cmp: "compare q (hash p)"
    and run: "acct_run hash compare sign
                [(ta, RegisterReq ra \<lparr>rb_email = Some e, rb_password = Some p, rb_name = Some n\<rparr>),
                 (tb, RegisterDone ra), (tc, LoginReq rb \<lparr>lb_email = Some e, lb_password = Some q\<rparr>),
                 (td, LoginDone rb)] s = s'"
  shows "responses s' = responses s @ [(ra, Inr Registered),
           (rb, Inr (LoggedIn (sign \<lparr>uid = js_nat_str tb, uemail = e, display_name = n\<rparr>)
                              \<lparr>uid = js_nat_str tb, uemail = e, display_name = n\<rparr>))] \<and>
         a_status (objs s' ! length (objs s)) = Online \<and>
         a_last_login (objs s' ! length (objs s)) = Some td"
proof -
  let ?s1 = "suspend ra (RegCont e p n) s"
  let ?a = "\<lparr>a_id = js_nat_str tb, a_email = e, a_password = hash p, a_name = n,
             a_status = Offline, a_created = tb, a_last_login = None\<rparr>"
  have na: "jm_get (pending s) ra = None" and nb: "jm_get (pending s) rb = None"
    using rids by (simp_all add: jm_has_def map_of_eq_None_iff)
  have g1: "jm_get (pending ?s1) ra = Some (RegCont e p n)"
    using na by (simp add: pending_suspend map_add_def)
  let ?s2 = "register_finish hash tb ra ?s1"
  have s2: "pending ?s2 = pending s" "users ?s2 = jm_set e (length (objs s)) (users s)"
      "objs ?s2 = objs s @ [?a]" "responses ?s2 = responses s @ [(ra, Inr Registered)]"
    using delete_aux_append_first [of ra "pending s" _ "[]"] rids(2)
    unfolding register_finish_cont [OF g1] by (simp_all add: respond_def resume_def suspend_def jm_has_def)
  have l: "login_start rb \<lparr>lb_email = Some e, lb_password = Some q\<rparr> ?s2 =
           suspend rb (LoginCont q (length (objs s))) ?s2"
    using email_re_nonempty [OF re] q by (intro login_start_found) (auto simp: s2 jm_get_set)
  let ?s3 = "suspend rb (LoginCont q (length (objs s))) ?s2"
  have g2: "jm_get (pending ?s3) rb = Some (LoginCont q (length (objs s)))"
    using nb by (simp add: pending_suspend s2 map_add_def)
  have "s' = login_finish compare sign td rb ?s3"
    using run by (simp only: acct_run.simps acct_step.simps register_start_ok [OF re pw fresh] l)
  then have s': "s' = respond rb (Inr (LoggedIn (sign (user_identity ?a)) (user_identity ?a)))
      ((resume rb ?s3)\<lparr>objs := (objs ?s3)[length (objs s) := ?a\<lparr>a_status := Online, a_last_login := Some td\<rparr>]\<rparr>)"
    using cmp by (simp add: login_finish_cont [OF g2] s2)
  show ?thesis
    unfolding s' by (simp add: respond_def s2 user_identity_def)
qed

text \<open>C20: registering and then logging in with the same password answers 201 and then a
  token for the account just created: its id is the registration time in decimal, its
  address and name are the ones registered; the account is marked online with the login
  time.\<close>

theorem register_login_roundtrip:
  assumes fresh: "\<not> jm_has (users s) e" and re: "email_re e"
    and rids: "ra \<noteq> rb" "\<not> jm_has (pending s) ra" "\<not> jm_has (pending s) rb"
    and pw: "6 \<le> length p" "n \<noteq> []" and cmp: "compare p (hash p)"
    and run: "acct_run hash compare sign
                [(ta, RegisterReq ra \<lparr>rb_email = Some e, rb_password = Some p, rb_name = Some n\<rparr>),
                 (tb, RegisterDone ra), (tc, LoginReq rb \<lparr>lb_email = Some e, lb_password = Some p\<rparr>),
                 (td, LoginDone rb)] s = s'"
  shows "responses s' = responses s @ [(ra, Inr Registered),
           (rb, Inr (LoggedIn (sign \<lparr>uid = js_nat_str tb, uemail = e, display_name = n\<rparr>)
                              \<lparr>uid = js_nat_str tb, uemail = e, display_name = n\<rparr>))] \<and>
         a_status (objs s' ! length (objs s)) = Online \<and>
         a_last_login (objs s' ! length (objs s)) = Some td"
proof -
  have "p \<noteq> []" using pw(1) by auto
  from register_login_flow [OF fresh re rids pw this cmp run] show ?thesis .
qed

theorem register_login_roundtrip_witness:
  "responses (acct_run id (\<lambda>p h. h = p) uid
      [(5, RegisterReq 1 \<lparr>rb_email = Some (js ''a@b.c''), rb_password = Some (js ''secret1''), rb_name = Some (js ''A'')\<rparr>),
       (6, RegisterDone 1), (7, LoginReq 2 \<lparr>lb_email = Some (js ''a@b.c''), lb_password = Some (js ''secret1'')\<rparr>),
       (8, LoginDone 2)] acct_init) =
   [(1, Inr Registered), (2, Inr (LoggedIn (js ''6'') \<lparr>uid = js ''6'', uemail = js ''a@b.c'', display_name = js ''A''\<rparr>))]"
  using register_login_roundtrip [where s = acct_init and e = "js ''a@b.c''" and ra = 1 and rb = 2
      and p = "js ''secret1''" and n = "js ''A''" and hash = id and compare = "\<lambda>p h. h = p"
      and sign = uid and ta = 5 and tb = 6 and tc = 7 and td = 8,
      OF _ email_re_demo _ _ _ _ _ _ refl]
  by (simp add: acct_init_def jm_has_def js_def js_nat_str_def dec_digits.simps)

text \<open>C21: a login whose password does not match answers 401 with the same error as an
  unknown address, and leaves the accounts and the address Map as they were; the
  request's continuation is gone.\<close>

theorem login_wrong_password:
  assumes inv: "acct_inv s" and k: "jm_get (pending s) rid = Some (LoginCont pw r)"
    and bad: "\<not> compare pw (a_password (objs s ! r))"
  shows "responses (login_finish compare sign now rid s) = responses s @ [(rid, Inl BadCredentials)] \<and>
         users (login_finish compare sign now rid s) = users s \<and>
         objs (login_finish compare sign now rid s) = objs s \<and>
         \<not> jm_has (pending (login_finish compare sign now rid s)) rid"
  using bad acct_inv_pending_wf [OF inv]
  by (simp add: login_finish_cont [OF k] respond_def resume_def jm_has_def jm_get_delete
      map_of_eq_None_iff [symmetric])

theorem login_wrong_password_witness:
  "responses (login_finish (\<lambda>p h. h = p) uid 9 2
      \<lparr>users = [(js ''a@b.c'', 0)], objs = [\<lparr>a_id = js ''6'', a_email = js ''a@b.c'', a_password = js ''secret1'',
         a_name = js ''A'', a_status = Offline, a_created = 6, a_last_login = None\<rparr>],
       pending = [(2, LoginCont (js ''wrong!'') 0)], responses = []\<rparr>) = [(2, Inl BadCredentials)]"
  using login_wrong_password [where s = "\<lparr>users = [(js ''a@b.c'', 0)], objs = [\<lparr>a_id = js ''6'',
      a_email = js ''a@b.c'', a_password = js ''secret1'', a_name = js ''A'', a_status = Offline,
      a_created = 6, a_last_login = None\<rparr>], pending = [(2, LoginCont (js ''wrong!'') 0)], responses = []\<rparr>"
      and rid = 2 and pw = "js ''wrong!''" and r = 0 and compare = "\<lambda>p h. h = p" and sign = uid and now = 9]
  by (simp add: acct_inv_def jm_wf_def js_def)

text \<open>C22: every state the account store reaches, from the empty store by requests with
  fresh request ids and settlements in any order, satisfies the invariant: one entry
  per address, each entry names an allocated account with that address, and every
  suspended login names an allocated account (so the \<open>objs s ! r\<close> of the login
  continuation reads a real object).\<close>

theorem acct_reachable_inv:
  "acct_reachable hash compare sign s \<Longrightarrow> acct_inv s"
proof (induction rule: acct_reachable.induct)
  case init
  show ?case by (simp add: acct_inv_def acct_init_def)
next
  case (step s ev now)
  from step.IH step.hyps(2) show ?case by (rule acct_inv_step)
qed

theorem acct_reachable_inv_witness:
  "acct_inv (acct_step id (\<lambda>p h. h = p) uid 5
     (RegisterReq 1 \<lparr>rb_email = Some (js ''a@b.c''), rb_password = Some (js ''secret1''), rb_name = Some (js ''A'')\<rparr>)
     acct_init)"
  by (rule acct_reachable_inv [where hash = id and compare = "\<lambda>p h. h = p" and sign = uid])
     (rule acct_reachable.step [OF acct_reachable.init], simp add: acct_init_def jm_has_def)

text \<open>C23: the pattern of line 128 accepts exactly the addresses with one \<open>@\<close>, no white
  space, something before the \<open>@\<close>, and a dot after it that is neither the first nor
  the last character of the domain.\<close>

theorem email_re_shape: "email_re s \<longleftrightarrow> email_shape s"
proof
  assume "email_re s"
  then obtain a b c where s: "s = a @ 64 # b @ 46 # c" and r: "plus_run a" "plus_run b" "plus_run c"
    by (auto simp: email_re_iff)
  then show "email_shape s"
    unfolding email_shape_def plus_run_def
    by (intro exI [of _ a] exI [of _ "b @ 46 # c"])
       (auto simp: email_char_dot butlast_append neq_Nil_conv)
next
  assume "email_shape s"
  then obtain a d where s: "s = a @ 64 # d" and a: "a \<noteq> []" "list_all email_char a"
      and d: "list_all email_char d" and dot: "46 \<in> set (butlast (tl d))"
    by (auto simp: email_shape_def)
  obtain u v where uv: "butlast (tl d) = u @ 46 # v"
    using split_list [OF dot] by blast
  have tl: "tl d = u @ 46 # v @ [last (tl d)]"
    using uv append_butlast_last_id [of "tl d"] by (metis append.assoc append_Cons butlast.simps(1) list.distinct(1) append_is_Nil_conv)
  have dd: "d = (hd d # u) @ 46 # v @ [last (tl d)]"
    using tl dot by (cases d) auto
  have "list_all email_char (hd d # u) \<and> list_all email_char (v @ [last (tl d)])"
    using d by (subst (asm) dd) simp
  then show "email_re s"
    unfolding email_re_iff plus_run_def using s a dd by blast
qed

theorem email_re_shape_witness: "email_shape (js ''a@b.c'') \<and> \<not> email_shape (js ''a@b'')"
  using email_re_shape [of "js ''a@b.c''"] email_re_shape [of "js ''a@b''"] email_re_demo
  by (simp add: email_re_iff js_def plus_run_def email_char_def js_space_def Cons_eq_append_conv)

text \<open>\<open>authenticateToken\<close> takes the piece after the first space of the
  \<open>Authorization\<close> header: a header \<open>w t\<close> with one space is accepted exactly when
  \<open>jwt.verify\<close> accepts \<open>t\<close>; an empty token, a header without a space, and no header
  are 401.\<close>

theorem authenticate_bearer:
  assumes "32 \<notin> set w" "32 \<notin> set t"
  shows "authenticate_token verify (Some (w @ 32 # t)) =
           (if t = [] then Inl TokenMissing
            else case verify t of None \<Rightarrow> Inl TokenInvalid | Some u \<Rightarrow> Inr u) \<and>
         authenticate_token verify (Some w) = Inl TokenMissing \<and>
         authenticate_token verify None = Inl TokenMissing"
  using assms
  by (simp add: authenticate_token_def js_split_space_append js_split_space_nospace)

theorem authenticate_bearer_witness:
  "authenticate_token (\<lambda>x. if x = js ''tok'' then Some \<lparr>uid = js ''1'', uemail = js ''a@b.c'', display_name = js ''A''\<rparr> else None)
     (Some (js ''Bearer'' @ 32 # js ''tok'')) = Inr \<lparr>uid = js ''1'', uemail = js ''a@b.c'', display_name = js ''A''\<rparr> \<and>
   authenticate_token (\<lambda>x. if x = js ''tok'' then Some \<lparr>uid = js ''1'', uemail = js ''a@b.c'', display_name = js ''A''\<rparr> else None)
     (Some (js ''Bearer'' @ 32 # js ''bad'')) = Inl TokenInvalid"
  using authenticate_bearer [where w = "js ''Bearer''" and t = "js ''tok''"
      and verify = "\<lambda>x. if x = js ''tok'' then Some \<lparr>uid = js ''1'', uemail = js ''a@b.c'', display_name = js ''A''\<rparr> else None"]
    authenticate_bearer [where w = "js ''Bearer''" and t = "js ''bad''"
      and verify = "\<lambda>x. if x = js ''tok'' then Some \<lparr>uid = js ''1'', uemail = js ''a@b.c'', display_name = js ''A''\<rparr> else None"]
  by (simp_all add: js_def)

end
