(* ===== verification/Client.thy ===== *)
theory Client
  imports Server Accounts
begin

text \<open>
  The browser client, class \<open>TerminalChat\<close> of \<^verbatim>\<open>src/app.js\<close>. Its state is the
  object's fields (\<open>token\<close>, \<open>currentUser\<close>, \<open>currentRoom\<close>, \<open>socket\<close>,
  \<open>typingTimeout\<close>) together with the parts of the page and of \<open>localStorage\<close> the
  handlers read and write: the values of the input elements by id, the stored
  \<open>chat_token\<close> and \<open>message_draft\<close>, the socket emits and HTTP requests sent so far,
  the rendered users list, the rendered messages, the typing indicator, the
  notification permission, the page's visibility, the notifications created and the
  body's theme class. \<open>this.socket\<close> is counted: \<open>c_sockets\<close> is the number of \<open>io()\<close>
  connections \<open>connectSocket\<close> has opened (null when 0). A pending \<open>setTimeout\<close> of
  the typing timer is its deadline in milliseconds. The DOM listeners of
  \<open>setupEventListeners\<close> (lines 28-84) run in registration order on each event.
  The page is the auth page of \<open>showAuthInterface\<close> or the chat page of
  \<open>showChatInterface\<close>; a method that looks up an element of the other page finds
  none. System messages and auth messages are kept by what their text says (a datatype
  whose arguments are the interpolated values), since their wording is fixed Arabic
  text. A notification is recorded with its title's sender and its body, in
  \<open>c_alerts\<close> when \<open>displayMessage\<close> plays the sound and asks for it, in
  \<open>c_notes\<close> when \<open>showNotification\<close> creates it; the permission prompt's answer
  and \<open>document.hidden\<close> are events of the browser. Not modelled: the sound itself
  (Web Audio). Neither page contains \<open>emoji-picker\<close> or \<open>search-input\<close>, so here
  \<open>toggleEmojiPicker\<close> does nothing and no event reaches \<open>searchMessages\<close>; the
  theory \<open>ChatTools\<close> models both for a page that has the elements. A message's
  rendered HTML keeps the template's tags and interpolations and drops the white space
  between the tags.
\<close>

datatype cl_emit =
    EmitJoin jstr
  | EmitSend send_data
  | EmitTypingStart jstr
  | EmitTypingStop jstr

datatype cl_request =
    ReqLogin login_body
  | ReqRegister reg_body
  | ReqMessages jstr jstr

datatype page = AuthPage | ChatPage

text \<open>The system messages of lines 143-145, 290, 296, 304, 309 and 323.\<close>

datatype sys_note =
    SysConnecting | SysConnected | SysDisconnected | SysJoined jstr | SysLeft jstr
  | SysConnectError

text \<open>The children of a message's \<open>.message-content\<close> div: the text node the markup
  of \<open>escapeHtml\<close> parses to, or markup assigned to its \<open>innerHTML\<close> later.\<close>

datatype msg_body = BodyText jstr | BodyMarkup jstr

text \<open>A message element of \<open>chat-messages\<close> (lines 374-406): own or not, the
  \<open>senderName\<close> and the time as the template interpolates them, the content div,
  and whether it is displayed (\<open>style.display\<close> and \<open>opacity\<close>, which only
  \<open>searchMessages\<close> sets).\<close>

record msg_el =
  me_own :: bool
  me_sender :: jstr
  me_time :: jstr
  me_body :: msg_body
  me_shown :: bool

text \<open>An element of \<open>chat-messages\<close>: a message or a system message.\<close>

datatype chat_el = MsgEl msg_el | SysEl sys_note

text \<open>The texts \<open>showAuthMessage\<close> is given (lines 216, 235, 237, 240, 250, 255, 269,
  272, 275); \<open>NoteServer e\<close> is the server's \<open>data.error\<close> for \<open>e\<close>.\<close>

datatype auth_note =
    NoteLoginFields | NoteRegisterFields | NoteShortPassword | NoteLoginOk | NoteRegisterOk
  | NoteNetworkError | NoteServer api_error

record client =
  c_token :: "jstr option"
  c_user :: "identity option"
  c_room :: jstr
  c_sockets :: nat
  c_timer :: "nat option"
  c_fields :: "(jstr, jstr) jsmap"
  c_store :: "(jstr, jstr) jsmap"
  c_emits :: "cl_emit list"
  c_requests :: "cl_request list"
  c_users :: "jstr list"
  c_msgs :: "chat_el list"
  c_alerts :: "(jstr \<times> jstr) list"
  c_typing :: "jstr option"
  c_page :: page
  c_login_mode :: bool
  c_auth_note :: "auth_note option"
  c_auth_type :: "jstr option"
  c_notify :: bool
  c_hidden :: bool
  c_notes :: "(jstr \<times> jstr) list"
  c_light :: bool

subsection \<open>Page and storage access\<close>

text \<open>\<open>document.getElementById(id).value\<close>; an input the page has not been given a
  value is empty.\<close>

definition field :: "client \<Rightarrow> jstr \<Rightarrow> jstr" where
  "field c i = (case jm_get (c_fields c) i of Some v \<Rightarrow> v | None \<Rightarrow> [])"

definition set_field :: "jstr \<Rightarrow> jstr \<Rightarrow> client \<Rightarrow> client" where
  "set_field i v c = c\<lparr>c_fields := jm_set i v (c_fields c)\<rparr>"

definition emit :: "cl_emit \<Rightarrow> client \<Rightarrow> client" where
  "emit e c = c\<lparr>c_emits := c_emits c @ [e]\<rparr>"

definition send_request :: "cl_request \<Rightarrow> client \<Rightarrow> client" where
  "send_request r c = c\<lparr>c_requests := c_requests c @ [r]\<rparr>"

text \<open>\<open>showAuthMessage\<close> (lines 203-209): only the auth page has \<open>auth-message\<close>.\<close>

definition show_auth_message :: "auth_note \<Rightarrow> jstr \<Rightarrow> client \<Rightarrow> client" where
  "show_auth_message n ty c =
     (if c_page c = AuthPage then c\<lparr>c_auth_note := Some n, c_auth_type := Some ty\<rparr> else c)"

text \<open>\<open>addSystemMessage\<close> (lines 408-418): only the chat page has \<open>chat-messages\<close>.\<close>

definition add_system_message :: "sys_note \<Rightarrow> client \<Rightarrow> client" where
  "add_system_message n c = (if c_page c = ChatPage then c\<lparr>c_msgs := c_msgs c @ [SysEl n]\<rparr> else c)"

subsection \<open>The handlers\<close>

text \<open>\<open>showAuthInterface\<close> (lines 86-126): the auth page in login mode, its inputs empty
  and no auth message.\<close>

definition show_auth_interface :: "client \<Rightarrow> client" where
  "show_auth_interface c =
     c\<lparr>c_page := AuthPage, c_login_mode := True, c_auth_note := None, c_auth_type := None,
       c_fields := [], c_users := [], c_msgs := [], c_typing := None\<rparr>"

text \<open>\<open>toggleAuthMode\<close> (lines 178-201): the mode is read from the login button's
  visibility and flipped, and the auth message is cleared; off the auth page the
  \<open>login-btn\<close> lookup is null and the method throws (\<open>None\<close>).\<close>

definition toggle_auth_mode :: "client \<Rightarrow> client option" where
  "toggle_auth_mode c =
     (if c_page c = AuthPage then Some (c\<lparr>c_login_mode := \<not> c_login_mode c, c_auth_note := None\<rparr>)
      else None)"

text \<open>\<open>connectSocket\<close> (lines 279-286): a new \<open>io()\<close> connection when there is a
  token.\<close>

definition connect_socket :: "client \<Rightarrow> client" where
  "connect_socket c = (if js_truthy (c_token c) then c\<lparr>c_sockets := Suc (c_sockets c)\<rparr> else c)"

text \<open>\<open>loadMessages\<close> (lines 334-342): \<open>GET /api/messages/<room>\<close> with the header
  \<open>Bearer <token>\<close>.\<close>

definition load_messages :: "client \<Rightarrow> client" where
  "load_messages c =
     (if js_truthy (c_token c)
      then send_request (ReqMessages (c_room c) (js ''Bearer'' @ 32 # the (c_token c))) c else c)"

text \<open>\<open>showChatInterface\<close> (lines 128-176): the chat page, whose message box is empty
  unless a draft is stored; then \<open>loadMessages\<close> and the draft is restored.\<close>

definition show_chat :: "client \<Rightarrow> client" where
  "show_chat c =
     (let c1 = load_messages (c\<lparr>c_page := ChatPage, c_fields := [(js ''message-input'', [])],
                                 c_users := [], c_msgs := [SysEl SysConnecting], c_typing := None\<rparr>)
      in if js_truthy (jm_get (c_store c) (js ''message_draft''))
         then set_field (js ''message-input'') (the (jm_get (c_store c) (js ''message_draft''))) c1
         else c1)"

text \<open>The constructor and \<open>init\<close> (lines 2-26): a stored token reopens the chat and
  the socket; \<open>currentUser\<close> stays null.\<close>

definition client_init :: "(jstr, jstr) jsmap \<Rightarrow> client" where
  "client_init store =
     (let c0 = \<lparr>c_token = None, c_user = None, c_room = js ''general'', c_sockets = 0, c_timer = None,
                c_fields = [], c_store = store, c_emits = [], c_requests = [], c_users = [], c_msgs = [],
                c_alerts = [], c_typing = None, c_page = AuthPage, c_login_mode = True, c_auth_note = None,
                c_auth_type = None, c_notify = False, c_hidden = False, c_notes = [], c_light = False\<rparr>
      in if js_truthy (jm_get store (js ''chat_token''))
         then connect_socket (show_chat (c0\<lparr>c_token := jm_get store (js ''chat_token'')\<rparr>))
         else show_auth_interface c0)"

text \<open>\<open>handleTyping\<close> and \<open>stopTyping\<close> (lines 437-453).\<close>

definition handle_typing :: "nat \<Rightarrow> client \<Rightarrow> client" where
  "handle_typing now c =
     (if c_sockets c = 0 then c
      else (emit (EmitTypingStart (c_room c)) c)\<lparr>c_timer := Some (now + 2000)\<rparr>)"

definition stop_typing :: "client \<Rightarrow> client" where
  "stop_typing c =
     (if c_sockets c = 0 then c else (emit (EmitTypingStop (c_room c)) c)\<lparr>c_timer := None\<rparr>)"

text \<open>The typing timer's callback (line 443), when its deadline has come.\<close>

definition typing_timer :: "nat \<Rightarrow> client \<Rightarrow> client" where
  "typing_timer now c =
     (case c_timer c of
        Some d \<Rightarrow> if d \<le> now then stop_typing (c\<lparr>c_timer := None\<rparr>) else c
      | None \<Rightarrow> c)"

text \<open>\<open>sendMessage\<close> (lines 358-372).\<close>

definition send_message :: "client \<Rightarrow> client" where
  "send_message c =
     (let content = js_trim (field c (js ''message-input''))
      in if content = [] \<or> c_sockets c = 0 then c
         else stop_typing (set_field (js ''message-input'') []
                (emit (EmitSend \<lparr>sd_room = c_room c, sd_content = content, sd_type = Some (js ''text'')\<rparr>) c)))"

text \<open>The \<open>input\<close> event (lines 30-35, 64-68, 79-83): the browser stores the new value,
  then the three listeners run in order; the first saves the draft and calls
  \<open>handleTyping\<close>, the second searches (its element does not exist), the third calls
  \<open>handleTyping\<close> again.\<close>

definition on_input :: "nat \<Rightarrow> jstr \<Rightarrow> jstr \<Rightarrow> client \<Rightarrow> client" where
  "on_input now i v c =
     (let c1 = set_field i v c;
          c2 = (if i = js ''message-input''
                then handle_typing now (c1\<lparr>c_store := jm_set (js ''message_draft'') v (c_store c1)\<rparr>)
                else c1)
      in if i = js ''message-input'' then handle_typing now c2 else c2)"

text \<open>\<open>login\<close> and \<open>register\<close> up to their \<open>fetch\<close> (lines 211-225, 244-264); a
  field check that fails shows its auth message.\<close>

definition login :: "client \<Rightarrow> client" where
  "login c =
     (let email = js_trim (field c (js ''email'')); pw = field c (js ''password'')
      in if email = [] \<or> pw = [] then show_auth_message NoteLoginFields (js ''error'') c
         else send_request (ReqLogin \<lparr>lb_email = Some email, lb_password = Some pw\<rparr>) c)"

definition register :: "client \<Rightarrow> client" where
  "register c =
     (let n = js_trim (field c (js ''display-name'')); email = js_trim (field c (js ''email''));
          pw = field c (js ''password'')
      in if n = [] \<or> email = [] \<or> pw = [] then show_auth_message NoteRegisterFields (js ''error'') c
         else if length pw < 6 then show_auth_message NoteShortPassword (js ''error'') c
         else send_request (ReqRegister \<lparr>rb_email = Some email, rb_password = Some pw, rb_name = Some n\<rparr>) c)"

text \<open>A successful login response (lines 229-235).\<close>

definition login_ok :: "jstr \<Rightarrow> identity \<Rightarrow> client \<Rightarrow> client" where
  "login_ok tok u c =
     connect_socket (show_chat (c\<lparr>c_token := Some tok, c_user := Some u,
                                  c_store := jm_set (js ''chat_token'') tok (c_store c)\<rparr>))"

text \<open>The rest of \<open>login\<close> (lines 227-241), on the response to \<open>/api/login\<close>:
  \<open>None\<close> when \<open>fetch\<close> or \<open>json()\<close> rejects, the error of a failed login, or the
  token and user of a successful one. The success message is shown after
  \<open>showChatInterface\<close> has replaced the auth page.\<close>

definition login_response :: "(api_error + jstr \<times> identity) option \<Rightarrow> client \<Rightarrow> client" where
  "login_response r c =
     (case r of
        None \<Rightarrow> show_auth_message NoteNetworkError (js ''error'') c
      | Some (Inl e) \<Rightarrow> show_auth_message (NoteServer e) (js ''error'') c
      | Some (Inr (tok, u)) \<Rightarrow> show_auth_message NoteLoginOk (js ''success'') (login_ok tok u c))"

text \<open>The rest of \<open>register\<close> (lines 266-276): on success the message is shown and
  \<open>toggleAuthMode\<close> runs inside the same \<open>try\<close>, whose \<open>catch\<close> takes its
  exception.\<close>

definition register_response :: "(api_error + unit) option \<Rightarrow> client \<Rightarrow> client" where
  "register_response r c =
     (case r of
        None \<Rightarrow> show_auth_message NoteNetworkError (js ''error'') c
      | Some (Inl e) \<Rightarrow> show_auth_message (NoteServer e) (js ''error'') c
      | Some (Inr _) \<Rightarrow>
          (let c1 = show_auth_message NoteRegisterOk (js ''success'') c
           in case toggle_auth_mode c1 of
                Some c2 \<Rightarrow> c2
              | None \<Rightarrow> show_auth_message NoteNetworkError (js ''error'') c1))"

text \<open>\<open>logout\<close> (lines 467-475): the socket is disconnected but \<open>this.socket\<close> is kept,
  and the auth page replaces the chat page; \<open>message_draft\<close> stays in storage.\<close>

definition logout :: "client \<Rightarrow> client" where
  "logout c =
     show_auth_interface (c\<lparr>c_store := jm_delete (js ''chat_token'') (c_store c), c_token := None,
                            c_user := None\<rparr>)"

text \<open>\<open>escapeHtml\<close> (lines 477-481): assigning \<open>textContent\<close> and reading
  \<open>innerHTML\<close> serialises a text node, which escapes \<open>&\<close>, no-break space,
  \<open><\<close> and \<open>>\<close>.\<close>

definition esc_char :: "16 word \<Rightarrow> jstr" where
  "esc_char ch =
     (if ch = 38 then js ''&amp;'' else if ch = 160 then js ''&nbsp;''
      else if ch = 60 then js ''&lt;'' else if ch = 62 then js ''&gt;'' else [ch])"

definition escape_html :: "jstr \<Rightarrow> jstr" where
  "escape_html s = concat (map esc_char s)"

text \<open>The \<open>innerHTML\<close> of a message element (lines 396-402); \<open>fmt\<close> is
  \<open>toLocaleTimeString\<close>.\<close>

definition message_markup :: "jstr \<Rightarrow> jstr \<Rightarrow> jstr \<Rightarrow> jstr" where
  "message_markup sender time inner =
     js ''<div class=\"message-header\"><span class=\"sender\">'' @ sender @
     js ''</span><span class=\"timestamp\">'' @ time @ js ''</span></div><div class=\"message-content\">'' @
     inner @ js ''</div>''"

definition message_html :: "(nat \<Rightarrow> jstr) \<Rightarrow> message \<Rightarrow> jstr" where
  "message_html fmt m = message_markup (sender_name m) (fmt (timestamp m)) (escape_html (content m))"

text \<open>The element \<open>displayMessage\<close> appends: its markup is \<open>message_html\<close>, whose
  content div parses to the text node of the message's content.\<close>

definition message_el :: "(nat \<Rightarrow> jstr) \<Rightarrow> bool \<Rightarrow> message \<Rightarrow> msg_el" where
  "message_el fmt own m =
     \<lparr>me_own = own, me_sender = sender_name m, me_time = fmt (timestamp m),
      me_body = BodyText (content m), me_shown = True\<rparr>"

text \<open>The body of the notification for a message (line 386): the first 50 code units
  and \<open>'...'\<close> when the content is longer.\<close>

definition notification_preview :: "jstr \<Rightarrow> jstr" where
  "notification_preview s = (if 50 < length s then take 50 s @ js ''...'' else s)"

text \<open>\<open>showNotification\<close> (lines 571-586): a notification is created only when
  permission was granted and the page is hidden.\<close>

definition show_notification :: "jstr \<Rightarrow> jstr \<Rightarrow> client \<Rightarrow> client" where
  "show_notification title body c =
     (if c_notify c \<and> c_hidden c then c\<lparr>c_notes := c_notes c @ [(title, body)]\<rparr> else c)"

text \<open>\<open>requestNotificationPermission\<close> (lines 564-569) when the browser's prompt
  settles.\<close>

definition notification_permission :: "bool \<Rightarrow> client \<Rightarrow> client" where
  "notification_permission granted c = c\<lparr>c_notify := granted\<rparr>"

text \<open>\<open>displayMessage\<close> (lines 374-406): own messages are marked; for the others the
  sound plays and a notification titled with the sender's name is asked for (both
  recorded in \<open>c_alerts\<close>). Off the chat page \<open>chat-messages\<close> is null and
  \<open>appendChild\<close> throws after the notification.\<close>

definition display_message :: "(nat \<Rightarrow> jstr) \<Rightarrow> message \<Rightarrow> client \<Rightarrow> client" where
  "display_message fmt m c =
     (let own = (case c_user c of Some u \<Rightarrow> sender_id m = uid u | None \<Rightarrow> False);
          c1 = (if own then c
                else show_notification (sender_name m) (notification_preview (content m))
                       (c\<lparr>c_alerts := c_alerts c @ [(sender_name m, notification_preview (content m))]\<rparr>))
      in c1\<lparr>c_msgs := (if c_page c = ChatPage then c_msgs c @ [MsgEl (message_el fmt own m)] else c_msgs c)\<rparr>)"

text \<open>\<open>updateUsersList\<close> (lines 420-435), whose parameter defaults to \<open>[]\<close>.\<close>

definition update_users_list :: "user_entry list \<Rightarrow> client \<Rightarrow> client" where
  "update_users_list us c = (if c_page c = ChatPage then c\<lparr>c_users := map ue_name us\<rparr> else c)"

text \<open>\<open>showTypingIndicator\<close> (lines 455-465).\<close>

definition show_typing_indicator :: "jstr \<Rightarrow> jstr \<Rightarrow> bool \<Rightarrow> client \<Rightarrow> client" where
  "show_typing_indicator i n typing c =
     (if c_page c = ChatPage
      then c\<lparr>c_typing := (if typing \<and> (case c_user c of Some u \<Rightarrow> i \<noteq> uid u | None \<Rightarrow> True)
                         then Some n else None)\<rparr>
      else c)"

text \<open>The socket's handlers (lines 288-331).\<close>

definition on_server_event :: "(nat \<Rightarrow> jstr) \<Rightarrow> out_event \<Rightarrow> client \<Rightarrow> client" where
  "on_server_event fmt ev c =
     (case ev of
        NewMessage m \<Rightarrow> display_message fmt m c
      | UserOnline i n \<Rightarrow> update_users_list [] (add_system_message (SysJoined n) c)
      | UserOffline i n \<Rightarrow> update_users_list [] (add_system_message (SysLeft n) c)
      | UsersList us \<Rightarrow> update_users_list us c
      | UserTyping i n t \<Rightarrow> show_typing_indicator i n t c)"

text \<open>The \<open>connect\<close> handler (lines 288-292) notes the connection and joins the current
  room; the \<open>disconnect\<close> handler (lines 294-297) and the \<open>connect_error\<close> handler
  (lines 321-324) note the loss; the retry of the \<open>connect_error\<close> handler (lines
  326-330) opens another connection when the current one is not connected.\<close>

definition on_connect :: "client \<Rightarrow> client" where
  "on_connect c = emit (EmitJoin (c_room c)) (add_system_message SysConnected c)"

definition on_socket_disconnect :: "client \<Rightarrow> client" where
  "on_socket_disconnect c = add_system_message SysDisconnected c"

definition on_connect_error :: "client \<Rightarrow> client" where
  "on_connect_error c = add_system_message SysConnectError c"

text \<open>\<open>loadTheme\<close> (lines 522-531), run 100 ms after \<open>showChatInterface\<close> (line 175):
  the body's class survives the pages' \<open>innerHTML\<close>; \<open>theme-toggle\<close> is on neither
  page, so the guarded write is skipped.\<close>

definition load_theme :: "client \<Rightarrow> client" where
  "load_theme c = (if jm_get (c_store c) (js ''theme'') = Some (js ''light'') then c\<lparr>c_light := True\<rparr> else c)"

text \<open>\<open>toggleTheme\<close> (lines 511-520): the class flips, then \<open>themeBtn.textContent\<close>
  throws on the null button before \<open>localStorage\<close> is written.\<close>

definition toggle_theme :: "client \<Rightarrow> client" where
  "toggle_theme c = c\<lparr>c_light := \<not> c_light c\<rparr>"

definition connect_retry :: "bool \<Rightarrow> client \<Rightarrow> client" where
  "connect_retry connected c = (if connected then c else connect_socket c)"

text \<open>\<open>loadMessages\<close> after its response (lines 344-351); off the chat page the
  container is null and the \<open>catch\<close> takes the exception.\<close>

definition messages_loaded :: "(nat \<Rightarrow> jstr) \<Rightarrow> message list \<Rightarrow> client \<Rightarrow> client" where
  "messages_loaded fmt ms c =
     (if c_page c = ChatPage then fold (display_message fmt) ms (c\<lparr>c_msgs := []\<rparr>) else c)"

text \<open>Decoding the four character references \<open>escapeHtml\<close> produces, as the HTML
  parser does when the element's markup is read back.\<close>

function unescape_html :: "jstr \<Rightarrow> jstr" where
  "unescape_html [] = []"
| "unescape_html (ch # cs) =
     (if ch = 38 \<and> take 4 cs = js ''amp;'' then 38 # unescape_html (drop 4 cs)
      else if ch = 38 \<and> take 5 cs = js ''nbsp;'' then 160 # unescape_html (drop 5 cs)
      else if ch = 38 \<and> take 3 cs = js ''lt;'' then 60 # unescape_html (drop 3 cs)
      else if ch = 38 \<and> take 3 cs = js ''gt;'' then 62 # unescape_html (drop 3 cs)
      else ch # unescape_html cs)"
  by pat_completeness auto
termination
  by (relation "measure length") auto

text \<open>The number of \<open><\<close> code units of a string: each starts a tag when the string
  is assigned to \<open>innerHTML\<close>.\<close>

definition tag_opens :: "jstr \<Rightarrow> nat" where
  "tag_opens s = length (filter (\<lambda>ch. ch = 60) s)"

subsection \<open>Dispatch\<close>

datatype cl_event =
    DomInput jstr jstr
  | DomClick jstr
  | DomEnter jstr
  | TypingTimer
  | LoginResponse "(api_error + jstr \<times> identity) option"
  | RegisterResponse "(api_error + unit) option"
  | SocketConnect
  | SocketDisconnect
  | ConnectError
  | ConnectRetry bool
  | ThemeTimer
  | NotifPermission bool
  | Visibility bool
  | ServerEvent out_event
  | MessagesResponse "message list"

fun client_step :: "(nat \<Rightarrow> jstr) \<Rightarrow> nat \<Rightarrow> cl_event \<Rightarrow> client \<Rightarrow> client" where
  "client_step fmt now (DomInput i v) c = on_input now i v c"
| "client_step fmt now (DomClick i) c =
     (if i = js ''login-btn'' then login c
      else if i = js ''register-btn'' then register c
      else if i = js ''send-btn'' then send_message c
      else if i = js ''logout-btn'' then logout c
      else if i = js ''theme-toggle'' then toggle_theme c
      else if i = js ''emoji-btn'' then c
      else if i = js ''toggle-link'' then (case toggle_auth_mode c of Some c' \<Rightarrow> c' | None \<Rightarrow> c)
      else c)"
| "client_step fmt now (DomEnter i) c = (if i = js ''message-input'' then send_message c else c)"
| "client_step fmt now TypingTimer c = typing_timer now c"
| "client_step fmt now (LoginResponse r) c = login_response r c"
| "client_step fmt now (RegisterResponse r) c = register_response r c"
| "client_step fmt now SocketConnect c = on_connect c"
| "client_step fmt now SocketDisconnect c = on_socket_disconnect c"
| "client_step fmt now ConnectError c = on_connect_error c"
| "client_step fmt now (ConnectRetry b) c = connect_retry b c"
| "client_step fmt now ThemeTimer c = load_theme c"
| "client_step fmt now (NotifPermission g) c = notification_permission g c"
| "client_step fmt now (Visibility b) c = c\<lparr>c_hidden := b\<rparr>"
| "client_step fmt now (ServerEvent ev) c = on_server_event fmt ev c"
| "client_step fmt now (MessagesResponse ms) c = messages_loaded fmt ms c"

fun client_run :: "(nat \<Rightarrow> jstr) \<Rightarrow> (nat \<times> cl_event) list \<Rightarrow> client \<Rightarrow> client" where
  "client_run fmt [] c = c"
| "client_run fmt ((now, ev) # evs) c = client_run fmt evs (client_step fmt now ev c)"

text \<open>A client reopened from a stored token, as after a reload.\<close>

definition demo_client :: client where
  "demo_client = client_init [(js ''chat_token'', js ''tokA'')]"

text \<open>The page agrees with the session: the chat page is shown only with a token, the
  auth page only with neither token nor user.\<close>

definition client_inv :: "client \<Rightarrow> bool" where
  "client_inv c \<longleftrightarrow>
     (c_page c = ChatPage \<longrightarrow> c_token c \<noteq> None) \<and>
     (c_page c = AuthPage \<longrightarrow> c_token c = None \<and> c_user c = None)"

declare field_def [model_defs] set_field_def [model_defs] emit_def [model_defs]
  send_request_def [model_defs] connect_socket_def [model_defs] load_messages_def [model_defs]
  show_chat_def [model_defs] client_init_def [model_defs] handle_typing_def [model_defs]
  stop_typing_def [model_defs] typing_timer_def [model_defs] send_message_def [model_defs]
  on_input_def [model_defs] login_def [model_defs] register_def [model_defs]
  login_ok_def [model_defs] logout_def [model_defs] display_message_def [model_defs]
  update_users_list_def [model_defs] show_typing_indicator_def [model_defs]
  on_server_event_def [model_defs] on_connect_def [model_defs] connect_retry_def [model_defs]
  show_auth_message_def [model_defs] add_system_message_def [model_defs]
  show_auth_interface_def [model_defs] toggle_auth_mode_def [model_defs]
  login_response_def [model_defs] register_response_def [model_defs]
  notification_preview_def [model_defs] on_socket_disconnect_def [model_defs]
  on_connect_error_def [model_defs] messages_loaded_def [model_defs]
  show_notification_def [model_defs] notification_permission_def [model_defs]
  load_theme_def [model_defs] toggle_theme_def [model_defs]

subsection \<open>Lemmas\<close>

lemma client_frames [simp]:
  "c_emits (set_field i v c) = c_emits c" "c_timer (set_field i v c) = c_timer c"
  "c_sockets (set_field i v c) = c_sockets c" "c_room (set_field i v c) = c_room c"
  "c_store (set_field i v c) = c_store c"
  "c_fields (emit e c) = c_fields c" "c_timer (emit e c) = c_timer c"
  "c_sockets (emit e c) = c_sockets c" "c_room (emit e c) = c_room c" "c_store (emit e c) = c_store c"
  "c_emits (emit e c) = c_emits c @ [e]"
  by (simp_all add: set_field_def emit_def)

lemma field_set_field [simp]: "field (set_field i v c) j = (if j = i then v else field c j)"
  by (simp add: field_def set_field_def jm_get_set)

lemma field_store [simp]: "field (c\<lparr>c_store := st\<rparr>) j = field c j"
  by (simp add: field_def)

lemma handle_typing_on [simp]:
  "0 < c_sockets c \<Longrightarrow> c_emits (handle_typing now c) = c_emits c @ [EmitTypingStart (c_room c)]"
  "c_timer (handle_typing now c) = (if c_sockets c = 0 then c_timer c else Some (now + 2000))"
  "c_sockets (handle_typing now c) = c_sockets c" "c_room (handle_typing now c) = c_room c"
  "c_store (handle_typing now c) = c_store c" "field (handle_typing now c) j = field c j"
  by (simp_all add: handle_typing_def field_def emit_def)

lemma stop_typing_on [simp]:
  "0 < c_sockets c \<Longrightarrow> c_emits (stop_typing c) = c_emits c @ [EmitTypingStop (c_room c)]"
  "0 < c_sockets c \<Longrightarrow> c_timer (stop_typing c) = None"
  "c_sockets (stop_typing c) = c_sockets c" "c_room (stop_typing c) = c_room c"
  "c_store (stop_typing c) = c_store c" "field (stop_typing c) j = field c j"
  by (simp_all add: stop_typing_def field_def emit_def)

lemma on_input_msg:
  "on_input now (js ''message-input'') v c =
     handle_typing now (handle_typing now
       ((set_field (js ''message-input'') v c)\<lparr>c_store := jm_set (js ''message_draft'') v (c_store c)\<rparr>))"
  by (simp add: on_input_def Let_def set_field_def)

lemma unescape_esc_char: "unescape_html (esc_char ch @ cs) = ch # unescape_html cs"
  by (simp add: esc_char_def js_def)

lemma tag_opens_append [simp]: "tag_opens (xs @ ys) = tag_opens xs + tag_opens ys"
  by (simp add: tag_opens_def)

lemma tag_opens_escape: "tag_opens (escape_html s) = 0"
  by (induction s) (auto simp: escape_html_def tag_opens_def esc_char_def js_def)

lemma demo_client_simps:
  "c_sockets demo_client = 1" "c_room demo_client = js ''general''" "c_emits demo_client = []"
  "c_user demo_client = None" "c_msgs demo_client = [SysEl SysConnecting]" "c_alerts demo_client = []"
  "c_store demo_client = [(js ''chat_token'', js ''tokA'')]" "c_token demo_client = Some (js ''tokA'')"
  "field demo_client (js ''message-input'') = []" "c_page demo_client = ChatPage"
  by (simp_all add: demo_client_def model_defs js_def)

lemma login_request_fields:
  "c_requests (login c) = c_requests c @ [ReqLogin b] \<Longrightarrow>
   \<exists>e p. b = \<lparr>lb_email = Some e, lb_password = Some p\<rparr> \<and> e \<noteq> [] \<and> p \<noteq> []"
  by (auto simp: login_def Let_def send_request_def show_auth_message_def split: if_splits)

lemma register_request_fields:
  "c_requests (register c) = c_requests c @ [ReqRegister b] \<Longrightarrow>
   \<exists>e p n. b = \<lparr>rb_email = Some e, rb_password = Some p, rb_name = Some n\<rparr> \<and> e \<noteq> [] \<and> n \<noteq> [] \<and>
     6 \<le> length p"
  by (auto simp: register_def Let_def send_request_def show_auth_message_def split: if_splits)

text \<open>A successful login response lands on the chat page with the token stored and
  a socket opened; the success message finds no auth page.\<close>

lemma login_ok_session:
  "c_token (login_ok tok u c) = Some tok" "c_user (login_ok tok u c) = Some u"
  "c_page (login_ok tok u c) = ChatPage"
  "c_sockets (login_ok tok u c) = (if tok = [] then c_sockets c else Suc (c_sockets c))"
  by (simp_all add: login_ok_def connect_socket_def show_chat_def load_messages_def send_request_def
    set_field_def Let_def js_truthy_def)

lemma login_response_ok: "login_response (Some (Inr (tok, u))) c = login_ok tok u c"
  by (simp add: login_response_def show_auth_message_def login_ok_session)

text \<open>A notification's body is at most 53 code units, the content itself when it has
  at most 50. \<open>substring(0, 50)\<close> counts UTF-16 code units, so an emoji astride the
  cut loses its low surrogate and the body ends in a lone high surrogate.\<close>

lemma notification_preview_bound:
  "length (notification_preview s) \<le> 53 \<and> (length s \<le> 50 \<longrightarrow> notification_preview s = s) \<and>
   prefix (take 50 s) (notification_preview s)"
  by (simp add: notification_preview_def js_def)

lemma notification_preview_splits_pair:
  "notification_preview (replicate 49 65 @ [0xD83D, 0xDE00]) = replicate 49 65 @ [0xD83D] @ js ''...''"
  by (simp add: notification_preview_def)

text \<open>The page, the token and the user: every handler but \<open>login_ok\<close> and
  \<open>logout\<close> leaves them as they are.\<close>

lemma session_frames [simp]:
  "c_page (set_field i v c) = c_page c" "c_token (set_field i v c) = c_token c" "c_user (set_field i v c) = c_user c"
  "c_page (emit e c) = c_page c" "c_token (emit e c) = c_token c" "c_user (emit e c) = c_user c"
  "c_page (send_request q c) = c_page c" "c_token (send_request q c) = c_token c" "c_user (send_request q c) = c_user c"
  "c_page (connect_socket c) = c_page c" "c_token (connect_socket c) = c_token c"
  "c_user (connect_socket c) = c_user c"
  "c_page (show_auth_message n ty c) = c_page c" "c_token (show_auth_message n ty c) = c_token c"
  "c_user (show_auth_message n ty c) = c_user c"
  "c_page (add_system_message sn c) = c_page c" "c_token (add_system_message sn c) = c_token c"
  "c_user (add_system_message sn c) = c_user c"
  "c_page (display_message fmt m c) = c_page c" "c_token (display_message fmt m c) = c_token c"
  "c_user (display_message fmt m c) = c_user c"
  "c_page (update_users_list us c) = c_page c" "c_token (update_users_list us c) = c_token c"
  "c_user (update_users_list us c) = c_user c"
  "c_page (show_typing_indicator j nm b c) = c_page c" "c_token (show_typing_indicator j nm b c) = c_token c"
  "c_user (show_typing_indicator j nm b c) = c_user c"
  "c_page (toggle_theme c) = c_page c" "c_token (toggle_theme c) = c_token c"
  "c_user (toggle_theme c) = c_user c"
  by (simp_all add: set_field_def emit_def send_request_def connect_socket_def show_auth_message_def
    add_system_message_def display_message_def Let_def update_users_list_def show_typing_indicator_def
    show_notification_def toggle_theme_def)

lemma session_handlers [simp]:
  "c_page (handle_typing now c) = c_page c" "c_token (handle_typing now c) = c_token c"
  "c_user (handle_typing now c) = c_user c"
  "c_page (stop_typing c) = c_page c" "c_token (stop_typing c) = c_token c" "c_user (stop_typing c) = c_user c"
  "c_page (typing_timer now c) = c_page c" "c_token (typing_timer now c) = c_token c"
  "c_user (typing_timer now c) = c_user c"
  "c_page (on_input now i v c) = c_page c" "c_token (on_input now i v c) = c_token c"
  "c_user (on_input now i v c) = c_user c"
  "c_page (send_message c) = c_page c" "c_token (send_message c) = c_token c" "c_user (send_message c) = c_user c"
  "c_page (login c) = c_page c" "c_token (login c) = c_token c" "c_user (login c) = c_user c"
  "c_page (register c) = c_page c" "c_token (register c) = c_token c" "c_user (register c) = c_user c"
  by (simp_all add: handle_typing_def stop_typing_def typing_timer_def on_input_def send_message_def
    login_def register_def Let_def split: option.splits)

lemma session_server_event [simp]:
  "c_page (on_server_event fmt ev c) = c_page c" "c_token (on_server_event fmt ev c) = c_token c"
  "c_user (on_server_event fmt ev c) = c_user c"
  by (simp_all add: on_server_event_def split: out_event.splits)

lemma session_fold_display:
  "c_page (fold (display_message fmt) ms c) = c_page c \<and> c_token (fold (display_message fmt) ms c) = c_token c \<and>
   c_user (fold (display_message fmt) ms c) = c_user c"
  by (induction ms arbitrary: c) simp_all

lemma client_inv_frame:
  "c_page c' = c_page c \<Longrightarrow> c_token c' = c_token c \<Longrightarrow> c_user c' = c_user c \<Longrightarrow>
   client_inv c \<Longrightarrow> client_inv c'"
  by (simp add: client_inv_def)

lemma client_step_session:
  assumes inv: "client_inv c"
  shows "client_inv (client_step fmt now ev c)"
proof -
  have frame: "client_inv c'" if "c_page c' = c_page c" "c_token c' = c_token c" "c_user c' = c_user c" for c'
    using inv that by (simp add: client_inv_def)
  have lo: "client_inv (logout c)"
    by (simp add: client_inv_def logout_def show_auth_interface_def)
  have tg: "client_inv (case toggle_auth_mode c of Some c' \<Rightarrow> c' | None \<Rightarrow> c)"
    using inv by (simp add: client_inv_def toggle_auth_mode_def)
  have ok: "client_inv (login_ok tok u c)" for tok u
    by (simp add: client_inv_def login_ok_session)
  show ?thesis
  proof (cases ev)
    case (DomClick i)
    then show ?thesis
      using lo tg by (simp add: frame)
  next
    case (LoginResponse r)
    have "client_inv (login_response r c)"
    proof (cases r)
      case None
      then show ?thesis by (simp add: login_response_def frame)
    next
      case (Some x)
      show ?thesis
      proof (cases x)
        case (Inl e)
        then show ?thesis using Some by (simp add: login_response_def show_auth_message_def frame)
      next
        case (Inr p)
        then show ?thesis using Some ok by (cases p) (simp add: login_response_ok)
      qed
    qed
    then show ?thesis
      using LoginResponse by simp
  next
    case (RegisterResponse r)
    then show ?thesis
      using inv by (simp add: register_response_def Let_def toggle_auth_mode_def client_inv_def
        split: option.splits sum.splits)
  next
    case (MessagesResponse ms)
    then show ?thesis
      using session_fold_display [of fmt ms "c\<lparr>c_msgs := []\<rparr>"] by (simp add: messages_loaded_def frame)
  qed (simp_all add: frame on_connect_def on_socket_disconnect_def on_connect_error_def connect_retry_def
    load_theme_def notification_permission_def)
qed

lemma client_run_inv: "client_inv c \<Longrightarrow> client_inv (client_run fmt evs c)"
  by (induction evs arbitrary: c) (auto simp: client_step_session)

subsection \<open>Properties of the client\<close>

text \<open>C27: one keystroke in the message box emits \<open>typing-start\<close> twice, because two
  \<open>input\<close> listeners (lines 30-35 and 79-83) both call \<open>handleTyping\<close>; the typing
  timer is re-armed for two seconds after the keystroke.\<close>

theorem typing_start_twice:
  assumes "0 < c_sockets c"
  shows "c_emits (on_input now (js ''message-input'') v c) =
           c_emits c @ [EmitTypingStart (c_room c), EmitTypingStart (c_room c)] \<and>
         c_timer (on_input now (js ''message-input'') v c) = Some (now + 2000)"
  using assms by (simp add: on_input_msg)

theorem typing_start_twice_witness:
  "c_emits (on_input 100 (js ''message-input'') (js ''hi'') demo_client) =
     [EmitTypingStart (js ''general''), EmitTypingStart (js ''general'')]"
  using typing_start_twice [of demo_client 100 "js ''hi''"] by (simp add: demo_client_simps)

text \<open>After the last keystroke at time \<open>t\<close>, the typing timer emits exactly one
  \<open>typing-stop\<close> when it fires, at \<open>t + 2000\<close> or later, and nothing before.\<close>

theorem typing_stop_after_idle:
  assumes "0 < c_sockets c" and "c' = on_input t (js ''message-input'') v c"
  shows "c_emits (typing_timer t' c') =
           c_emits c' @ (if t + 2000 \<le> t' then [EmitTypingStop (c_room c)] else []) \<and>
         c_timer (typing_timer t' c') = (if t + 2000 \<le> t' then None else Some (t + 2000))"
  using assms by (simp add: typing_timer_def on_input_msg)

theorem typing_stop_after_idle_witness:
  "c_emits (typing_timer 2100 (on_input 100 (js ''message-input'') (js ''hi'') demo_client)) =
     [EmitTypingStart (js ''general''), EmitTypingStart (js ''general''), EmitTypingStop (js ''general'')]"
  using typing_stop_after_idle [of demo_client _ 100 "js ''hi''" 2100]
  by (simp add: demo_client_simps on_input_msg)

text \<open>Sending a message that is not blank emits \<open>send-message\<close> with the
  current room, the trimmed text and type \<open>'text'\<close>, then \<open>typing-stop\<close>, empties the
  message box and cancels the typing timer.\<close>

theorem send_message_sends:
  assumes "0 < c_sockets c" and "js_trim (field c (js ''message-input'')) \<noteq> []"
  shows "c_emits (send_message c) =
           c_emits c @ [EmitSend \<lparr>sd_room = c_room c, sd_content = js_trim (field c (js ''message-input'')),
                                  sd_type = Some (js ''text'')\<rparr>, EmitTypingStop (c_room c)] \<and>
         field (send_message c) (js ''message-input'') = [] \<and> c_timer (send_message c) = None"
  using assms by (simp add: send_message_def Let_def)

theorem send_message_sends_witness:
  "c_emits (send_message (set_field (js ''message-input'') (js '' hi '') demo_client)) =
     [EmitSend \<lparr>sd_room = js ''general'', sd_content = js ''hi'', sd_type = Some (js ''text'')\<rparr>,
      EmitTypingStop (js ''general'')]"
  using send_message_sends [of "set_field (js ''message-input'') (js '' hi '') demo_client"]
  by (simp add: demo_client_simps js_def js_trim_def js_space_def)

text \<open>A blank message box (empty or white space only) sends nothing and changes
  nothing.\<close>

theorem send_blank_ignored:
  assumes "js_trim (field c (js ''message-input'')) = []"
  shows "send_message c = c"
  using assms by (simp add: send_message_def)

theorem send_blank_ignored_witness:
  "send_message (set_field (js ''message-input'') (js ''   '') demo_client) =
     set_field (js ''message-input'') (js ''   '') demo_client"
  by (rule send_blank_ignored) (simp add: js_def js_trim_def js_space_def)

text \<open>The draft outlives the message: typing saves the box's text as
  \<open>message_draft\<close> and sending does not clear it, so the chat page opened next (after a
  reload) shows the message already sent.\<close>

theorem draft_survives_send:
  assumes "0 < c_sockets c" and "js_trim v \<noteq> []"
    and "c' = send_message (on_input now (js ''message-input'') v c)"
  shows "jm_get (c_store c') (js ''message_draft'') = Some v \<and>
         field (show_chat c') (js ''message-input'') = v"
proof -
  have "v \<noteq> []" using assms(2) by (auto simp: js_trim_def)
  moreover have "js_trim (field (on_input now (js ''message-input'') v c) (js ''message-input'')) \<noteq> []"
    using assms(2) by (simp add: on_input_msg)
  ultimately show ?thesis
    using assms(1,3) by (simp add: send_message_def Let_def on_input_msg show_chat_def js_truthy_def
      jm_get_set set_field_def emit_def stop_typing_def load_messages_def send_request_def field_def)
qed

theorem draft_survives_send_witness:
  "field (show_chat (send_message (on_input 100 (js ''message-input'') (js ''hi'') demo_client)))
     (js ''message-input'') = js ''hi''"
  using draft_survives_send [of demo_client "js ''hi''" _ 100] by (simp add: demo_client_simps js_def js_trim_def js_space_def)

text \<open>\<open>escapeHtml\<close> leaves no \<open><\<close> in its result, and reading the markup back gives
  the original text.\<close>

theorem escape_html_roundtrip: "tag_opens (escape_html s) = 0 \<and> unescape_html (escape_html s) = s"
proof -
  have "unescape_html (escape_html s) = s"
    by (induction s) (simp_all add: escape_html_def unescape_esc_char)
  then show ?thesis
    by (simp add: tag_opens_escape)
qed

text \<open>C32: the markup of a message has the template's eight tags, none from the
  content, and every \<open><\<close> of the sender's display name: \<open>senderName\<close> is interpolated
  without \<open>escapeHtml\<close> (line 398), so a display name chosen at registration is markup
  in every other client.\<close>

theorem message_html_markup:
  "tag_opens (message_html fmt m) = 8 + tag_opens (sender_name m) + tag_opens (fmt (timestamp m))"
  by (simp add: message_html_def message_markup_def tag_opens_escape) (simp add: tag_opens_def js_def)

text \<open>C33: a client reopened from a stored token never has a \<open>currentUser\<close>, so it
  shows its own messages as someone else's, plays the sound for them, and, once
  notifications are granted and the page is hidden, pops a browser notification for
  the user's own message.\<close>

theorem restored_session_not_own:
  assumes "js_truthy (jm_get store (js ''chat_token''))"
  shows "c_msgs (display_message fmt m (client_init store)) =
           [SysEl SysConnecting, MsgEl (message_el fmt False m)] \<and>
         c_alerts (display_message fmt m (client_init store)) = [(sender_name m, notification_preview (content m))] \<and>
         c_notes (display_message fmt m (client_step fmt t (Visibility True)
           (client_step fmt t (NotifPermission True) (client_init store)))) =
           [(sender_name m, notification_preview (content m))]"
  using assms by (simp add: display_message_def client_init_def connect_socket_def show_chat_def
    load_messages_def send_request_def set_field_def Let_def show_notification_def notification_permission_def)

theorem restored_session_not_own_witness:
  "c_notes (display_message (\<lambda>_. []) (new_message demo_user 5 5 \<lparr>sd_room = js ''general'', sd_content = js ''hi'',
      sd_type = None\<rparr>) (client_step (\<lambda>_. []) 9 (Visibility True) (client_step (\<lambda>_. []) 9 (NotifPermission True)
        demo_client))) = [(display_name demo_user, js ''hi'')]"
  using restored_session_not_own [of "[(js ''chat_token'', js ''tokA'')]" "\<lambda>_. []"]
  by (simp add: demo_client_def js_truthy_def js_def new_message_def notification_preview_def)

text \<open>Neither success message of the auth page is ever seen. After a successful
  registration \<open>showAuthMessage\<close> writes the success text and \<open>toggleAuthMode\<close>, called
  next in the same turn (line 270), clears it: the page flips mode and keeps an empty
  message with the success class. After a successful login the message is written
  after \<open>showChatInterface\<close> has replaced the auth page, so there is no element to take
  it.\<close>

theorem auth_success_notes_lost:
  assumes "c_page c = AuthPage"
  shows "register_response (Some (Inr ())) c =
           c\<lparr>c_login_mode := \<not> c_login_mode c, c_auth_note := None, c_auth_type := Some (js ''success'')\<rparr> \<and>
         login_response (Some (Inr (tok, u))) c = login_ok tok u c"
  using assms by (simp add: register_response_def show_auth_message_def toggle_auth_mode_def Let_def
    login_response_ok)

theorem auth_success_notes_lost_witness:
  "c_auth_note (register_response (Some (Inr ())) (the (toggle_auth_mode (client_init [])))) = None \<and>
   c_login_mode (register_response (Some (Inr ())) (the (toggle_auth_mode (client_init [])))) \<and>
   c_auth_note (login_response (Some (Inr (js ''tokA'', demo_user))) (client_init [])) = None"
proof -
  have pg: "c_page (the (toggle_auth_mode (client_init []))) = AuthPage" "c_page (client_init []) = AuthPage"
    by (simp_all add: client_init_def show_auth_interface_def toggle_auth_mode_def js_truthy_def)
  show ?thesis
    using auth_success_notes_lost [OF pg(1)] auth_success_notes_lost [OF pg(2), of "js ''tokA''" demo_user]
    by (simp add: client_init_def show_auth_interface_def toggle_auth_mode_def js_truthy_def login_ok_def
      connect_socket_def show_chat_def load_messages_def send_request_def set_field_def Let_def)
qed

text \<open>C24: in every run of the page from \<open>init\<close>, whatever the stored data and the
  events, the chat page is shown only while a token is held, and the auth page only
  with neither token nor current user: \<open>logout\<close> clears both before it shows the auth
  page, and only a successful login opens the chat page.\<close>

theorem client_session_consistent: "client_inv (client_run fmt evs (client_init store))"
proof -
  have "client_inv (client_init store)"
    by (simp add: client_inv_def client_init_def Let_def show_auth_interface_def connect_socket_def
      show_chat_def load_messages_def send_request_def set_field_def js_truthy_def split: option.splits)
  then show ?thesis by (rule client_run_inv)
qed

theorem client_session_consistent_witness:
  "client_inv (client_run (\<lambda>_. []) [(5, LoginResponse (Some (Inr (js ''t'', demo_user)))),
     (6, DomClick (js ''logout-btn'')), (7, DomClick (js ''toggle-link''))] (client_init []))"
  by (rule client_session_consistent)

text \<open>C17: \<open>logout\<close> removes the token but not \<open>message_draft\<close>, so the next account
  to log in on the same browser finds the previous user's unsent draft in its message
  box.\<close>

theorem draft_leaks_across_logout:
  assumes "jm_get (c_store c) (js ''message_draft'') = Some d" and "d \<noteq> []"
  shows "field (login_response (Some (Inr (tok, u))) (logout c)) (js ''message-input'') = d \<and>
         c_user (login_response (Some (Inr (tok, u))) (logout c)) = Some u"
  using assms by (simp add: login_response_def logout_def login_ok_def show_auth_message_def
    show_auth_interface_def connect_socket_def show_chat_def load_messages_def send_request_def
    set_field_def field_def js_truthy_def jm_get_set jm_get_delete_other)

theorem draft_leaks_across_logout_witness:
  "field (login_response (Some (Inr (js ''tokB'', demo_user)))
     (logout (on_input 100 (js ''message-input'') (js ''hi'') demo_client))) (js ''message-input'') = js ''hi''"
proof -
  have "jm_get (c_store (on_input 100 (js ''message-input'') (js ''hi'') demo_client)) (js ''message_draft'') =
      Some (js ''hi'')"
    by (simp add: on_input_msg jm_get_set)
  from draft_leaks_across_logout [OF this] show ?thesis
    by (simp add: js_def)
qed

text \<open>The \<open>connect_error\<close> retry (lines 321-331) over any sequence of its events: each
  \<open>connect_error\<close> (one per refused handshake, and one per failed attempt of Socket.IO's
  own reconnection after a network error) adds a system message, each timer that finds
  the socket not connected opens another \<open>io()\<close> connection with the token, and
  nothing else changes the session.\<close>

lemma retry_run:
  assumes "\<forall>(t, ev) \<in> set evs. ev = ConnectError \<or> ev = ConnectRetry False"
  shows "c_token (client_run fmt evs c) = c_token c \<and> c_user (client_run fmt evs c) = c_user c \<and>
         c_page (client_run fmt evs c) = c_page c \<and>
         c_sockets (client_run fmt evs c) =
           (if js_truthy (c_token c) then c_sockets c + length (filter (\<lambda>(t, ev). ev = ConnectRetry False) evs)
            else c_sockets c) \<and>
         c_msgs (client_run fmt evs c) =
           (if c_page c = ChatPage
            then c_msgs c @ replicate (length (filter (\<lambda>(t, ev). ev = ConnectError) evs)) (SysEl SysConnectError)
            else c_msgs c)"
  using assms
proof (induction evs arbitrary: c)
  case (Cons q evs)
  obtain t ev where q: "q = (t, ev)" by (cases q) auto
  from Cons.prems q have ev: "ev = ConnectError \<or> ev = ConnectRetry False" by auto
  have rest: "\<forall>(t, ev) \<in> set evs. ev = ConnectError \<or> ev = ConnectRetry False" using Cons.prems by auto
  from ev show ?case
  proof
    assume e: "ev = ConnectError"
    show ?thesis
      using Cons.IH [OF rest, of "on_connect_error c"] q e
      by (simp add: on_connect_error_def add_system_message_def)
  next
    assume e: "ev = ConnectRetry False"
    show ?thesis
      using Cons.IH [OF rest, of "connect_retry False c"] q e
      by (simp add: connect_retry_def connect_socket_def)
  qed
qed simp

text \<open>C34: a chat page whose connection attempts fail keeps retrying with the same
  token: whatever sequence of \<open>connect_error\<close> events and retry timers arrives, the
  token and the chat page stay, every error adds its system message, and every
  timer that finds the socket not connected opens one more \<open>io()\<close> connection; no
  path of the handler clears the token or shows the login page.\<close>

theorem connect_error_retries:
  assumes "c_token c = Some tok" and "tok \<noteq> []" and "c_page c = ChatPage"
    and "\<forall>(t, ev) \<in> set evs. ev = ConnectError \<or> ev = ConnectRetry False"
  shows "c_token (client_run fmt evs c) = Some tok \<and> c_page (client_run fmt evs c) = ChatPage \<and>
         c_sockets (client_run fmt evs c) = c_sockets c + length (filter (\<lambda>(t, ev). ev = ConnectRetry False) evs) \<and>
         c_msgs (client_run fmt evs c) =
           c_msgs c @ replicate (length (filter (\<lambda>(t, ev). ev = ConnectError) evs)) (SysEl SysConnectError)"
  using retry_run [OF assms(4), of fmt c] assms(1-3) by (simp add: js_truthy_def)

theorem connect_error_retries_witness:
  "c_token (client_run (\<lambda>_. []) [(0, ConnectError), (3000, ConnectRetry False), (3100, ConnectError),
      (6100, ConnectRetry False)] demo_client) = Some (js ''tokA'') \<and>
   c_page (client_run (\<lambda>_. []) [(0, ConnectError), (3000, ConnectRetry False), (3100, ConnectError),
      (6100, ConnectRetry False)] demo_client) = ChatPage \<and>
   c_sockets (client_run (\<lambda>_. []) [(0, ConnectError), (3000, ConnectRetry False), (3100, ConnectError),
      (6100, ConnectRetry False)] demo_client) = 3 \<and>
   c_msgs (client_run (\<lambda>_. []) [(0, ConnectError), (3000, ConnectRetry False), (3100, ConnectError),
      (6100, ConnectRetry False)] demo_client) = [SysEl SysConnecting, SysEl SysConnectError, SysEl SysConnectError]"
  using connect_error_retries [of demo_client "js ''tokA''"
      "[(0, ConnectError), (3000, ConnectRetry False), (3100, ConnectError), (6100, ConnectRetry False)]" "\<lambda>_. []"]
  by (simp add: demo_client_simps js_def)

end
