(* ===== verification/Password.thy ===== *)
theory Password
  imports Prelude
begin

text \<open>
  Password hashing: \<open>bcrypt.hash(password, 10)\<close> (\<^verbatim>\<open>src/server.js\<close> line 141) and
  \<open>bcrypt.compare(password, user.password)\<close> (line 178) of \<open>bcryptjs\<close>. The digest,
  2^10 rounds of EksBlowfish over the salt and the key, is an opaque function \<open>H\<close>, as
  \<open>Hash\<close> is a free constructor in the protocol models of \<open>HOL/Auth\<close>; what decides
  which passwords a stored hash accepts is explicit. The password is encoded as UTF-8
  (surrogate pairs decoded, a lone surrogate encoded as its own code point) with a NUL
  byte appended, as \<open>stringToBytes(s + "\x00")\<close> does for the \<open>$2a$\<close> version, and
  the key schedule reads these bytes cyclically, 72 of them. The hash is the 29
  characters \<open>$2a$10$\<close> and the 22-character salt, then the 31-character digest;
  \<open>compare\<close> refuses a hash that is not 60 characters long, and otherwise hashes the
  password again under the hash's first 29 characters and compares the strings.
\<close>

subsection \<open>UTF-8 key bytes\<close>

text \<open>UTF-16 code units to code points: a high surrogate followed by a low one is one
  code point; any other unit stands for itself.\<close>

fun utf16_decode :: "jstr \<Rightarrow> nat list" where
  "utf16_decode [] = []"
| "utf16_decode (c # cs) =
     (if 0xD800 \<le> unat c \<and> unat c \<le> 0xDBFF
      then (case cs of
              d # ds \<Rightarrow>
                if 0xDC00 \<le> unat d \<and> unat d \<le> 0xDFFF
                then (0x10000 + (unat c - 0xD800) * 1024 + (unat d - 0xDC00)) # utf16_decode ds
                else unat c # utf16_decode cs
            | [] \<Rightarrow> [unat c])
      else unat c # utf16_decode cs)"

text \<open>The UTF-8 bytes of one code point.\<close>

definition utf8_cp :: "nat \<Rightarrow> 8 word list" where
  "utf8_cp c =
     (if c < 0x80 then [of_nat c]
      else if c < 0x800 then [of_nat (0xC0 + c div 64), of_nat (0x80 + c mod 64)]
      else if c < 0x10000 then
        [of_nat (0xE0 + c div 4096), of_nat (0x80 + c div 64 mod 64), of_nat (0x80 + c mod 64)]
      else [of_nat (0xF0 + c div 262144), of_nat (0x80 + c div 4096 mod 64),
            of_nat (0x80 + c div 64 mod 64), of_nat (0x80 + c mod 64)])"

definition utf8 :: "jstr \<Rightarrow> 8 word list" where
  "utf8 s = concat (map utf8_cp (utf16_decode s))"

text \<open>The 72 key bytes the key schedule reads: the password's bytes and the NUL,
  repeated.\<close>

definition bcrypt_key :: "jstr \<Rightarrow> 8 word list" where
  "bcrypt_key pw = take 72 (concat (replicate 72 (utf8 (pw @ [0]))))"

subsection \<open>Hash and compare\<close>

text \<open>The first 29 characters of a hash: version, cost and salt.\<close>

definition bcrypt_prefix :: "jstr \<Rightarrow> jstr" where
  "bcrypt_prefix salt = js ''$2a$10$'' @ salt"

definition bcrypt_hash_with :: "(jstr \<Rightarrow> 8 word list \<Rightarrow> jstr) \<Rightarrow> jstr \<Rightarrow> jstr \<Rightarrow> jstr" where
  "bcrypt_hash_with H pre pw = pre @ H pre (bcrypt_key pw)"

text \<open>\<open>bcrypt.hash(password, 10)\<close> with the fresh salt \<open>salt\<close> of the call.\<close>

definition bcrypt_hash :: "(jstr \<Rightarrow> 8 word list \<Rightarrow> jstr) \<Rightarrow> jstr \<Rightarrow> jstr \<Rightarrow> jstr" where
  "bcrypt_hash H salt pw = bcrypt_hash_with H (bcrypt_prefix salt) pw"

definition bcrypt_compare :: "(jstr \<Rightarrow> 8 word list \<Rightarrow> jstr) \<Rightarrow> jstr \<Rightarrow> jstr \<Rightarrow> bool" where
  "bcrypt_compare H pw h \<longleftrightarrow> length h = 60 \<and> bcrypt_hash_with H (take 29 h) pw = h"

subsection \<open>Lemmas\<close>

lemma utf16_decode_snoc_nul: "utf16_decode (s @ [0]) = utf16_decode s @ [0]"
proof (induction s rule: utf16_decode.induct)
  case 1
  then show ?case by simp
next
  case (2 c cs)
  show ?case
  proof (cases cs)
    case Nil
    then show ?thesis by simp
  next
    case (Cons d ds)
    then show ?thesis using 2 by simp
  qed
qed

lemma utf8_snoc_nul: "utf8 (s @ [0]) = utf8 s @ [0]"
  by (simp add: utf8_def utf16_decode_snoc_nul utf8_cp_def)

lemma take_concat_replicate:
  "n \<le> length xs \<Longrightarrow> 0 < k \<Longrightarrow> take n (concat (replicate k xs)) = take n xs"
  by (cases k) simp_all

text \<open>A password of at least 72 UTF-8 bytes is keyed by its first 72 bytes alone.\<close>

lemma bcrypt_key_long: "72 \<le> length (utf8 pw) \<Longrightarrow> bcrypt_key pw = take 72 (utf8 pw)"
  by (simp add: bcrypt_key_def utf8_snoc_nul take_concat_replicate)

text \<open>ASCII code units are one byte each; code units of \<open>U+0080\<close> to \<open>U+07FF\<close>, the
  Arabic block among them, two.\<close>

lemma utf8_Cons_bmp: "unat c < 0xD800 \<Longrightarrow> utf8 (c # cs) = utf8_cp (unat c) @ utf8 cs"
  by (simp add: utf8_def)

lemma length_utf8_ascii: "\<forall>c \<in> set s. unat c < 0x80 \<Longrightarrow> length (utf8 s) = length s"
  by (induction s) (simp_all add: utf8_Cons_bmp utf8_cp_def, simp add: utf8_def)

lemma length_utf8_two:
  "\<forall>c \<in> set s. 0x80 \<le> unat c \<and> unat c < 0x800 \<Longrightarrow> length (utf8 s) = 2 * length s"
  by (induction s) (simp_all add: utf8_Cons_bmp utf8_cp_def, simp add: utf8_def)

lemma utf8_ascii: "\<forall>c \<in> set s. unat c < 0x80 \<Longrightarrow> utf8 s = map (\<lambda>c. of_nat (unat c)) s"
  by (induction s) (simp_all add: utf8_Cons_bmp utf8_cp_def, simp add: utf8_def)

lemma utf8_Nil [simp]: "utf8 [] = []"
  by (simp add: utf8_def)

text \<open>Two passwords whose first 72 UTF-8 bytes agree have the same key.\<close>

lemma bcrypt_key_twin:
  assumes p: "72 \<le> length (utf8 p)" and twin: "take 72 (utf8 q) = take 72 (utf8 p)"
  shows "bcrypt_key q = bcrypt_key p"
proof -
  have "min (length (utf8 q)) 72 = 72"
    using arg_cong [OF twin, of length] p by simp
  then have q: "72 \<le> length (utf8 q)"
    by (simp add: min_def split: if_splits)
  show ?thesis
    by (simp only: bcrypt_key_long [OF p] bcrypt_key_long [OF q] twin)
qed

lemma bcrypt_hash_layout:
  assumes "length salt = 22" and "\<forall>pre k. length (H pre k) = 31"
  shows "length (bcrypt_hash H salt pw) = 60 \<and> take 29 (bcrypt_hash H salt pw) = bcrypt_prefix salt"
  using assms by (simp add: bcrypt_hash_def bcrypt_hash_with_def bcrypt_prefix_def)

text \<open>A hash accepts every password with the key of the one it was made from.\<close>

lemma bcrypt_compare_same_key:
  assumes "length salt = 22" and "\<forall>pre k. length (H pre k) = 31" and "bcrypt_key q = bcrypt_key pw"
  shows "bcrypt_compare H q (bcrypt_hash H salt pw)"
  using bcrypt_hash_layout [OF assms(1,2), of pw] assms(3)
  by (simp add: bcrypt_compare_def) (simp add: bcrypt_hash_def bcrypt_hash_with_def)

subsection \<open>Properties of the password hash\<close>

text \<open>\<open>bcrypt.compare\<close> accepts the password a hash was made from, and accepts
  another password exactly when the digest of its key under the hash's salt is the same:
  the stored string carries its own salt and cost, which \<open>compare\<close> reads back from
  its first 29 characters.\<close>

theorem bcrypt_compare_hash:
  assumes "length salt = 22" and "\<forall>pre k. length (H pre k) = 31"
  shows "bcrypt_compare H pw (bcrypt_hash H salt pw) \<and>
         (bcrypt_compare H q (bcrypt_hash H salt pw) \<longleftrightarrow>
            H (bcrypt_prefix salt) (bcrypt_key q) = H (bcrypt_prefix salt) (bcrypt_key pw))"
  using bcrypt_hash_layout [OF assms, of pw]
  by (simp add: bcrypt_compare_def) (simp add: bcrypt_hash_def bcrypt_hash_with_def)

theorem bcrypt_compare_hash_witness:
  "bcrypt_compare (\<lambda>pre k. replicate 31 (of_nat (length k))) (js ''secret1'')
     (bcrypt_hash (\<lambda>pre k. replicate 31 (of_nat (length k))) (replicate 22 65) (js ''secret1''))"
  using bcrypt_compare_hash [of "replicate 22 65" "\<lambda>pre k. replicate 31 (of_nat (length k))" "js ''secret1''"]
  by simp

end
