(* ===== verification/ChatTools.thy ===== *)
theory ChatTools
  imports Client Password "HOL-Library.Sublist"
begin

text \<open>
  The tools of the chat page that act on what it already shows, from
  \<^verbatim>\<open>src/app.js\<close>: \<open>searchMessages\<close> (lines 588-618) with \<open>highlightText\<close>
  (lines 620-627), run by the \<open>input\<close> listener of lines 64-68 on \<open>search-input\<close>,
  and the emoji picker, \<open>toggleEmojiPicker\<close>, \<open>setupEmojiList\<close> and \<open>insertEmoji\<close>
  (lines 533-562). Neither page template (\<open>showAuthInterface\<close>,
  \<open>showChatInterface\<close>) contains \<open>search-input\<close> or \<open>emoji-picker\<close>, so in this
  repository they run only on a page that adds those elements: the definitions take the
  elements' presence as part of their input, and \<open>client_step\<close> does not dispatch to
  them.

  The library functions they call: \<open>toLowerCase\<close> maps the ASCII capitals (letters
  outside Basic Latin are kept; Arabic, the page's script, has no case); \<open>includes\<close>
  is contiguous \<open>sublist\<close> (\<open>js_includes_sublist\<close>); the \<open>textContent\<close> of markup is what is left when every
  tag is removed and the four references \<open>escapeHtml\<close> writes are decoded, which is
  what the HTML parser gives for markup without comments, \<open>script\<close> or \<open>style\<close>
  elements and quoted \<open>>\<close> in attributes. The regular-expression engine is a
  parameter \<open>rx\<close>: \<open>rx p\<close> is \<open>s => s.replace(new RegExp('(' + p + ')', 'gi'),
  '<mark ...>$1</mark>')\<close>, or \<open>None\<close> when the constructor throws a
  \<open>SyntaxError\<close>. For a pattern without syntax characters that function is
  \<open>mark_ci\<close>; the properties assume \<open>rx\<close> agrees with it on the term searched.
  C12: a search that finds its term in a sender's name writes that message's text back
  as markup.
\<close>

subsection \<open>Text of the page\<close>

text \<open>A \<open><\<close> opens a tag (or a comment or processing instruction, which end at the
  next \<open>>\<close> too) when a letter, \<open>/\<close>, \<open>!\<close> or \<open>?\<close> follows it; otherwise it is
  text.\<close>

definition tag_start :: "jstr \<Rightarrow> bool" where
  "tag_start cs =
     (case cs of [] \<Rightarrow> False
      | d # _ \<Rightarrow> (65 \<le> d \<and> d \<le> 90) \<or> (97 \<le> d \<and> d \<le> 122) \<or> d = 47 \<or> d = 33 \<or> d = 63)"

function strip_tags :: "jstr \<Rightarrow> jstr" where
  "strip_tags [] = []"
| "strip_tags (ch # cs) =
     (if ch = 60 \<and> tag_start cs then strip_tags (drop 1 (dropWhile (\<lambda>d. d \<noteq> 62) cs))
      else ch # strip_tags cs)"
  by pat_completeness auto
termination
  by (relation "measure length") (simp_all add: le_imp_less_Suc [OF le_trans [OF diff_le_self length_dropWhile_le]])

text \<open>\<open>textContent\<close> of an element whose children were parsed from markup \<open>h\<close>.\<close>

definition html_text :: "jstr \<Rightarrow> jstr" where
  "html_text h = unescape_html (strip_tags h)"

primrec body_text :: "msg_body \<Rightarrow> jstr" where
  "body_text (BodyText s) = s"
| "body_text (BodyMarkup h) = html_text h"

primrec body_html :: "msg_body \<Rightarrow> jstr" where
  "body_html (BodyText s) = escape_html s"
| "body_html (BodyMarkup h) = h"

text \<open>The markup of a message element as it stands.\<close>

definition el_html :: "msg_el \<Rightarrow> jstr" where
  "el_html v = message_markup (me_sender v) (me_time v) (body_html (me_body v))"

subsection \<open>Search and highlight\<close>

definition mark_open :: jstr where
  "mark_open = js ''<mark style=\"background: #00ff00; color: #000;\">''"

definition mark_close :: jstr where
  "mark_close = js ''</mark>''"

text \<open>The replacement of line 625 for a pattern \<open>t\<close> without syntax characters: from
  left to right, each occurrence of \<open>t\<close> up to ASCII case (flag \<open>i\<close>), not
  overlapping the previous one (flag \<open>g\<close>), is wrapped in \<open>mark\<close> with its own text
  (\<open>$1\<close>).\<close>

function mark_ci :: "jstr \<Rightarrow> jstr \<Rightarrow> jstr" where
  "mark_ci t [] = []"
| "mark_ci t (ch # cs) =
     (if t \<noteq> [] \<and> js_lower (take (length t) (ch # cs)) = js_lower t
      then mark_open @ take (length t) (ch # cs) @ mark_close @ mark_ci t (drop (length t) (ch # cs))
      else ch # mark_ci t cs)"
  by pat_completeness auto
termination
  by (relation "measure (\<lambda>(t, s). length s)") auto

text \<open>The syntax characters of a pattern: \<open>\ ^ $ . * + ? ( ) [ ] { } |\<close>.\<close>

definition regex_special :: "16 word \<Rightarrow> bool" where
  "regex_special ch \<longleftrightarrow> ch \<in> {92, 94, 36, 46, 42, 43, 63, 40, 41, 91, 93, 123, 125, 124}"

definition regex_literal :: "jstr \<Rightarrow> bool" where
  "regex_literal p \<longleftrightarrow> list_all (\<lambda>ch. \<not> regex_special ch) p"

type_synonym regex_engine = "jstr \<Rightarrow> (jstr \<Rightarrow> jstr) option"

text \<open>An engine that replaces literal patterns as \<open>RegExp\<close> does and refuses every
  other pattern, for the examples.\<close>

definition literal_engine :: regex_engine where
  "literal_engine p = (if regex_literal p then Some (mark_ci p) else None)"

text \<open>\<open>highlightText\<close> (lines 620-627): nothing for an empty term; otherwise the
  element's text, replaced, becomes its markup. \<open>None\<close>: \<open>new RegExp\<close> threw.\<close>

definition highlight_text :: "regex_engine \<Rightarrow> jstr \<Rightarrow> msg_body \<Rightarrow> msg_body option" where
  "highlight_text rx t b =
     (if t = [] then Some b
      else case rx t of None \<Rightarrow> None | Some f \<Rightarrow> Some (BodyMarkup (f (body_text b))))"

text \<open>Line 600: \<open>query.toLowerCase().trim()\<close>.\<close>

definition search_term :: "jstr \<Rightarrow> jstr" where
  "search_term q = js_trim (js_lower q)"

text \<open>Lines 604-608: the content's and the sender's text, lower-cased, searched.\<close>

definition msg_matches :: "jstr \<Rightarrow> msg_el \<Rightarrow> bool" where
  "msg_matches t v \<longleftrightarrow>
     js_includes (js_lower (body_text (me_body v))) t \<or> js_includes (js_lower (html_text (me_sender v))) t"

text \<open>One iteration of the \<open>forEach\<close> of lines 603-617 on a message element; the
  flag is set when \<open>highlightText\<close> threw, after the element was shown.\<close>

definition search_one :: "regex_engine \<Rightarrow> jstr \<Rightarrow> msg_el \<Rightarrow> msg_el \<times> bool" where
  "search_one rx t v =
     (if msg_matches t v
      then (case highlight_text rx t (me_body v) of
              None \<Rightarrow> (v\<lparr>me_shown := True\<rparr>, True)
            | Some b \<Rightarrow> (v\<lparr>me_shown := True, me_body := b\<rparr>, False))
      else (v\<lparr>me_shown := False\<rparr>, False))"

text \<open>\<open>querySelectorAll('.message')\<close> selects the messages, not the system messages.\<close>

fun search_el :: "regex_engine \<Rightarrow> jstr \<Rightarrow> chat_el \<Rightarrow> chat_el \<times> bool" where
  "search_el rx t (MsgEl v) = (case search_one rx t v of (v', e) \<Rightarrow> (MsgEl v', e))"
| "search_el rx t (SysEl n) = (SysEl n, False)"

text \<open>The \<open>forEach\<close>: an exception leaves it, and the elements after, as they were.\<close>

fun search_els :: "regex_engine \<Rightarrow> jstr \<Rightarrow> chat_el list \<Rightarrow> chat_el list \<times> bool" where
  "search_els rx t [] = ([], False)"
| "search_els rx t (el # es) =
     (case search_el rx t el of
        (el', True) \<Rightarrow> (el' # es, True)
      | (el', False) \<Rightarrow> (case search_els rx t es of (es', e) \<Rightarrow> (el' # es', e)))"

text \<open>Lines 591-597: a blank query shows every message again.\<close>

fun show_el :: "chat_el \<Rightarrow> chat_el" where
  "show_el (MsgEl v) = MsgEl (v\<lparr>me_shown := True\<rparr>)"
| "show_el (SysEl n) = SysEl n"

text \<open>\<open>searchMessages\<close> (lines 588-618); the flag: an uncaught exception ended it.\<close>

definition search_messages :: "regex_engine \<Rightarrow> jstr \<Rightarrow> client \<Rightarrow> client \<times> bool" where
  "search_messages rx q c =
     (if js_trim q = [] then (c\<lparr>c_msgs := map show_el (c_msgs c)\<rparr>, False)
      else (case search_els rx (search_term q) (c_msgs c) of (es, e) \<Rightarrow> (c\<lparr>c_msgs := es\<rparr>, e)))"

text \<open>An \<open>input\<close> event on \<open>search-input\<close> (lines 64-68).\<close>

definition search_input :: "regex_engine \<Rightarrow> jstr \<Rightarrow> client \<Rightarrow> client \<times> bool" where
  "search_input rx v c = search_messages rx v (set_field (js ''search-input'') v c)"

subsection \<open>The emoji picker\<close>

text \<open>A code point as UTF-16 code units, as a string literal of the source denotes it:
  one unit below \<open>U+10000\<close>, a surrogate pair above.\<close>

definition utf16_units :: "nat \<Rightarrow> jstr" where
  "utf16_units c =
     (if c < 0x10000 then [of_nat c]
      else [of_nat (0xD800 + (c - 0x10000) div 1024), of_nat (0xDC00 + (c - 0x10000) mod 1024)])"

definition utf16_encode :: "nat list \<Rightarrow> jstr" where
  "utf16_encode cps = concat (map utf16_units cps)"

definition scalar_value :: "nat \<Rightarrow> bool" where
  "scalar_value c \<longleftrightarrow> c < 0x110000 \<and> (c < 0xD800 \<or> 0xDFFF < c)"

text \<open>The 101 entries of the array of line 545, as code points: the entry
  \<open>U+1F62E U+200D U+1F4A8\<close> is one string of five code units, \<open>U+2620 U+FE0F\<close> one
  of two.\<close>

definition emoji_cps :: "nat list list" where
  "emoji_cps = [
     [0x1F600], [0x1F603], [0x1F604], [0x1F601], [0x1F606], [0x1F605], [0x1F602], [0x1F923],
      [0x1F60A], [0x1F607], [0x1F642], [0x1F643], [0x1F609], [0x1F60C], [0x1F60D], [0x1F970],
      [0x1F618], [0x1F617], [0x1F619], [0x1F61A], [0x1F60B], [0x1F61B], [0x1F61D], [0x1F61C],
      [0x1F92A], [0x1F928], [0x1F9D0], [0x1F913], [0x1F60E], [0x1F929], [0x1F973], [0x1F60F],
      [0x1F612], [0x1F61E], [0x1F614], [0x1F61F], [0x1F615], [0x1F641], [0x1F623], [0x1F616],
      [0x1F62B], [0x1F629], [0x1F97A], [0x1F622], [0x1F62D], [0x1F624], [0x1F620], [0x1F621],
      [0x1F92C], [0x1F92F], [0x1F633], [0x1F975], [0x1F976], [0x1F636], [0x1F610], [0x1F611],
      [0x1F62C], [0x1F644], [0x1F62F], [0x1F626], [0x1F627], [0x1F62E], [0x1F632], [0x1F971],
      [0x1F634], [0x1F924], [0x1F62A], [0x1F62E, 0x200D, 0x1F4A8], [0x1F635], [0x1F910], [0x1F974],
      [0x1F922], [0x1F92E], [0x1F927], [0x1F637], [0x1F912], [0x1F915], [0x1F911], [0x1F920],
      [0x1F608], [0x1F47F], [0x1F479], [0x1F47A], [0x1F921], [0x1F4A9], [0x1F47B], [0x1F480],
      [0x2620, 0xFE0F], [0x1F47D], [0x1F47E], [0x1F916], [0x1F383], [0x1F63A], [0x1F638],
      [0x1F639], [0x1F63B], [0x1F63C], [0x1F63D], [0x1F640], [0x1F63F], [0x1F63E]]"

definition emojis :: "jstr list" where
  "emojis = map utf16_encode emoji_cps"

text \<open>The picker \<open>#emoji-picker\<close>: whether it has the class \<open>hidden\<close>, and the
  emojis of the spans of \<open>.emoji-list\<close> (\<open>None\<close>: there is no such element).\<close>

record emoji_picker =
  ep_hidden :: bool
  ep_list :: "jstr list option"

text \<open>\<open>setupEmojiList\<close> (lines 541-553): a list that has children is left alone.\<close>

definition setup_emoji_list :: "emoji_picker \<Rightarrow> emoji_picker" where
  "setup_emoji_list p = (case ep_list p of Some [] \<Rightarrow> p\<lparr>ep_list := Some emojis\<rparr> | _ \<Rightarrow> p)"

text \<open>\<open>toggleEmojiPicker\<close> (lines 533-539), on the page's picker if it has one.\<close>

definition toggle_emoji_picker :: "emoji_picker option \<Rightarrow> emoji_picker option" where
  "toggle_emoji_picker pk = map_option (\<lambda>p. setup_emoji_list (p\<lparr>ep_hidden := \<not> ep_hidden p\<rparr>)) pk"

text \<open>\<open>insertEmoji\<close> (lines 555-562): only the chat page has \<open>message-input\<close>. The
  value is set by the script, which fires no \<open>input\<close> event.\<close>

definition insert_emoji :: "jstr \<Rightarrow> client \<times> emoji_picker option \<Rightarrow> client \<times> emoji_picker option" where
  "insert_emoji e cp =
     (case cp of (c, pk) \<Rightarrow>
        if c_page c = ChatPage
        then (set_field (js ''message-input'') (field c (js ''message-input'') @ e) c, toggle_emoji_picker pk)
        else (c, pk))"

text \<open>A click on the \<open>i\<close>-th span of a shown picker (line 550).\<close>

definition click_emoji :: "nat \<Rightarrow> client \<times> emoji_picker option \<Rightarrow> client \<times> emoji_picker option" where
  "click_emoji i cp =
     (case snd cp of
        Some p \<Rightarrow> (case ep_list p of
                     Some es \<Rightarrow> if \<not> ep_hidden p \<and> i < length es then insert_emoji (es ! i) cp else cp
                   | None \<Rightarrow> cp)
      | None \<Rightarrow> cp)"

text \<open>A message from another user whose text is markup, for the examples.\<close>

definition demo_markup_message :: message where
  "demo_markup_message =
     \<lparr>msg_id = js ''5'', msg_room = js ''general'', sender_id = js ''2'', sender_name = js ''Eve'',
      content = js ''<img src=x onerror=alert(1)>'', msg_type = js ''text'', timestamp = 5\<rparr>"

subsection \<open>Lemmas\<close>

lemma take_eq_prefix: "take (length t) xs = t \<longleftrightarrow> prefix t xs"
  by (metis append_eq_conv_conj prefix_def take_is_prefix)

text \<open>\<open>includes\<close> is contiguous \<open>sublist\<close>.\<close>

lemma js_includes_sublist: "js_includes s t \<longleftrightarrow> sublist t s"
  by (induction s) (simp_all add: sublist_Cons_right take_eq_prefix)

lemma js_trim_subset: "set (js_trim s) \<subseteq> set s"
  by (auto simp: js_trim_def dest!: set_dropWhileD)

lemma search_term_lower: "js_lower (search_term q) = search_term q"
proof -
  have "\<forall>x \<in> set (search_term q). ascii_lower x = x"
    using js_trim_subset [of "js_lower q"] by (auto simp: search_term_def js_lower_def)
  then show ?thesis by (simp add: js_lower_def map_idI)
qed

lemma search_term_Nil: "search_term q = [] \<longleftrightarrow> js_trim q = []"
  by (simp add: search_term_def js_trim_Nil_iff js_lower_def)

lemma strip_tags_plain: "60 \<notin> set s \<Longrightarrow> strip_tags s = s"
  by (induction s) auto

lemma unescape_html_plain: "38 \<notin> set s \<Longrightarrow> unescape_html s = s"
  by (induction s) auto

lemma html_text_plain: "60 \<notin> set s \<Longrightarrow> 38 \<notin> set s \<Longrightarrow> html_text s = s"
  by (simp add: html_text_def strip_tags_plain unescape_html_plain)

lemma strip_tags_append_plain: "60 \<notin> set x \<Longrightarrow> strip_tags (x @ y) = x @ strip_tags y"
  by (induction x) auto

lemma strip_tags_mark_open [simp]: "strip_tags (mark_open @ y) = strip_tags y"
  by (simp add: mark_open_def js_def tag_start_def)

lemma strip_tags_mark_close [simp]: "strip_tags (mark_close @ y) = strip_tags y"
  by (simp add: mark_close_def js_def tag_start_def)

text \<open>The tags of the highlight hide nothing of a content without \<open><\<close>.\<close>

lemma strip_tags_mark_ci: "60 \<notin> set s \<Longrightarrow> strip_tags (mark_ci t s) = s"
proof (induction t s rule: mark_ci.induct)
  case (1 t)
  then show ?case by simp
next
  case (2 t ch cs)
  have take: "60 \<notin> set (take (length t) (ch # cs))" and drop: "60 \<notin> set (drop (length t) (ch # cs))"
    using "2.prems" by (meson in_set_takeD in_set_dropD)+
  show ?case
    using 2 strip_tags_append_plain [OF take] drop by auto
qed

text \<open>Highlighting keeps the text of a content without \<open><\<close> or \<open>&\<close>.\<close>

lemma highlight_keeps_text: "60 \<notin> set s \<Longrightarrow> 38 \<notin> set s \<Longrightarrow> html_text (mark_ci t s) = s"
  by (simp add: html_text_def strip_tags_mark_ci unescape_html_plain)

text \<open>A term that does not occur leaves the text as it is.\<close>

lemma mark_ci_unmatched: "\<not> sublist (js_lower t) (js_lower s) \<Longrightarrow> mark_ci t s = s"
proof (induction t s rule: mark_ci.induct)
  case (1 t)
  then show ?case by simp
next
  case (2 t ch cs)
  have "\<not> (js_lower (take (length t) (ch # cs)) = js_lower t)"
  proof
    assume "js_lower (take (length t) (ch # cs)) = js_lower t"
    then have "prefix (js_lower t) (js_lower (ch # cs))"
      by (metis js_lower_def take_is_prefix take_map)
    then show False using "2.prems" by (meson prefix_imp_sublist)
  qed
  moreover have "\<not> sublist (js_lower t) (js_lower cs)"
    using "2.prems" by (auto simp: js_lower_def sublist_Cons_right)
  ultimately show ?case using 2 by simp
qed

lemma el_html_message_el: "el_html (message_el fmt own m) = message_html fmt m"
  by (simp add: el_html_def message_el_def message_html_def)

lemma display_message_msgs:
  "c_msgs (display_message fmt m c) =
     (if c_page c = ChatPage
      then c_msgs c @ [MsgEl (message_el fmt (case c_user c of Some u \<Rightarrow> sender_id m = uid u | None \<Rightarrow> False) m)]
      else c_msgs c)"
  by (simp add: display_message_def show_notification_def Let_def)

lemma search_el_engine: "rx t = Some f \<Longrightarrow> snd (search_el rx t e) = False"
  by (cases e) (auto simp: search_one_def highlight_text_def split: option.splits)

text \<open>An engine that accepts the term never stops the walk.\<close>

lemma search_els_engine:
  "rx t = Some f \<Longrightarrow> search_els rx t es = (map (\<lambda>e. fst (search_el rx t e)) es, False)"
proof (induction es)
  case Nil
  then show ?case by simp
next
  case (Cons e es)
  then show ?case
    using search_el_engine [of rx t f e, OF Cons.prems] by (cases "search_el rx t e") simp
qed

text \<open>C8: a search term that \<open>new RegExp\<close> refuses stops the search part-way. For
  a term such as \<open>:)\<close>, whose pattern \<open>(:))\<close> has an unmatched parenthesis, the
  constructor throws inside \<open>messages.forEach\<close> at the first message that matches:
  the messages before it have been filtered, that message is shown but not highlighted,
  and every message after it keeps the visibility and markup the previous search left.\<close>

theorem search_els_abort:
  assumes none: "rx t = None" and t: "t \<noteq> []" and hit: "msg_matches t v"
    and before: "\<forall>w. MsgEl w \<in> set es \<longrightarrow> \<not> msg_matches t w"
  shows "search_els rx t (es @ MsgEl v # es') =
           (map (\<lambda>e. fst (search_el rx t e)) es @ MsgEl (v\<lparr>me_shown := True\<rparr>) # es', True)"
  using before
proof (induction es)
  case Nil
  then show ?case using none t hit by (simp add: search_one_def highlight_text_def)
next
  case (Cons e es)
  have "snd (search_el rx t e) = False"
    using Cons.prems by (cases e) (auto simp: search_one_def)
  then show ?case using Cons by (cases "search_el rx t e") simp
qed

theorem search_els_abort_witness:
  "search_els literal_engine (js '':)'')
     ([MsgEl (message_el (\<lambda>_. []) False demo_markup_message)] @
      MsgEl (message_el (\<lambda>_. []) False (demo_markup_message\<lparr>content := js ''ok :)''\<rparr>)) #
      [MsgEl (message_el (\<lambda>_. []) False (demo_markup_message\<lparr>content := js ''later :)''\<rparr>))]) =
   (map (\<lambda>e. fst (search_el literal_engine (js '':)'') e)) [MsgEl (message_el (\<lambda>_. []) False demo_markup_message)] @
      MsgEl ((message_el (\<lambda>_. []) False (demo_markup_message\<lparr>content := js ''ok :)''\<rparr>))\<lparr>me_shown := True\<rparr>) #
      [MsgEl (message_el (\<lambda>_. []) False (demo_markup_message\<lparr>content := js ''later :)''\<rparr>))], True)"
  by (rule search_els_abort)
    (simp_all add: literal_engine_def regex_literal_def regex_special_def msg_matches_def message_el_def
      demo_markup_message_def js_lower_def ascii_lower_def html_text_def tag_start_def js_def)

lemma utf16_decode_units:
  assumes "scalar_value c"
  shows "utf16_decode (utf16_units c @ rest) = c # utf16_decode rest"
proof (cases "c < 0x10000")
  case True
  then have "unat (of_nat c :: 16 word) = c" by (simp add: unat_of_nat)
  then show ?thesis using True assms by (auto simp: utf16_units_def scalar_value_def)
next
  case False
  define q where "q = (c - 0x10000) div 1024"
  define r where "r = (c - 0x10000) mod 1024"
  have q: "q < 1024" using assms by (auto simp: q_def scalar_value_def div_less_iff_less_mult)
  have r: "r < 1024" by (simp add: r_def)
  have hi: "unat (of_nat (0xD800 + q) :: 16 word) = 0xD800 + q" by (subst unat_of_nat) (use q in simp)
  have lo: "unat (of_nat (0xDC00 + r) :: 16 word) = 0xDC00 + r" by (subst unat_of_nat) (use r in simp)
  have c: "0x10000 + q * 1024 + r = c" using False by (simp add: q_def r_def)
  show ?thesis using False hi lo q r c by (simp add: utf16_units_def q_def [symmetric] r_def [symmetric])
qed

text \<open>UTF-16 decoding inverts the encoding of scalar values.\<close>

lemma utf16_roundtrip: "list_all scalar_value cps \<Longrightarrow> utf16_decode (utf16_encode cps) = cps"
  by (induction cps) (simp_all add: utf16_encode_def utf16_decode_units)

lemma emojis_length: "length emojis = 101"
  by (simp add: emojis_def emoji_cps_def)

lemma emoji_cps_scalar: "\<forall>cps \<in> set emoji_cps. list_all scalar_value cps"
  by (simp add: emoji_cps_def scalar_value_def)

text \<open>Every emoji of the picker is well-formed UTF-16 that decodes to its code points.\<close>

lemma emojis_decode: "i < 101 \<Longrightarrow> utf16_decode (emojis ! i) = emoji_cps ! i"
  using emoji_cps_scalar utf16_roundtrip emojis_length
  by (simp add: emojis_def)

lemma setup_emoji_list_idem [simp]: "setup_emoji_list (setup_emoji_list p) = setup_emoji_list p"
  by (simp add: setup_emoji_list_def emojis_def emoji_cps_def split: option.splits list.splits)

lemma setup_emoji_list_hidden [simp]:
  "ep_hidden (setup_emoji_list p) = ep_hidden p"
  "setup_emoji_list (p\<lparr>ep_hidden := b\<rparr>) = (setup_emoji_list p)\<lparr>ep_hidden := b\<rparr>"
  by (simp_all add: setup_emoji_list_def split: option.splits list.splits)

text \<open>Two toggles give the picker back its visibility, its list built once.\<close>

lemma toggle_emoji_twice: "toggle_emoji_picker (toggle_emoji_picker pk) = map_option setup_emoji_list pk"
  by (cases pk) (simp_all add: toggle_emoji_picker_def)

text \<open>Opening the picker and clicking an emoji appends it to the message box and hides
  the picker again, but neither saves the draft nor tells the room the user is typing:
  the value set by the script fires no \<open>input\<close> event.\<close>

lemma open_click_emoji:
  assumes "c_page c = ChatPage" and "ep_hidden p" and "ep_list p = Some []" and "i < 101"
  shows "click_emoji i (c, toggle_emoji_picker (Some p)) =
           (set_field (js ''message-input'') (field c (js ''message-input'') @ emojis ! i) c,
            Some (p\<lparr>ep_hidden := True, ep_list := Some emojis\<rparr>)) \<and>
         c_store (fst (click_emoji i (c, toggle_emoji_picker (Some p)))) = c_store c \<and>
         c_emits (fst (click_emoji i (c, toggle_emoji_picker (Some p)))) = c_emits c"
proof -
  have "emojis \<noteq> []" using emojis_length by auto
  then show ?thesis
    using assms emojis_length
    by (simp add: click_emoji_def toggle_emoji_picker_def setup_emoji_list_def insert_emoji_def
        set_field_def split: list.splits)
qed

subsection \<open>Properties of the search\<close>

text \<open>C12: searching turns a message's text into markup. When the term is found in the
  sender's name and not in the content, \<open>highlightText\<close> assigns the content's text,
  unchanged, to \<open>innerHTML\<close>: every \<open><\<close> the author typed, which
  \<open>displayMessage\<close> showed as text, now opens a tag, so a message such as
  \<open><img src=x onerror=...>\<close> runs its handler in the reader's page.\<close>

theorem search_injects_markup:
  assumes chat: "c_page c = ChatPage"
    and eng: "rx (search_term q) = Some (mark_ci (search_term q))"
    and q: "js_trim q \<noteq> []"
    and body: "\<not> js_includes (js_lower (content m)) (search_term q)"
    and sender: "js_includes (js_lower (html_text (sender_name m))) (search_term q)"
  shows "\<exists>own. last (c_msgs (display_message fmt m c)) = MsgEl (message_el fmt own m) \<and>
           \<not> snd (search_input rx q (display_message fmt m c)) \<and>
           last (c_msgs (fst (search_input rx q (display_message fmt m c)))) =
             MsgEl ((message_el fmt own m)\<lparr>me_body := BodyMarkup (content m)\<rparr>) \<and>
           tag_opens (el_html ((message_el fmt own m)\<lparr>me_body := BodyMarkup (content m)\<rparr>)) =
             tag_opens (el_html (message_el fmt own m)) + tag_opens (content m)"
proof -
  define own where "own = (case c_user c of Some u \<Rightarrow> sender_id m = uid u | None \<Rightarrow> False)"
  define v where "v = message_el fmt own m"
  define t where "t = search_term q"
  have msgs: "c_msgs (display_message fmt m c) = c_msgs c @ [MsgEl v]"
    using chat by (simp add: display_message_msgs own_def v_def)
  have t0: "t \<noteq> []"
    using q by (simp add: t_def search_term_Nil)
  have unm: "mark_ci t (content m) = content m"
    using body search_term_lower [of q] by (intro mark_ci_unmatched) (simp add: t_def js_includes_sublist)
  have hit: "msg_matches t v"
    using sender by (simp add: msg_matches_def v_def message_el_def t_def)
  have one: "search_el rx t (MsgEl v) = (MsgEl (v\<lparr>me_body := BodyMarkup (content m)\<rparr>), False)"
    using hit t0 eng unm by (simp add: search_one_def highlight_text_def v_def message_el_def t_def)
  have run: "c_msgs (fst (search_input rx q (display_message fmt m c))) =
               map (\<lambda>e. fst (search_el rx t e)) (c_msgs c @ [MsgEl v]) \<and>
             \<not> snd (search_input rx q (display_message fmt m c))"
    using q msgs search_els_engine [of rx t "mark_ci t" "c_msgs c @ [MsgEl v]"] eng
    by (simp add: search_input_def search_messages_def set_field_def t_def)
  have tags: "tag_opens (el_html (v\<lparr>me_body := BodyMarkup (content m)\<rparr>)) =
                tag_opens (el_html v) + tag_opens (content m)"
    by (simp add: v_def el_html_def message_el_def message_markup_def tag_opens_escape)
  show ?thesis
    using msgs run one tags by (intro exI [of _ own]) (simp add: v_def)
qed

theorem search_injects_markup_witness:
  "\<exists>own. last (c_msgs (display_message (\<lambda>_. []) demo_markup_message demo_client)) =
           MsgEl (message_el (\<lambda>_. []) own demo_markup_message) \<and>
         \<not> snd (search_input literal_engine (js ''eve'') (display_message (\<lambda>_. []) demo_markup_message demo_client)) \<and>
         last (c_msgs (fst (search_input literal_engine (js ''eve'')
                 (display_message (\<lambda>_. []) demo_markup_message demo_client)))) =
           MsgEl ((message_el (\<lambda>_. []) own demo_markup_message)\<lparr>me_body := BodyMarkup (content demo_markup_message)\<rparr>) \<and>
         tag_opens (el_html ((message_el (\<lambda>_. []) own demo_markup_message)\<lparr>me_body := BodyMarkup (content demo_markup_message)\<rparr>)) =
           tag_opens (el_html (message_el (\<lambda>_. []) own demo_markup_message)) + tag_opens (content demo_markup_message)"
  by (rule search_injects_markup)
    (simp_all add: demo_client_simps demo_markup_message_def literal_engine_def regex_literal_def
      regex_special_def search_term_def js_lower_def ascii_lower_def js_trim_def js_space_def js_def
      html_text_def tag_start_def)

end
