(* ===== verification/Api.thy ===== *)
theory Api
  imports Server Accounts
begin

text \<open>
  The read side of the HTTP API and its rate limiter, from \<^verbatim>\<open>src/server.js\<close>:
  \<open>GET /api/rooms\<close> (lines 208-211), \<open>GET /api/messages/:roomId\<close> (lines 214-218,
  \<open>MessageLog.api_messages\<close>) and \<open>GET /api/stats\<close> (lines 221-231), each behind
  \<open>authenticateToken\<close>, read the session engine's state \<open>rt\<close> and the account store
  \<open>acct_state\<close>. The statistics' \<open>uptime\<close> and \<open>memoryUsage\<close> are readings of the
  process and are not modelled.

  Every \<open>/api/\<close> request first passes the limiter of lines 45-54: at most 100 requests
  per key in a window of 15 minutes, the key being \<open>req.ip\<close>. The limiter's store is
  modelled as \<open>express-rate-limit\<close>'s memory store keeps it: per key a hit count and a
  reset time set to the first hit of the window plus the window length; a request is
  refused (429) when its hit makes the count exceed the maximum. With \<open>trust proxy\<close>
  set to \<open>true\<close> (line 16), Express takes \<open>req.ip\<close> from the left-most address of the
  \<open>X-Forwarded-For\<close> header, which the client writes.
\<close>

record stats =
  st_users :: nat
  st_online :: nat
  st_rooms :: nat
  st_messages :: nat

datatype api_route = RoomsRoute | MessagesRoute jstr | StatsRoute

datatype api_payload = RoomsP "room list" | MessagesP "message list" | StatsP stats

text \<open>Lines 208-211: \<open>Array.from(rooms.values())\<close>.\<close>

definition api_rooms :: "rt \<Rightarrow> room list" where
  "api_rooms s = jm_values (rt_rooms s)"

text \<open>Line 226: the \<open>reduce\<close> over the logs.\<close>

definition total_messages :: "msg_log \<Rightarrow> nat" where
  "total_messages ms = foldl (\<lambda>total msgs. total + length msgs) 0 (jm_values ms)"

text \<open>Lines 221-231; \<open>Map.size\<close> is the number of entries.\<close>

definition api_stats :: "acct_state \<Rightarrow> rt \<Rightarrow> stats" where
  "api_stats a s =
     \<lparr>st_users = length (users a), st_online = length (rt_connected s),
      st_rooms = length (rt_rooms s), st_messages = total_messages (rt_messages s)\<rparr>"

text \<open>The three routes behind \<open>authenticateToken\<close> (lines 101-116).\<close>

definition api_get ::
  "(jstr \<Rightarrow> identity option) \<Rightarrow> jstr option \<Rightarrow> api_route \<Rightarrow> acct_state \<Rightarrow> rt \<Rightarrow> api_error + api_payload" where
  "api_get verify hdr route a s =
     (case authenticate_token verify hdr of
        Inl e \<Rightarrow> Inl e
      | Inr u \<Rightarrow> Inr (case route of
                       RoomsRoute \<Rightarrow> RoomsP (api_rooms s)
                     | MessagesRoute r \<Rightarrow> MessagesP (api_messages (rt_messages s) r)
                     | StatsRoute \<Rightarrow> StatsP (api_stats a s)))"

subsection \<open>The rate limiter\<close>

record rl_entry =
  rl_hits :: nat
  rl_reset :: nat

type_synonym rl_store = "(jstr, rl_entry) jsmap"

definition window_ms :: nat where
  "window_ms = 15 * 60 * 1000"

definition rl_max :: nat where
  "rl_max = 100"

text \<open>\<open>req.ip\<close> under \<open>trust proxy: true\<close>: the left-most \<open>X-Forwarded-For\<close> address,
  the socket's address when there is no such header.\<close>

definition req_ip :: "jstr list \<Rightarrow> jstr \<Rightarrow> jstr" where
  "req_ip xff remote = (case xff of [] \<Rightarrow> remote | a # _ \<Rightarrow> a)"

text \<open>One request of key \<open>k\<close> at time \<open>now\<close>: the new store and whether the request is
  let through.\<close>

definition limiter_hit :: "nat \<Rightarrow> jstr \<Rightarrow> rl_store \<Rightarrow> rl_store \<times> bool" where
  "limiter_hit now k st =
     (case jm_get st k of
        Some e \<Rightarrow>
          if now < rl_reset e
          then (jm_set k (e\<lparr>rl_hits := Suc (rl_hits e)\<rparr>) st, Suc (rl_hits e) \<le> rl_max)
          else (jm_set k \<lparr>rl_hits = 1, rl_reset = now + window_ms\<rparr> st, True)
      | None \<Rightarrow> (jm_set k \<lparr>rl_hits = 1, rl_reset = now + window_ms\<rparr> st, True))"

fun limiter_run :: "(nat \<times> jstr) list \<Rightarrow> rl_store \<Rightarrow> rl_store \<times> bool list" where
  "limiter_run [] st = (st, [])"
| "limiter_run ((now, k) # rs) st =
     (let (st1, ok) = limiter_hit now k st; (st2, oks) = limiter_run rs st1 in (st2, ok # oks))"

declare api_rooms_def [model_defs] total_messages_def [model_defs] api_stats_def [model_defs]
  api_get_def [model_defs] window_ms_def [model_defs] rl_max_def [model_defs] req_ip_def [model_defs]
  limiter_hit_def [model_defs]

subsection \<open>Lemmas\<close>

lemma foldl_add_length: "foldl (\<lambda>total msgs. total + length msgs) a xss = a + sum_list (map length xss)"
  by (induction xss arbitrary: a) auto

lemma total_messages_sum: "total_messages ms = sum_list (map length (jm_values ms))"
  by (simp add: total_messages_def foldl_add_length)

lemma sum_list_map_le: "(\<forall>x\<in>set xs. f x \<le> c) \<Longrightarrow> sum_list (map f xs) \<le> c * length xs"
  by (induction xs) auto

lemma limiter_hit_live:
  "jm_get st k = Some e \<Longrightarrow> now < rl_reset e \<Longrightarrow>
   limiter_hit now k st = (jm_set k (e\<lparr>rl_hits := Suc (rl_hits e)\<rparr>) st, Suc (rl_hits e) \<le> rl_max)"
  by (simp add: limiter_hit_def)

lemma limiter_hit_fresh:
  "(\<forall>e. jm_get st k = Some e \<longrightarrow> rl_reset e \<le> now) \<Longrightarrow>
   limiter_hit now k st = (jm_set k \<lparr>rl_hits = 1, rl_reset = now + window_ms\<rparr> st, True)"
  by (auto simp: limiter_hit_def split: option.splits)

lemma limiter_run_live:
  assumes "\<forall>t\<in>set ts. t < rl_reset e" and "jm_get st k = Some e"
  shows "length (filter (\<lambda>b. b) (snd (limiter_run (map (\<lambda>t. (t, k)) ts) st))) = min (length ts) (rl_max - rl_hits e)"
  using assms
proof (induction ts arbitrary: st e)
  case (Cons t ts)
  let ?e = "e\<lparr>rl_hits := Suc (rl_hits e)\<rparr>"
  have "length (filter (\<lambda>b. b) (snd (limiter_run (map (\<lambda>t. (t, k)) ts) (jm_set k ?e st)))) =
        min (length ts) (rl_max - rl_hits ?e)"
    using Cons.prems by (intro Cons.IH) (auto simp: jm_get_set)
  then show ?case
    using Cons.prems
    by (cases "Suc (rl_hits e) \<le> rl_max") (simp_all add: limiter_hit_live case_prod_beta)
qed simp

lemma limiter_run_fresh_keys:
  assumes "distinct xs" and "\<forall>x\<in>set xs. jm_get st x = None"
  shows "snd (limiter_run (map (\<lambda>x. (now, x)) xs) st) = replicate (length xs) True"
  using assms
proof (induction xs arbitrary: st)
  case (Cons x xs)
  have "snd (limiter_run (map (\<lambda>x. (now, x)) xs) (jm_set x \<lparr>rl_hits = 1, rl_reset = now + window_ms\<rparr> st)) =
        replicate (length xs) True"
    using Cons.prems by (intro Cons.IH) (auto simp: jm_get_set)
  then show ?case
    using Cons.prems by (simp add: limiter_hit_def case_prod_beta)
qed simp

subsection \<open>Properties of the API\<close>

text \<open>After a retention sweep the \<open>totalMessages\<close> of \<open>/api/stats\<close> is the sum
  of the logs' lengths and at most 100 per log; the number of logs is not bounded by
  the rooms, since a log is created for any room id a message names.\<close>

theorem stats_after_sweep:
  assumes "reachable verify t s" and "rt_step verify now SweepTick s = Inr s'"
  shows "st_messages (api_stats a s') = sum_list (map length (jm_values (rt_messages s'))) \<and>
         st_messages (api_stats a s') \<le> 100 * length (rt_messages s') \<and>
         length (rt_messages s') = length (rt_messages s)"
proof -
  have wf: "jm_wf (rt_messages s)"
    using reachable_rt_inv [OF assms(1)] by (rule rt_inv_messages_wf)
  have s': "rt_messages s' = AList.map_ran (\<lambda>_ xs. keep_recent (int now - 2 * 60 * 60 * 1000) xs) (rt_messages s)"
    using assms(2) by (auto simp: on_sweep_def sweep_eq_map_ran [OF wf])
  have vals: "jm_values (rt_messages s') = map (keep_recent (int now - 2 * 60 * 60 * 1000)) (jm_values (rt_messages s))"
    by (simp add: s' AList.map_ran_def case_prod_beta)
  have "sum_list (map length (jm_values (rt_messages s'))) \<le> 100 * length (jm_values (rt_messages s'))"
    by (rule sum_list_map_le) (auto simp: vals keep_recent_length)
  then show ?thesis
    by (simp add: api_stats_def total_messages_sum s' AList.map_ran_def)
qed

theorem stats_after_sweep_witness:
  "st_messages (api_stats acct_init (on_sweep 5 (rt_init 0))) \<le> 100 * length (rt_messages (on_sweep 5 (rt_init 0)))"
  using stats_after_sweep [OF reachable.init [of demo_verify 0], of 5 "on_sweep 5 (rt_init 0)" acct_init]
  by simp

text \<open>C25: the limiter lets through exactly the first 100 requests of one key within
  15 minutes of the first of them, whatever their number.\<close>

theorem limiter_bound:
  assumes "\<forall>t\<in>set ts. t0 \<le> t \<and> t < t0 + window_ms"
    and "\<forall>e. jm_get st k = Some e \<longrightarrow> rl_reset e \<le> t0"
  shows "length (filter (\<lambda>b. b) (snd (limiter_run (map (\<lambda>t. (t, k)) ts) st))) = min (length ts) rl_max"
proof (cases ts)
  case (Cons t1 ts')
  have fresh: "limiter_hit t1 k st = (jm_set k \<lparr>rl_hits = 1, rl_reset = t1 + window_ms\<rparr> st, True)"
    using assms Cons by (intro limiter_hit_fresh) force
  let ?e = "\<lparr>rl_hits = 1, rl_reset = t1 + window_ms\<rparr>"
  have live: "\<forall>t\<in>set ts'. t < rl_reset ?e"
    using assms(1) Cons by auto
  have "jm_get (jm_set k ?e st) k = Some ?e"
    by (simp add: jm_get_set)
  from limiter_run_live [OF live this] show ?thesis
    using Cons by (simp add: fresh rl_max_def case_prod_beta)
qed simp

theorem limiter_bound_witness:
  "length (filter (\<lambda>b. b) (snd (limiter_run (map (\<lambda>t. (t, js ''1.2.3.4'')) (replicate 101 0)) []))) = 100"
  using limiter_bound [of "replicate 101 0" 0 "[]" "js ''1.2.3.4''"] by (simp add: window_ms_def rl_max_def)

text \<open>C26: the limiter does not limit a client that writes its own
  \<open>X-Forwarded-For\<close>: with \<open>trust proxy\<close> on (line 16), requests with distinct first
  addresses in that header are all let through, however many there are, although the
  comment of line 51 says the proxy is not trusted.\<close>

theorem limiter_bypass:
  assumes "distinct xs" and "\<forall>x\<in>set xs. jm_get st x = None"
  shows "snd (limiter_run (map (\<lambda>x. (now, req_ip [x] remote)) xs) st) = replicate (length xs) True"
  using limiter_run_fresh_keys [OF assms, of now] by (simp add: req_ip_def comp_def)

theorem limiter_bypass_witness:
  "snd (limiter_run (map (\<lambda>x. (0, req_ip [x] (js ''10.0.0.1''))) (map js_nat_str [0..<150])) []) =
     replicate 150 True"
  using limiter_bypass [of "map js_nat_str [0..<150]" "[]" 0 "js ''10.0.0.1''"]
  by (simp add: distinct_map inj_on_def js_nat_str_inj)

end
