(* ===== verification/Http.thy ===== *)
theory Http
  imports Api
begin

text \<open>
  The Express application of \<^verbatim>\<open>src/server.js\<close> as one request handler: the middleware
  chain of lines 16-54 in the order it is registered, then the routes of lines 119-235.
  A request passes \<open>helmet\<close> and \<open>compression\<close>, which only add headers and encode
  the body; \<open>cors()\<close> answers a preflight \<open>OPTIONS\<close> with 204 and ends it;
  \<open>express.json({ limit: '10mb' })\<close> refuses a JSON body over 10 MiB (413) or one that
  does not parse as an object or array (400), and gives every other request a body
  (\<open>{}\<close> when it is not JSON); \<open>express.static('public')\<close> answers a \<open>GET\<close> or
  \<open>HEAD\<close> of a file it has; the limiter of \<open>Api\<close> counts every request whose path is
  under \<open>/api/\<close>; then the first route whose method and path match handles it, and a
  request no route takes gets 404. Express matches paths without regard to ASCII case
  and with an optional trailing slash, the mount path \<open>/api/\<close> on whole segments.

  A request carries its path as the list of its percent-decoded segments after the
  leading \<open>/\<close> (a malformed escape, which Express answers with 400, is left out), the
  \<open>X-Forwarded-For\<close> addresses, the socket's address, the body's size and its parse,
  and the \<open>Authorization\<close> header. The files of \<open>public\<close> are a parameter. The
  server's state is the session engine, the account store and the limiter's store; the
  two async routes answer later, through \<open>Accounts.acct_step\<close>, and are
  \<open>Accepted\<close> here with their request id.
\<close>

datatype http_method = GET | HEAD | POST | OPTIONS | OtherMethod jstr

text \<open>The body as \<open>express.json\<close> sees it: not JSON (another content type or none),
  JSON that does not parse to an object or array, or the string members of an object.\<close>

datatype json_body = NoJson | BadJson | JsonFields "(jstr, jstr) jsmap"

record http_req =
  hr_method :: http_method
  hr_path :: "jstr list"
  hr_xff :: "jstr list"
  hr_remote :: jstr
  hr_size :: nat
  hr_body :: json_body
  hr_auth :: "jstr option"

datatype http_resp =
    Preflight | BodyTooLarge | BodyInvalid | StaticFile | TooManyRequests
  | ApiResult "api_error + api_payload" | Accepted nat | LoginPage | NotFound

record server =
  sv_rt :: rt
  sv_acct :: acct_state
  sv_rl :: rl_store

subsection \<open>Middleware\<close>

text \<open>\<open>limit: '10mb'\<close>, which the \<open>bytes\<close> package reads as 10 MiB.\<close>

definition json_limit :: nat where
  "json_limit = 10 * 1024 * 1024"

text \<open>Line 41: the body a route sees, or the error that ends the request.\<close>

definition parse_body :: "http_req \<Rightarrow> http_resp + (jstr, jstr) jsmap" where
  "parse_body r =
     (case hr_body r of
        NoJson \<Rightarrow> Inr []
      | BadJson \<Rightarrow> if json_limit < hr_size r then Inl BodyTooLarge else Inl BodyInvalid
      | JsonFields f \<Rightarrow> if json_limit < hr_size r then Inl BodyTooLarge else Inr f)"

definition seg_eq :: "jstr \<Rightarrow> jstr \<Rightarrow> bool" where
  "seg_eq a b \<longleftrightarrow> js_lower a = js_lower b"

text \<open>A trailing slash is an empty last segment, which a route need not have.\<close>

definition norm_path :: "jstr list \<Rightarrow> jstr list" where
  "norm_path p = (if p \<noteq> [] \<and> last p = [] then butlast p else p)"

definition path_is :: "jstr list \<Rightarrow> jstr list \<Rightarrow> bool" where
  "path_is p pat \<longleftrightarrow> list_all2 seg_eq (norm_path p) pat"

text \<open>Line 54: \<open>app.use('/api/', limiter)\<close> takes \<open>/api\<close> and every path below it.\<close>

definition api_mount :: "jstr list \<Rightarrow> bool" where
  "api_mount p = (case p of s # _ \<Rightarrow> seg_eq s (js ''api'') | [] \<Rightarrow> False)"

definition is_get :: "http_method \<Rightarrow> bool" where
  "is_get m \<longleftrightarrow> m = GET \<or> m = HEAD"

text \<open>The key of line 53 for a request.\<close>

definition http_key :: "http_req \<Rightarrow> jstr" where
  "http_key r = req_ip (hr_xff r) (hr_remote r)"

subsection \<open>Routes\<close>

definition reg_body_of :: "(jstr, jstr) jsmap \<Rightarrow> reg_body" where
  "reg_body_of f =
     \<lparr>rb_email = jm_get f (js ''email''), rb_password = jm_get f (js ''password''),
      rb_name = jm_get f (js ''displayName'')\<rparr>"

definition login_body_of :: "(jstr, jstr) jsmap \<Rightarrow> login_body" where
  "login_body_of f = \<lparr>lb_email = jm_get f (js ''email''), lb_password = jm_get f (js ''password'')\<rparr>"

text \<open>\<open>/api/messages/:roomId\<close>: the parameter is one non-empty segment.\<close>

definition messages_param :: "jstr list \<Rightarrow> jstr option" where
  "messages_param p =
     (case norm_path p of
        [a, b, room] \<Rightarrow> if seg_eq a (js ''api'') \<and> seg_eq b (js ''messages'') \<and> room \<noteq> [] then Some room else None
      | _ \<Rightarrow> None)"

text \<open>The routes in the order lines 119-235 register them.\<close>

definition http_route ::
  "(jstr \<Rightarrow> identity option) \<Rightarrow> nat \<Rightarrow> http_req \<Rightarrow> (jstr, jstr) jsmap \<Rightarrow> server \<Rightarrow> server \<times> http_resp" where
  "http_route verify rid r f sv =
     (let p = hr_path r; m = hr_method r; api = (\<lambda>rt. ApiResult (api_get verify (hr_auth r) rt (sv_acct sv) (sv_rt sv)))
      in if m = POST \<and> path_is p [js ''api'', js ''register'']
         then (sv\<lparr>sv_acct := register_start rid (reg_body_of f) (sv_acct sv)\<rparr>, Accepted rid)
         else if m = POST \<and> path_is p [js ''api'', js ''login'']
         then (sv\<lparr>sv_acct := login_start rid (login_body_of f) (sv_acct sv)\<rparr>, Accepted rid)
         else if is_get m \<and> path_is p [js ''api'', js ''rooms''] then (sv, api RoomsRoute)
         else if is_get m \<and> messages_param p \<noteq> None then (sv, api (MessagesRoute (the (messages_param p))))
         else if is_get m \<and> path_is p [js ''api'', js ''stats''] then (sv, api StatsRoute)
         else if is_get m \<and> path_is p [js ''login''] then (sv, LoginPage)
         else (sv, NotFound))"

text \<open>One request, through the middleware and the routes; \<open>files\<close> are the paths
  \<open>express.static\<close> can answer.\<close>

definition http_handle ::
  "(jstr \<Rightarrow> identity option) \<Rightarrow> (jstr list \<Rightarrow> bool) \<Rightarrow> nat \<Rightarrow> nat \<Rightarrow> http_req \<Rightarrow> server \<Rightarrow> server \<times> http_resp" where
  "http_handle verify files now rid r sv =
     (if hr_method r = OPTIONS then (sv, Preflight)
      else case parse_body r of
        Inl e \<Rightarrow> (sv, e)
      | Inr f \<Rightarrow>
          if is_get (hr_method r) \<and> files (hr_path r) then (sv, StaticFile)
          else if api_mount (hr_path r)
          then (case limiter_hit now (http_key r) (sv_rl sv) of
                  (st, ok) \<Rightarrow> if ok then http_route verify rid r f (sv\<lparr>sv_rl := st\<rparr>)
                              else (sv\<lparr>sv_rl := st\<rparr>, TooManyRequests))
          else http_route verify rid r f sv)"

fun http_run ::
  "(jstr \<Rightarrow> identity option) \<Rightarrow> (jstr list \<Rightarrow> bool) \<Rightarrow> (nat \<times> nat \<times> http_req) list \<Rightarrow> server \<Rightarrow>
   server \<times> http_resp list" where
  "http_run verify files [] sv = (sv, [])"
| "http_run verify files ((now, rid, r) # rs) sv =
     (case http_handle verify files now rid r sv of
        (sv1, a) \<Rightarrow> (case http_run verify files rs sv1 of (sv2, as) \<Rightarrow> (sv2, a # as)))"

text \<open>The requests that reach the limiter: not a preflight, a body the parser takes, not
  a file of \<open>public\<close>, a path under \<open>/api/\<close>.\<close>

definition reaches_limiter :: "(jstr list \<Rightarrow> bool) \<Rightarrow> http_req \<Rightarrow> bool" where
  "reaches_limiter files r \<longleftrightarrow>
     hr_method r \<noteq> OPTIONS \<and> (\<exists>f. parse_body r = Inr f) \<and> \<not> (is_get (hr_method r) \<and> files (hr_path r)) \<and>
     api_mount (hr_path r)"

definition demo_probe :: http_req where
  "demo_probe = \<lparr>hr_method = GET, hr_path = [js ''api'', js ''rooms''], hr_xff = [js ''10.0.0.7''],
     hr_remote = js ''203.0.113.9'', hr_size = 0, hr_body = NoJson, hr_auth = None\<rparr>"

definition demo_victim_login :: http_req where
  "demo_victim_login = \<lparr>hr_method = POST, hr_path = [js ''api'', js ''login''], hr_xff = [],
     hr_remote = js ''10.0.0.7'', hr_size = 40,
     hr_body = JsonFields [(js ''email'', js ''v@x.io''), (js ''password'', js ''secret1'')], hr_auth = None\<rparr>"

subsection \<open>Lemmas\<close>

lemma http_route_rl [simp]: "sv_rl (fst (http_route verify rid r f sv)) = sv_rl sv"
  by (simp add: http_route_def Let_def)

text \<open>A preflight, a refused body and a file of \<open>public\<close> are answered before the
  limiter: the server's state is untouched.\<close>

lemma http_handle_before_limiter:
  assumes "hr_method r = OPTIONS \<or> (\<exists>e. parse_body r = Inl e) \<or> (is_get (hr_method r) \<and> files (hr_path r))"
  shows "fst (http_handle verify files now rid r sv) = sv"
  using assms by (auto simp: http_handle_def split: sum.splits)

text \<open>A request that reaches the limiter spends one hit of its key, and is refused
  when that hit is over the maximum.\<close>

lemma http_handle_limited:
  assumes "reaches_limiter files r"
  shows "sv_rl (fst (http_handle verify files now rid r sv)) = fst (limiter_hit now (http_key r) (sv_rl sv)) \<and>
         (\<not> snd (limiter_hit now (http_key r) (sv_rl sv)) \<longrightarrow> snd (http_handle verify files now rid r sv) = TooManyRequests)"
proof -
  obtain f where f: "parse_body r = Inr f"
    using assms by (auto simp: reaches_limiter_def)
  show ?thesis
    using assms f by (auto simp: reaches_limiter_def http_handle_def split: prod.splits)
qed

lemma http_run_rl:
  assumes "\<forall>(t, rid, r) \<in> set rs. reaches_limiter files r"
  shows "sv_rl (fst (http_run verify files rs sv)) = fst (limiter_run (map (\<lambda>(t, rid, r). (t, http_key r)) rs) (sv_rl sv))"
  using assms
proof (induction rs arbitrary: sv)
  case (Cons q rs)
  obtain t rid r where q: "q = (t, rid, r)" by (cases q) auto
  have "reaches_limiter files r" using Cons.prems q by auto
  from http_handle_limited [OF this, of verify t rid sv] Cons q show ?case
    by (simp add: case_prod_beta)
qed simp

text \<open>Hits of one key inside its window add up in its entry.\<close>

lemma limiter_run_live_entry:
  assumes "\<forall>t\<in>set ts. t < rl_reset e" and "jm_get st k = Some e"
  shows "jm_get (fst (limiter_run (map (\<lambda>t. (t, k)) ts) st)) k = Some (e\<lparr>rl_hits := rl_hits e + length ts\<rparr>)"
  using assms
proof (induction ts arbitrary: st e)
  case (Cons t ts)
  let ?e = "e\<lparr>rl_hits := Suc (rl_hits e)\<rparr>"
  have "jm_get (fst (limiter_run (map (\<lambda>t. (t, k)) ts) (jm_set k ?e st))) k = Some (?e\<lparr>rl_hits := rl_hits ?e + length ts\<rparr>)"
    using Cons.prems by (intro Cons.IH) (auto simp: jm_get_set)
  then show ?case
    using Cons.prems by (simp add: limiter_hit_live case_prod_beta)
qed simp

lemma limiter_run_fresh_entry:
  assumes "jm_get st k = None" and "\<forall>t\<in>set ts. t < t0 + window_ms"
  shows "jm_get (fst (limiter_run (map (\<lambda>t. (t, k)) (t0 # ts)) st)) k =
           Some \<lparr>rl_hits = Suc (length ts), rl_reset = t0 + window_ms\<rparr>"
proof -
  have "jm_get (jm_set k \<lparr>rl_hits = 1, rl_reset = t0 + window_ms\<rparr> st) k = Some \<lparr>rl_hits = 1, rl_reset = t0 + window_ms\<rparr>"
    by (simp add: jm_get_set)
  from limiter_run_live_entry [OF _ this, of ts] assms show ?thesis
    by (simp add: limiter_hit_def case_prod_beta)
qed

text \<open>C9: requests answered before the limiter are not counted. CORS preflights,
  bodies that \<open>express.json\<close> refuses (over 10 MiB or not parsable) and files of
  \<open>public\<close>, in any number and on any path, leave the server's state, the limiter's
  store included, as it was: the limiter (line 54) sits behind the body parser (line 41),
  so a client may send any number of 10 MiB bodies, each read and parsed.\<close>

theorem http_run_before_limiter:
  assumes "\<forall>(t, rid, r) \<in> set rs.
             hr_method r = OPTIONS \<or> (\<exists>e. parse_body r = Inl e) \<or> (is_get (hr_method r) \<and> files (hr_path r))"
  shows "fst (http_run verify files rs sv) = sv"
  using assms
proof (induction rs)
  case (Cons q rs)
  obtain t rid r where q: "q = (t, rid, r)" by (cases q) auto
  then show ?case
    using Cons http_handle_before_limiter [of r files verify t rid sv] by (auto simp: case_prod_beta)
qed simp

theorem http_run_before_limiter_witness:
  "fst (http_run (\<lambda>_. None) (\<lambda>_. False)
     [(0, 0, demo_victim_login\<lparr>hr_method := OPTIONS\<rparr>), (1, 1, demo_victim_login\<lparr>hr_size := 20000000\<rparr>),
      (2, 2, demo_victim_login\<lparr>hr_body := BadJson\<rparr>)]
     \<lparr>sv_rt = rt_init 0, sv_acct = acct_init, sv_rl = []\<rparr>) = \<lparr>sv_rt = rt_init 0, sv_acct = acct_init, sv_rl = []\<rparr>"
  by (rule http_run_before_limiter) (simp add: parse_body_def demo_victim_login_def json_limit_def)




subsection \<open>Properties of the request pipeline\<close>

text \<open>C28: with \<open>trust proxy\<close> on, a client can spend another client's budget. One
  hundred requests under \<open>/api/\<close> that name address \<open>v\<close> first in
  \<open>X-Forwarded-For\<close>, whatever they ask for (an unknown path, a missing token), leave
  the limiter's entry for \<open>v\<close> full, so for the rest of the fifteen minutes every
  request under \<open>/api/\<close> of the client that connects from \<open>v\<close> without a proxy, its
  login included, is refused with 429.\<close>

theorem xff_lockout:
  assumes atk: "reaches_limiter files r" and xff: "hr_xff r = [v]"
    and victim: "reaches_limiter files rv" and direct: "hr_xff rv = []" "hr_remote rv = v"
    and fresh: "jm_get (sv_rl sv) v = None"
    and n: "Suc (length ts) = rl_max" and win: "\<forall>t\<in>set ts. t < t0 + window_ms" and tv: "tv < t0 + window_ms"
  shows "snd (http_handle verify files tv rid rv
           (fst (http_run verify files (map (\<lambda>t. (t, rid0, r)) (t0 # ts)) sv))) = TooManyRequests"
proof -
  let ?sv = "fst (http_run verify files (map (\<lambda>t. (t, rid0, r)) (t0 # ts)) sv)"
  have key: "http_key r = v" "http_key rv = v"
    using xff direct by (simp_all add: http_key_def req_ip_def)
  have "sv_rl ?sv = fst (limiter_run (map (\<lambda>t. (t, v)) (t0 # ts)) (sv_rl sv))"
    using http_run_rl [of "map (\<lambda>t. (t, rid0, r)) (t0 # ts)" files verify sv] atk key
    by (simp add: comp_def)
  then have "jm_get (sv_rl ?sv) v = Some \<lparr>rl_hits = rl_max, rl_reset = t0 + window_ms\<rparr>"
    using limiter_run_fresh_entry [OF fresh win] n by simp
  then have "\<not> snd (limiter_hit tv (http_key rv) (sv_rl ?sv))"
    using tv key by (simp add: limiter_hit_def)
  then show ?thesis
    using http_handle_limited [OF victim, of verify tv rid ?sv] by simp
qed

theorem xff_lockout_witness:
  "snd (http_handle (\<lambda>_. None) (\<lambda>_. False) 60000 7 demo_victim_login
     (fst (http_run (\<lambda>_. None) (\<lambda>_. False) (map (\<lambda>t. (t, 0, demo_probe)) (0 # replicate 99 0))
        \<lparr>sv_rt = rt_init 0, sv_acct = acct_init, sv_rl = []\<rparr>))) = TooManyRequests"
  by (rule xff_lockout [where v = "js ''10.0.0.7''"])
    (simp_all add: reaches_limiter_def demo_probe_def demo_victim_login_def parse_body_def is_get_def
      api_mount_def seg_eq_def js_lower_def ascii_lower_def js_def rl_max_def window_ms_def json_limit_def)

end
