(* ===== verification/TypedLog.thy ===== *)
theory TypedLog
  imports Server
begin

text \<open>
  The shape of the message logs in every reachable state of the session engine: each
  logged message sits in the log of the room it names, and its id is the decimal
  numeral of a clock reading (\<open>Date.now().toString()\<close>, server.js line 294), a string
  of ASCII digits that reads back as a time no later than the message's timestamp, which
  \<open>new Date()\<close> reads after it (line 300). The send handler builds every message this
  way and the sweep only drops messages, so the shape holds from the empty logs on.
\<close>

definition log_typed :: "msg_log \<Rightarrow> bool" where
  "log_typed ms \<longleftrightarrow>
     (\<forall>r xs m. jm_get ms r = Some xs \<longrightarrow> m \<in> set xs \<longrightarrow>
        msg_room m = r \<and> msg_id m = js_nat_str (dec_value (msg_id m)) \<and> dec_value (msg_id m) \<le> timestamp m)"

subsection \<open>Lemmas\<close>

lemma api_messages_mem: "m \<in> set (api_messages ms r) \<Longrightarrow> \<exists>xs. jm_get ms r = Some xs \<and> m \<in> set xs"
  by (cases "jm_get ms r") (auto simp: api_messages_def)

lemma log_typed_append:
  assumes "log_typed ms" and "msg_room m = r"
    and "msg_id m = js_nat_str (dec_value (msg_id m)) \<and> dec_value (msg_id m) \<le> timestamp m"
  shows "log_typed (log_append r m ms)"
  unfolding log_typed_def
proof (intro allI impI)
  fix r' xs m'
  assume g: "jm_get (log_append r m ms) r' = Some xs" and mem: "m' \<in> set xs"
  show "msg_room m' = r' \<and> msg_id m' = js_nat_str (dec_value (msg_id m')) \<and> dec_value (msg_id m') \<le> timestamp m'"
  proof (cases "r' = r")
    case True
    with g mem have "m' \<in> set (api_messages ms r) \<or> m' = m"
      by (auto simp: log_append_get)
    with True assms show ?thesis
      unfolding log_typed_def by (blast dest: api_messages_mem)
  next
    case False
    with g mem assms(1) show ?thesis
      by (auto simp: log_typed_def log_append_get)
  qed
qed

lemma log_typed_sweep:
  assumes "jm_wf ms" and "log_typed ms"
  shows "log_typed (sweep now ms)"
proof -
  have "set (keep_recent c xs) \<subseteq> set xs" for c xs
    using keep_recent_set by fastforce
  then show ?thesis
    using assms by (fastforce simp: log_typed_def sweep_get [OF assms(1)])
qed

lemma rt_step_messages:
  assumes "rt_step verify now ev s = Inr s'"
  shows "rt_messages s' = rt_messages s \<or>
         (\<exists>sid k d lag. jm_get (rt_sockets s) sid = Some k \<and>
            rt_messages s' = log_append (sd_room d) (new_message (s_user k) (now - lag) now d) (rt_messages s)) \<or>
         rt_messages s' = sweep now (rt_messages s)"
  using assms
  by (cases ev)
     (fastforce simp: on_connection_frame sio_add_def on_join_room_def on_typing_start_def on_typing_stop_def
        on_disconnect_def Let_def sio_remove_def on_sweep_def on_send_message_def
        split: sum.splits option.splits)+

lemma new_message_typed:
  "msg_room (new_message u (now - lag) now d) = sd_room d \<and>
   msg_id (new_message u (now - lag) now d) = js_nat_str (dec_value (msg_id (new_message u (now - lag) now d))) \<and>
   dec_value (msg_id (new_message u (now - lag) now d)) \<le> timestamp (new_message u (now - lag) now d)"
  by (simp add: new_message_def dec_value_js_nat_str)

lemma dec_digits_lt: "d \<in> set (dec_digits n) \<Longrightarrow> d < 10"
proof (induction n rule: dec_digits.induct)
  case (1 n)
  then show ?case
    by (subst (asm) dec_digits.simps) (auto split: if_splits)
qed

lemma js_nat_str_digits:
  assumes "c \<in> set (js_nat_str n)"
  shows "48 \<le> unat c \<and> unat c \<le> 57"
proof -
  obtain d where d: "d \<in> set (dec_digits n)" and c: "c = of_nat (48 + d)"
    using assms unfolding js_nat_str_def by auto
  have "unat c = 48 + d"
    by (simp only: c unat_digit [OF dec_digits_lt [OF d]])
  with dec_digits_lt [OF d] show ?thesis by simp
qed

lemma reachable_log_typed: "reachable verify t s \<Longrightarrow> log_typed (rt_messages s)"
proof (induction rule: reachable.induct)
  case (init t0)
  then show ?case by (simp add: log_typed_def rt_init_def)
next
  case (step t s t' ev s')
  have wf: "jm_wf (rt_messages s)"
    using reachable_rt_inv [OF step.hyps(1)] by (rule rt_inv_messages_wf)
  from rt_step_messages [OF step.hyps(4)] show ?case
    using step.IH log_typed_sweep [OF wf] log_typed_append new_message_typed by metis
qed

subsection \<open>Property\<close>

text \<open>C11: in every reachable state each logged message is in the log of the room it
  names, and its id is a non-empty string of ASCII digits, the canonical decimal numeral
  of a time no later than the message's timestamp: the id's clock reading (line 294)
  precedes the timestamp's (line 300).\<close>

theorem reachable_messages_typed:
  assumes "reachable verify t s" and "jm_get (rt_messages s) r = Some xs" and "m \<in> set xs"
  shows "msg_room m = r \<and> msg_id m = js_nat_str (dec_value (msg_id m)) \<and> msg_id m \<noteq> [] \<and>
         (\<forall>c \<in> set (msg_id m). 48 \<le> unat c \<and> unat c \<le> 57) \<and> dec_value (msg_id m) \<le> timestamp m"
proof -
  have typed: "msg_room m = r \<and> msg_id m = js_nat_str (dec_value (msg_id m)) \<and> dec_value (msg_id m) \<le> timestamp m"
    using reachable_log_typed [OF assms(1)] assms(2,3) by (auto simp: log_typed_def)
  moreover have "js_nat_str n \<noteq> []" for n
    by (subst js_nat_str_def, subst dec_digits.simps) simp
  ultimately show ?thesis
    using js_nat_str_digits [of _ "dec_value (msg_id m)"] by metis
qed

theorem reachable_messages_typed_witness:
  "\<exists>s'. reachable demo_verify 3 s' \<and>
     jm_get (rt_messages s') (js ''general'') \<noteq> None \<and>
     dec_value (msg_id (new_message demo_user 2 3 \<lparr>sd_room = js ''general'', sd_content = js ''hi'', sd_type = None\<rparr>)) = 2"
proof -
  let ?d = "\<lparr>sd_room = js ''general'', sd_content = js ''hi'', sd_type = None\<rparr>"
  obtain s where r: "reachable demo_verify 2 s"
    and k1: "jm_get (rt_sockets s) (js ''s1'') = Some \<lparr>s_user = demo_user, s_rooms = [js ''s1'', js ''general'']\<rparr>"
    using demo_two_sessions by blast
  obtain s' where st: "rt_step demo_verify 3 (SendMessage (js ''s1'') (Some ?d) 1) s = Inr s'"
    using send_step [OF k1] by blast
  have r': "reachable demo_verify 3 s'"
    by (rule reachable.step [OF r _ _ st]) simp_all
  have g: "jm_get (rt_messages s') (js ''general'') =
             Some (api_messages (rt_messages s) (js ''general'') @ [new_message demo_user 2 3 ?d])"
    using st unfolding send_step [OF k1] by (auto simp: deliver_def log_append_get)
  have mem: "new_message demo_user 2 3 ?d \<in> set (api_messages (rt_messages s) (js ''general'') @ [new_message demo_user 2 3 ?d])"
    by simp
  have "dec_value (msg_id (new_message demo_user 2 3 ?d)) \<le> timestamp (new_message demo_user 2 3 ?d)"
    using reachable_messages_typed [OF r' g mem] by blast
  moreover have "dec_value (msg_id (new_message demo_user 2 3 ?d)) = 2"
    by (simp add: new_message_def dec_value_js_nat_str)
  ultimately show ?thesis
    using r' g by blast
qed

end
