(* ===== verification/ServiceWorker.thy ===== *)
theory ServiceWorker
  imports Prelude
begin

text \<open>
  The service worker \<^verbatim>\<open>src/public/sw.js\<close>. Its state is the origin's Cache Storage: a
  \<open>Map\<close> from cache names to caches in creation order, each cache a list of request
  URLs with their stored responses. The network is a parameter \<open>net\<close>: \<open>net u\<close> is the
  response \<open>fetch(u)\<close> resolves with, or \<open>None\<close> when it rejects (offline). URLs are
  same-origin paths. The three listeners are one definition each: \<open>install\<close> opens the
  cache of the current version and precaches six URLs with \<open>cache.addAll\<close>, which
  stores all of them or none and rejects when one fetch fails or answers a status
  outside 200-299 (the rejection is caught and logged); \<open>activate\<close> deletes every
  other cache; \<open>fetch\<close> leaves Socket.IO requests to the browser and answers the
  others cache first, then from the network, then, offline, with the cached
  \<open>/index.html\<close> for a page navigation. \<open>skipWaiting\<close>, \<open>clients.claim\<close> and the
  logging have no effect on the state modelled.
\<close>

datatype response = Response nat jstr

type_synonym cache = "(jstr \<times> response) list"

record sw_state =
  sw_caches :: "(jstr, cache) jsmap"

record request =
  rq_url :: jstr
  rq_dest :: jstr

datatype fetch_result = NotIntercepted | Served response | NetworkError

text \<open>Lines 1-9.\<close>

definition cache_name :: jstr where
  "cache_name = js ''terminal-chat-v1.0.1''"

definition urls_to_cache :: "jstr list" where
  "urls_to_cache = map js [''/'', ''/index.html'', ''/app.js'', ''/manifest.json'',
                           ''/icons/icon-72x72.png'', ''/favicon.ico'']"

subsection \<open>The Cache API\<close>

definition resp_ok :: "response \<Rightarrow> bool" where
  "resp_ok r = (case r of Response st b \<Rightarrow> 200 \<le> st \<and> st \<le> 299)"

text \<open>\<open>caches.open(name)\<close> creates the cache when there is none of that name.\<close>

definition caches_open :: "jstr \<Rightarrow> sw_state \<Rightarrow> sw_state \<times> cache" where
  "caches_open n s =
     (case jm_get (sw_caches s) n of
        Some c \<Rightarrow> (s, c)
      | None \<Rightarrow> (s\<lparr>sw_caches := jm_set n [] (sw_caches s)\<rparr>, []))"

text \<open>\<open>cache.addAll(urls)\<close>: all responses stored, or \<open>None\<close> for the rejection.\<close>

definition cache_add_all :: "(jstr \<Rightarrow> response option) \<Rightarrow> jstr list \<Rightarrow> cache \<Rightarrow> cache option" where
  "cache_add_all net us c =
     (case those (map net us) of
        None \<Rightarrow> None
      | Some rs \<Rightarrow> if list_all resp_ok rs
                   then Some (fold (\<lambda>(u, r) c. AList.update u r c) (zip us rs) c) else None)"

text \<open>\<open>caches.match(url)\<close> searches the caches in creation order.\<close>

fun caches_match :: "(jstr, cache) jsmap \<Rightarrow> jstr \<Rightarrow> response option" where
  "caches_match [] u = None"
| "caches_match ((n, c) # cs) u = (case map_of c u of Some r \<Rightarrow> Some r | None \<Rightarrow> caches_match cs u)"

subsection \<open>The listeners\<close>

text \<open>Lines 11-23.\<close>

definition sw_install :: "(jstr \<Rightarrow> response option) \<Rightarrow> sw_state \<Rightarrow> sw_state" where
  "sw_install net s =
     (let (s1, c) = caches_open cache_name s
      in case cache_add_all net urls_to_cache c of
           Some c' \<Rightarrow> s1\<lparr>sw_caches := jm_set cache_name c' (sw_caches s1)\<rparr>
         | None \<Rightarrow> s1)"

text \<open>Lines 25-40.\<close>

definition sw_activate :: "sw_state \<Rightarrow> sw_state" where
  "sw_activate s = s\<lparr>sw_caches := filter (\<lambda>(n, c). n = cache_name) (sw_caches s)\<rparr>"

text \<open>Lines 42-62.\<close>

definition sw_fetch :: "(jstr \<Rightarrow> response option) \<Rightarrow> sw_state \<Rightarrow> request \<Rightarrow> fetch_result" where
  "sw_fetch net s rq =
     (if js_includes (rq_url rq) (js ''/socket.io/'') then NotIntercepted
      else case caches_match (sw_caches s) (rq_url rq) of
             Some r \<Rightarrow> Served r
           | None \<Rightarrow>
               (case net (rq_url rq) of
                  Some r \<Rightarrow> Served r
                | None \<Rightarrow>
                    if rq_dest rq = js ''document''
                    then (case caches_match (sw_caches s) (js ''/index.html'') of
                            Some r \<Rightarrow> Served r
                          | None \<Rightarrow> NetworkError)
                    else NetworkError))"

declare cache_name_def [model_defs] urls_to_cache_def [model_defs] resp_ok_def [model_defs]
  caches_open_def [model_defs] cache_add_all_def [model_defs] sw_install_def [model_defs]
  sw_activate_def [model_defs] sw_fetch_def [model_defs]

subsection \<open>Lemmas\<close>

lemma those_map_Some: "(\<forall>u\<in>set us. net u \<noteq> None) \<Longrightarrow> those (map net us) = Some (map (the \<circ> net) us)"
  by (induction us) auto

lemma those_map_None: "(\<exists>u\<in>set us. net u = None) \<Longrightarrow> those (map net us) = None"
  by (induction us) (auto split: option.splits)

lemma map_of_fold_update_notin:
  "u \<notin> set us \<Longrightarrow> map_of (fold (\<lambda>(u, r) c. AList.update u r c) (zip us (map f us)) c) u = map_of c u"
  by (induction us arbitrary: c) (auto simp: update_conv')

lemma map_of_fold_update:
  "u \<in> set us \<Longrightarrow> map_of (fold (\<lambda>(u, r) c. AList.update u r c) (zip us (map f us)) c) u = Some (f u)"
proof (induction us arbitrary: c)
  case (Cons v us)
  show ?case
  proof (cases "u \<in> set us")
    case True
    then show ?thesis using Cons.IH by simp
  next
    case False
    with Cons.prems have "u = v" by simp
    with False show ?thesis by (simp add: map_of_fold_update_notin update_conv')
  qed
qed simp

lemma cache_add_all_ok:
  assumes "\<forall>u\<in>set us. \<exists>r. net u = Some r \<and> resp_ok r"
  shows "cache_add_all net us c = Some (fold (\<lambda>(u, r) c. AList.update u r c) (zip us (map (the \<circ> net) us)) c)"
proof -
  have "those (map net us) = Some (map (the \<circ> net) us)"
    using assms by (intro those_map_Some) auto
  moreover have "list_all resp_ok (map (the \<circ> net) us)"
    using assms by (auto simp: list_all_iff)
  ultimately show ?thesis by (simp add: cache_add_all_def)
qed

lemma cache_add_all_fail:
  assumes "\<exists>u\<in>set us. \<not> (\<exists>r. net u = Some r \<and> resp_ok r)"
  shows "cache_add_all net us c = None"
proof (cases "\<exists>u\<in>set us. net u = None")
  case True
  then show ?thesis by (simp add: cache_add_all_def those_map_None)
next
  case False
  then have "those (map net us) = Some (map (the \<circ> net) us)"
    by (intro those_map_Some) auto
  moreover have "\<not> list_all resp_ok (map (the \<circ> net) us)"
    using assms False by (fastforce simp: list_all_iff)
  ultimately show ?thesis by (simp add: cache_add_all_def)
qed

lemma sw_install_caches:
  "sw_caches (sw_install net s) =
     jm_set cache_name
       (case cache_add_all net urls_to_cache (case jm_get (sw_caches s) cache_name of Some c \<Rightarrow> c | None \<Rightarrow> []) of
          Some c' \<Rightarrow> c' | None \<Rightarrow> (case jm_get (sw_caches s) cache_name of Some c \<Rightarrow> c | None \<Rightarrow> []))
       (sw_caches s)"
  by (auto simp: sw_install_def caches_open_def update_conv' split: option.splits
      intro: update_triv [symmetric])

lemma caches_match_activate_update:
  "map_of v u = Some r \<Longrightarrow> caches_match (filter (\<lambda>(n, c). n = k) (AList.update k v cs)) u = Some r"
  by (induction cs) auto

lemma activate_update_fresh:
  "\<not> jm_has cs k \<Longrightarrow> filter (\<lambda>(n, c). n = k) (AList.update k v cs) = [(k, v)]"
  by (induction cs) (auto simp: jm_has_def)

lemma urls_to_cache_no_socket: "u \<in> set urls_to_cache \<Longrightarrow> \<not> js_includes u (js ''/socket.io/'')"
  by (auto simp: urls_to_cache_def js_def)

subsection \<open>Properties of the service worker\<close>

text \<open>C38: once the worker is installed with every precache URL answering 200-299
  and then activated, each precached URL is answered from the cache with the response
  it had at install time, whatever the network does afterwards: the worker is cache
  first and never refreshes (a new version of \<open>app.js\<close> reaches a client only when
  \<open>CACHE_NAME\<close> changes).\<close>

theorem sw_install_then_serve:
  assumes ok: "\<forall>u\<in>set urls_to_cache. \<exists>r. net u = Some r \<and> resp_ok r"
    and u: "u \<in> set urls_to_cache"
  shows "sw_fetch net' (sw_activate (sw_install net s)) \<lparr>rq_url = u, rq_dest = d\<rparr> = Served (the (net u))"
proof -
  let ?c0 = "case jm_get (sw_caches s) cache_name of Some c \<Rightarrow> c | None \<Rightarrow> []"
  let ?c' = "fold (\<lambda>(u, r) c. AList.update u r c) (zip urls_to_cache (map (the \<circ> net) urls_to_cache)) ?c0"
  have "sw_caches (sw_install net s) = jm_set cache_name ?c' (sw_caches s)"
    by (simp add: sw_install_caches cache_add_all_ok [OF ok])
  moreover have "map_of ?c' u = Some (the (net u))"
    using map_of_fold_update [OF u, where f = "the \<circ> net" and c = "?c0"] by simp
  ultimately have "caches_match (sw_caches (sw_activate (sw_install net s))) u = Some (the (net u))"
    by (simp add: sw_activate_def caches_match_activate_update)
  then show ?thesis
    using urls_to_cache_no_socket [OF u] by (simp add: sw_fetch_def)
qed

theorem sw_install_then_serve_witness:
  "sw_fetch (\<lambda>_. None) (sw_activate (sw_install (\<lambda>u. Some (Response 200 u)) \<lparr>sw_caches = []\<rparr>))
     \<lparr>rq_url = js ''/app.js'', rq_dest = js ''script''\<rparr> = Served (Response 200 (js ''/app.js''))"
  using sw_install_then_serve [where net = "\<lambda>u. Some (Response 200 u)" and u = "js ''/app.js''"
      and net' = "\<lambda>_. None" and s = "\<lparr>sw_caches = []\<rparr>" and d = "js ''script''"]
  by (simp add: urls_to_cache_def resp_ok_def)

text \<open>C39: precaching is all or nothing. When one precache URL fails or answers a
  status outside 200-299 on a first install, the rejection of \<open>addAll\<close> is swallowed
  (lines 17-19): the worker installs and activates with an empty cache, and offline
  every request, page navigations included, is a network error. The directory served
  statically (server.js line 42, \<^verbatim>\<open>public\<close>) holds in this repository only
  \<open>sw.js\<close> itself, none of the six URLs.\<close>

theorem sw_install_atomic:
  assumes fail: "\<exists>u\<in>set urls_to_cache. \<not> (\<exists>r. net u = Some r \<and> resp_ok r)"
    and fresh: "\<not> jm_has (sw_caches s) cache_name"
    and offline: "net' (rq_url rq) = None" and nosock: "\<not> js_includes (rq_url rq) (js ''/socket.io/'')"
  shows "sw_caches (sw_activate (sw_install net s)) = [(cache_name, [])] \<and>
         sw_fetch net' (sw_activate (sw_install net s)) rq = NetworkError"
proof -
  have none: "jm_get (sw_caches s) cache_name = None"
    using fresh by (simp add: jm_has_get)
  have "sw_caches (sw_install net s) = jm_set cache_name [] (sw_caches s)"
    by (simp add: sw_install_caches none cache_add_all_fail [OF fail])
  then have c: "sw_caches (sw_activate (sw_install net s)) = [(cache_name, [])]"
    by (simp add: sw_activate_def activate_update_fresh [OF fresh])
  then show ?thesis
    using offline nosock by (simp add: sw_fetch_def)
qed

theorem sw_install_atomic_witness:
  "sw_fetch (\<lambda>_. None)
     (sw_activate (sw_install (\<lambda>u. if u = js ''/favicon.ico'' then Some (Response 404 []) else Some (Response 200 u))
        \<lparr>sw_caches = []\<rparr>)) \<lparr>rq_url = js ''/'', rq_dest = js ''document''\<rparr> = NetworkError"
  using sw_install_atomic [where net = "\<lambda>u. if u = js ''/favicon.ico'' then Some (Response 404 []) else Some (Response 200 u)"
      and s = "\<lparr>sw_caches = []\<rparr>" and net' = "\<lambda>_. None" and rq = "\<lparr>rq_url = js ''/'', rq_dest = js ''document''\<rparr>"]
  by (simp add: urls_to_cache_def resp_ok_def jm_has_def js_def)

text \<open>Activation deletes the caches of every other version and keeps the current
  one as it is, so from then on no response of an older version is served.\<close>

theorem sw_activate_only_current:
  "set (jm_keys (sw_caches (sw_activate s))) \<subseteq> {cache_name} \<and>
   jm_get (sw_caches (sw_activate s)) cache_name = jm_get (sw_caches s) cache_name \<and>
   caches_match (sw_caches (sw_activate s)) u =
     caches_match (filter (\<lambda>(n, c). n = cache_name) (sw_caches s)) u"
proof -
  have "map_of (filter (\<lambda>(n, c). n = k) cs) k = map_of cs k" for k :: jstr and cs :: "(jstr, cache) jsmap"
    by (induction cs) auto
  then show ?thesis
    by (auto simp: sw_activate_def)
qed

end
