(* ===== verification/Identity.thy ===== *)
theory Identity
  imports Presence
begin

text \<open>
  The Identity Verifier: \<open>jsonwebtoken\<close> as \<^verbatim>\<open>src/server.js\<close> calls it.
  \<open>jwt.sign(payload, JWT_SECRET, { expiresIn: '7d' })\<close> (lines 186-190) stamps the
  payload with \<open>iat\<close>, the signing time in whole seconds, and \<open>exp = iat + 7 days\<close>;
  \<open>jwt.verify(token, JWT_SECRET, cb)\<close> (lines 109 and 245) fails when the signature
  does not check or when the clock in whole seconds has reached \<open>exp\<close>, and otherwise
  passes the payload on. The key is \<open>JWT_SECRET\<close> (line 57): the environment
  variable when it is set and not empty, the constant of the source otherwise. The HMAC is
  modelled by the table \<open>issued\<close> of the tokens signed so far, each with the key it was
  signed under and its claims: a string verifies under a key only if it was signed under
  that key (no client knows the key), as a keyed signature is treated in the protocol
  models of \<open>HOL/Auth\<close>. Time is in milliseconds, as everywhere in the development.
\<close>

record jwt_claims =
  jc_user :: identity
  jc_iat :: nat
  jc_exp :: nat

type_synonym jwt_table = "jstr \<Rightarrow> (jstr \<times> jwt_claims) option"

text \<open>Line 57: \<open>process.env.JWT_SECRET || 'terminal-chat-secret-2025'\<close>; the empty
  string is falsy.\<close>

definition jwt_secret :: "jstr option \<Rightarrow> jstr" where
  "jwt_secret env =
     (case env of Some k \<Rightarrow> if k = [] then js ''terminal-chat-secret-2025'' else k
      | None \<Rightarrow> js ''terminal-chat-secret-2025'')"

text \<open>\<open>expiresIn: '7d'\<close>, in seconds.\<close>

definition jwt_lifetime :: nat where
  "jwt_lifetime = 7 * 24 * 60 * 60"

text \<open>The claims \<open>jwt.sign\<close> puts in a token signed at \<open>now\<close>.\<close>

definition jwt_sign_claims :: "nat \<Rightarrow> identity \<Rightarrow> jwt_claims" where
  "jwt_sign_claims now u = \<lparr>jc_user = u, jc_iat = now div 1000, jc_exp = now div 1000 + jwt_lifetime\<rparr>"

text \<open>Signing under key \<open>k\<close> records the token string with the key and its claims.\<close>

definition jwt_issue :: "jstr \<Rightarrow> jstr \<Rightarrow> nat \<Rightarrow> identity \<Rightarrow> jwt_table \<Rightarrow> jwt_table" where
  "jwt_issue k tok now u issued = issued(tok := Some (k, jwt_sign_claims now u))"

definition jwt_verify :: "jstr \<Rightarrow> jwt_table \<Rightarrow> nat \<Rightarrow> jstr \<Rightarrow> identity option" where
  "jwt_verify k issued now tok =
     (case issued tok of
        None \<Rightarrow> None
      | Some (k', cl) \<Rightarrow> if k' = k \<and> now div 1000 < jc_exp cl then Some (jc_user cl) else None)"

declare jwt_secret_def [model_defs] jwt_lifetime_def [model_defs] jwt_sign_claims_def [model_defs] jwt_issue_def [model_defs]
  jwt_verify_def [model_defs]

subsection \<open>Lemmas\<close>

lemma jwt_verify_issue:
  "jwt_verify k (jwt_issue k tok t u issued) t' tok =
     (if t' div 1000 < t div 1000 + jwt_lifetime then Some u else None)"
  by (simp add: jwt_verify_def jwt_issue_def jwt_sign_claims_def)

lemma jwt_verify_expired:
  "issued tok = Some (k', cl) \<Longrightarrow> jc_exp cl \<le> now div 1000 \<Longrightarrow> jwt_verify k issued now tok = None"
  by (simp add: jwt_verify_def)

text \<open>A token signed at \<open>t0\<close> verifies up to the last millisecond of its last second.\<close>

lemma jwt_signed_valid:
  assumes "issued tok = Some (k, jwt_sign_claims t0 u)" and "t \<le> t0 + 1000 * jwt_lifetime - 1000"
  shows "jwt_verify k issued t tok = Some u"
proof -
  have "t div 1000 \<le> (t0 + 1000 * (jwt_lifetime - 1)) div 1000"
    using assms(2) by (intro div_le_mono) (simp add: jwt_lifetime_def)
  also have "\<dots> = t0 div 1000 + (jwt_lifetime - 1)" by simp
  finally show ?thesis using assms(1) by (simp add: jwt_verify_def jwt_sign_claims_def jwt_lifetime_def)
qed

lemma jwt_issue_valid:
  "t \<le> t0 + 1000 * jwt_lifetime - 1000 \<Longrightarrow> jwt_verify k (jwt_issue k tok t0 u issued) t tok = Some u"
  by (rule jwt_signed_valid) (simp add: jwt_issue_def)

lemma jwt_issue_expired:
  assumes "t0 + 1000 * jwt_lifetime \<le> t"
  shows "jwt_verify k (jwt_issue k tok t0 u issued) t tok = None"
proof -
  have "t0 div 1000 + jwt_lifetime = (t0 + 1000 * jwt_lifetime) div 1000" by simp
  also have "\<dots> \<le> t div 1000" using assms by (rule div_le_mono)
  finally show ?thesis by (simp add: jwt_verify_issue)
qed

subsection \<open>Properties of the token\<close>

text \<open>C29: a token \<open>/api/login\<close> signs at time \<open>t0\<close> authenticates its user at
  every time up to \<open>t0\<close> plus seven days less one second, and at no time from \<open>t0\<close>
  plus seven days on: \<open>expiresIn: '7d'\<close> is 604800 seconds, counted from the signing
  second.\<close>

theorem jwt_token_lifetime:
  "jwt_lifetime = 604800 \<and>
   (t \<le> t0 + 1000 * jwt_lifetime - 1000 \<longrightarrow> jwt_verify k (jwt_issue k tok t0 u issued) t tok = Some u) \<and>
   (t0 + 1000 * jwt_lifetime \<le> t \<longrightarrow> jwt_verify k (jwt_issue k tok t0 u issued) t tok = None)"
  by (simp add: jwt_issue_valid jwt_issue_expired) (simp add: jwt_lifetime_def)

theorem jwt_token_lifetime_witness:
  "jwt_verify (jwt_secret None) (jwt_issue (jwt_secret None) (js ''t'') 1500 \<lparr>uid = js ''1'', uemail = js ''a@b.c'', display_name = js ''A''\<rparr> Map.empty)
     604800500 (js ''t'') = Some \<lparr>uid = js ''1'', uemail = js ''a@b.c'', display_name = js ''A''\<rparr> \<and>
   jwt_verify (jwt_secret None) (jwt_issue (jwt_secret None) (js ''t'') 1500 \<lparr>uid = js ''1'', uemail = js ''a@b.c'', display_name = js ''A''\<rparr> Map.empty)
     604801500 (js ''t'') = None"
  using jwt_token_lifetime [of 604800500 1500 "jwt_secret None" "js ''t''" "\<lparr>uid = js ''1'', uemail = js ''a@b.c'', display_name = js ''A''\<rparr>" Map.empty]
    jwt_token_lifetime [of 604801500 1500 "jwt_secret None" "js ''t''" "\<lparr>uid = js ''1'', uemail = js ''a@b.c'', display_name = js ''A''\<rparr>" Map.empty]
  by simp

end
