(* ===== verification/Process.thy ===== *)
theory Process
  imports Server Accounts Identity
begin

text \<open>
  The server process as a whole (\<^verbatim>\<open>src/server.js\<close>): the session engine \<open>rt\<close> and the
  account store run in one Node.js process whose lifecycle lines 345-382 define. An
  exception a socket handler does not catch reaches \<open>process.on('uncaughtException')\<close>
  (lines 345-348), which exits with code 1; a server \<open>'error'\<close> at \<open>listen\<close> exits
  with code 1 in both branches (lines 368-376); \<open>SIGTERM\<close> (lines 355-361) calls
  \<open>server.close\<close>, which stops accepting connections and runs its callback, the exit
  with code 0, once the open connections have ended. Every store is a Map of the
  process, so a start (the first or a restart by the supervisor, outside the program,
  with the process environment as its input) begins from \<open>rt_init\<close> and
  \<open>acct_init\<close>, with the key \<open>JWT_SECRET\<close> computed from the environment (line
  57). A running process verifies handshake tokens under its own key against the table
  of the tokens signed so far, which is the clients' and so outlives the process. The
  \<open>unhandledRejection\<close> handler (lines 350-353) never runs: both async routes catch
  every rejection of their \<open>await\<close>.
\<close>

datatype proc_event =
    SockEv sock_event
  | HttpEv http_event
  | Sigterm
  | ServerClosed
  | ListenError
  | Restart nat "jstr option"

text \<open>A running or closing process holds the session engine, the account store and its
  key; \<open>Restart t0 env\<close> starts a process at \<open>t0\<close> whose \<open>JWT_SECRET\<close> variable is
  \<open>env\<close>.\<close>

datatype proc = Running rt acct_state jstr | Closing rt acct_state jstr | Exited nat

text \<open>The outcome of a socket event in a process that is still serving: a crash exits
  with code 1 (lines 345-348), a refused handshake changes nothing.\<close>

definition sock_outcome :: "(rt \<Rightarrow> acct_state \<Rightarrow> proc) \<Rightarrow> chat_error + rt \<Rightarrow> rt \<Rightarrow> acct_state \<Rightarrow> proc" where
  "sock_outcome k r s a =
     (case r of Inl Crash \<Rightarrow> Exited 1 | Inl AuthenticationError \<Rightarrow> k s a | Inr s' \<Rightarrow> k s' a)"

fun proc_step ::
  "(jstr \<Rightarrow> jstr) \<Rightarrow> (jstr \<Rightarrow> jstr \<Rightarrow> bool) \<Rightarrow> (identity \<Rightarrow> jstr) \<Rightarrow> jwt_table \<Rightarrow>
   nat \<Rightarrow> proc_event \<Rightarrow> proc \<Rightarrow> proc" where
  "proc_step hash compare sign issued now (SockEv ev) (Running s a key) =
     sock_outcome (\<lambda>s a. Running s a key) (rt_step (jwt_verify key issued now) now ev s) s a"
| "proc_step hash compare sign issued now (HttpEv ev) (Running s a key) =
     Running s (acct_step hash compare sign now ev a) key"
| "proc_step hash compare sign issued now Sigterm (Running s a key) = Closing s a key"
| "proc_step hash compare sign issued now ListenError (Running s a key) = Exited 1"
| "proc_step hash compare sign issued now (SockEv (Connect sid tok)) (Closing s a key) = Closing s a key"
| "proc_step hash compare sign issued now (SockEv ev) (Closing s a key) =
     sock_outcome (\<lambda>s a. Closing s a key) (rt_step (jwt_verify key issued now) now ev s) s a"
| "proc_step hash compare sign issued now (HttpEv ev) (Closing s a key) =
     Closing s (acct_step hash compare sign now ev a) key"
| "proc_step hash compare sign issued now ServerClosed (Closing s a key) = Exited 0"
| "proc_step hash compare sign issued now (Restart t0 env) (Exited n) =
     Running (rt_init t0) acct_init (jwt_secret env)"
| "proc_step hash compare sign issued now ev p = p"

declare sock_outcome_def [model_defs]

subsection \<open>Lemmas\<close>

text \<open>An exited process stays exited until it is restarted.\<close>

lemma exited_stays:
  "(\<forall>t env. ev \<noteq> Restart t env) \<Longrightarrow> proc_step hash compare sign issued now ev (Exited n) = Exited n"
  by (cases ev) auto

text \<open>A connection accepted by the handshake puts its user online in the registry.\<close>

lemma connect_online:
  assumes "tok \<noteq> []" and "verify tok = Some u"
  shows "rt_step verify now (Connect sid (Some tok)) s = Inr (on_connection sid u (sio_add sid u s)) \<and>
         jm_has (rt_connected (on_connection sid u (sio_add sid u s))) (uid u) \<and>
         rt_messages (on_connection sid u (sio_add sid u s)) = rt_messages s"
  using assms by (simp add: authenticate_def on_connection_frame jm_has_get sio_add_def)

subsection \<open>Properties of the process\<close>

text \<open>C18: a crash loses every store but not the tokens. A \<open>send-message\<close> without
  payload from a live socket ends the process with exit code 1; the process the
  supervisor starts again from the same environment has empty logs and an empty account
  store but the same key, since line 57 derives it from the environment alone, so a
  token signed before the crash and still within its seven days passes the handshake and
  puts its holder online, in a server that has no account for them.\<close>

theorem crash_restart_token_outlives_account:
  assumes "jm_has (rt_sockets s) sid" and "issued tok = Some (jwt_secret env, jwt_sign_claims tsign u)"
    and "tok \<noteq> []" and "t' \<le> tsign + 1000 * jwt_lifetime - 1000"
  shows "proc_step hash compare sign issued t (SockEv (SendMessage sid None lag)) (Running s a (jwt_secret env)) = Exited 1 \<and>
         (\<exists>s'. proc_step hash compare sign issued t' (SockEv (Connect sid' (Some tok)))
                 (proc_step hash compare sign issued trestart (Restart trestart env) (Exited 1)) =
                 Running s' acct_init (jwt_secret env) \<and>
               jm_has (rt_connected s') (uid u) \<and> rt_messages s' = [])"
proof -
  have crash: "proc_step hash compare sign issued t (SockEv (SendMessage sid None lag)) (Running s a (jwt_secret env)) = Exited 1"
    using assms(1) by (auto simp: jm_has_get on_send_message_def sock_outcome_def)
  have "jwt_verify (jwt_secret env) issued t' tok = Some u"
    using assms(2,4) by (rule jwt_signed_valid)
  from connect_online [where verify = "jwt_verify (jwt_secret env) issued t'" and now = t' and sid = sid'
      and s = "rt_init trestart", OF assms(3) this]
  show ?thesis
    using crash by (simp add: sock_outcome_def rt_init_def)
qed

theorem crash_restart_token_outlives_account_witness:
  "proc_step (\<lambda>x. x) (\<lambda>_ _. True) (\<lambda>_. []) (jwt_issue (jwt_secret None) (js ''tokA'') 0 demo_user Map.empty) 5
      (SockEv (SendMessage (js ''s1'') None 0))
      (Running (sio_add (js ''s1'') demo_user (rt_init 0)) acct_init (jwt_secret None)) = Exited 1 \<and>
   (\<exists>s'. proc_step (\<lambda>x. x) (\<lambda>_ _. True) (\<lambda>_. []) (jwt_issue (jwt_secret None) (js ''tokA'') 0 demo_user Map.empty)
           9000 (SockEv (Connect (js ''s2'') (Some (js ''tokA''))))
           (proc_step (\<lambda>x. x) (\<lambda>_ _. True) (\<lambda>_. []) (jwt_issue (jwt_secret None) (js ''tokA'') 0 demo_user Map.empty)
              8000 (Restart 8000 None) (Exited 1)) = Running s' acct_init (jwt_secret None) \<and>
         jm_has (rt_connected s') (uid demo_user) \<and> rt_messages s' = [])"
proof -
  have h: "jm_has (rt_sockets (sio_add (js ''s1'') demo_user (rt_init 0))) (js ''s1'')"
    by (simp add: sio_add_def jm_has_get jm_get_set)
  have i: "jwt_issue (jwt_secret None) (js ''tokA'') 0 demo_user Map.empty (js ''tokA'') =
             Some (jwt_secret None, jwt_sign_claims 0 demo_user)"
    by (simp add: jwt_issue_def)
  have t: "(9000::nat) \<le> 0 + 1000 * jwt_lifetime - 1000" by (simp add: jwt_lifetime_def)
  from crash_restart_token_outlives_account [where issued = "jwt_issue (jwt_secret None) (js ''tokA'') 0 demo_user Map.empty"
      and tok = "js ''tokA''" and tsign = 0 and u = demo_user and t' = 9000 and hash = "\<lambda>x. x"
      and compare = "\<lambda>_ _. True" and sign = "\<lambda>_. []" and env = None and t = 5 and lag = 0
      and a = acct_init and sid' = "js ''s2''" and trestart = 8000, OF h i _ t]
  show ?thesis
    by (simp add: js_def)
qed

end
