(* ===== verification/Spec2Isabelle.thy ===== *)
theory Spec2Isabelle
  imports ChatTools Http TypedLog ServiceWorker Identity Process
begin

text \<open>
  A verification development for the Terminal Chat relay of this repository: an
  Express + Socket.IO server (\<^verbatim>\<open>src/server.js\<close>), its browser client
  (\<^verbatim>\<open>src/app.js\<close>) and a service worker (\<^verbatim>\<open>src/public/sw.js\<close>).

  \<^bold>\<open>The program.\<close> The server keeps four process-wide Maps: \<open>users\<close> (accounts by
  e-mail, written by \<open>POST /api/register\<close> and \<open>/api/login\<close>), \<open>rooms\<close> (one
  public room \<open>general\<close>), \<open>messages\<close> (each room's log) and \<open>connectedUsers\<close> (the
  presence registry). A socket connection is authenticated by a JWT in the handshake,
  registered as online, joined to \<open>general\<close> and announced to every other socket;
  its events (\<open>join-room\<close>, \<open>send-message\<close>, \<open>typing-start\<close>/\<open>-stop\<close>,
  \<open>disconnect\<close>) update the Maps and emit events to rooms or to all sockets; a timer
  trims every room's log every 30 minutes. The \<open>/api/\<close> routes sit behind a rate
  limiter and, except register and login, behind the bearer-token check. The client logs
  in over HTTP, keeps the token in \<open>localStorage\<close>, opens the socket, emits typing and
  message events from the page's listeners and renders the server's events; the service
  worker precaches the app and answers requests from its cache. All server state lives
  in the one Node.js process: an uncaught exception ends it, and a restart starts from
  empty Maps while tokens, signed with \<open>process.env.JWT_SECRET\<close> or its constant
  default (server.js 57), stay valid.

  \<^bold>\<open>The library.\<close>
  \<^item> \<open>Prelude\<close>: the JavaScript runtime the code relies on: strings as UTF-16 code
    units (\<open>jstr\<close>), \<open>Map\<close> as an insertion-ordered association list
    (\<open>jm_set\<close> is \<open>AList.update\<close>, \<open>jm_delete\<close> is \<open>AList.delete_aux\<close>),
    \<open>trim\<close>/\<open>\s\<close> white space, \<open>Array.prototype.slice\<close>, decimal
    \<open>toString\<close> with its inverse; the named collections \<open>model_defs\<close> and
    \<open>jsmap_simps\<close>.
  \<^item> \<open>Presence\<close>: \<open>connectedUsers\<close> (server.js 254-280, 335): register,
    unregister, the roster, the registry invariant, and the guarded unregister the
    design asks for.
  \<^item> \<open>MessageLog\<close>: \<open>rooms\<close>, \<open>messages\<close> and the retention sweep
    (server.js 60-98, 214-218, 303-307). C15: the sweep meets the declarative retention
    policy \<open>retention_ok\<close> of the spec (each room keeps a subsequence of its
    messages younger than two hours, as many as the young ones up to 100, and drops no
    young message newer than one it keeps); C16: its bounds. Further lemmas show that it
    keeps every young message when there are few, keeps the newest, and is idempotent.
  \<^item> \<open>Server\<close>: the session engine (server.js 239-342): a state record \<open>rt\<close>
    (rooms, logs, registry, sockets with their rooms, and the outbox of delivered
    events), Socket.IO's emit/broadcast/join semantics, one definition per handler,
    the dispatch \<open>rt_step\<close> and the reachable states (\<open>reachable\<close>, from
    \<open>rt_init\<close> by steps whose clock does not go back and whose new socket ids are
    fresh). The invariant \<open>rt_inv\<close> holds in every reachable state (one lemma per
    handler). \<open>send-message\<close> reads the clock twice (server.js 294 and 300): the
    event carries the lag between the id's reading and the timestamp's. C1-C7, C10:
    registry uniqueness and liveness, the stale-disconnect eviction, delivery and
    per-room order of messages, disconnect and connect, and sorted logs; further lemmas
    show that a refused handshake changes nothing, that a missing payload is a crash,
    that joining an unknown room succeeds and that a typing notice never reaches the
    typing socket.
  \<^item> \<open>TypedLog\<close>: C11, the shape of the logs in every reachable state (room,
    decimal id of each message, and an id no later than the timestamp).
  \<^item> \<open>Accounts\<close>: the account store and the HTTP API (server.js 101-205). Each
    \<open>async\<close> handler is two steps split at its \<open>await\<close>, the suspended part kept in
    \<open>pending\<close>, so that requests interleave as they do on the event loop; user objects
    live in a heap \<open>objs\<close>. The invariant \<open>acct_inv\<close> holds in every reachable
    state. C19-C23: the register race, the register/login round trip, the wrong
    password, the invariant, and the e-mail pattern as a shape; a further lemma reads
    the bearer header.
  \<^item> \<open>Api\<close>: \<open>GET /api/rooms\<close>, \<open>/api/messages\<close>, \<open>/api/stats\<close> (server.js
    208-231) and the rate limiter (lines 16, 45-54). C25, C26: the limiter's bound and its
    bypass through \<open>X-Forwarded-For\<close>; a further lemma gives the message count of
    \<open>/api/stats\<close> after a sweep.
  \<^item> \<open>Http\<close>: the Express application as one request handler (server.js 16-54,
    119-235): \<open>cors\<close>'s answer to a preflight, \<open>express.json\<close>'s size limit and
    parse errors, \<open>express.static\<close>, the limiter on \<open>/api/\<close>, and the routes in
    registration order with Express's case-insensitive matching and optional trailing
    slash; the server's state is the session engine, the account store and the limiter's
    store. C9: preflights and bodies that \<open>express.json\<close> refuses are answered
    before the limiter and leave the state unchanged. C28: a hundred requests that put
    another client's address first in \<open>X-Forwarded-For\<close> lock that client out of
    the API, login included, for the rest of the window. C30: the login route refines
    the account store's login step. A further lemma: static files are not counted.
  \<^item> \<open>Process\<close>: the process lifecycle (server.js 57, 345-376): a state that is
    running (with the session engine, the account store and the JWT key read from the
    environment at start), closing after \<open>SIGTERM\<close>, or
    exited with a code; socket and HTTP events, the signal, the server's close and
    \<open>'error'\<close> events, and a restart by the supervisor in an environment. C18: a crash exits with code 1,
    and after a restart in the same environment (so the same key) a token signed before
    the crash puts its holder online in a server that has no account for them.
  \<^item> \<open>Client\<close>: \<open>TerminalChat\<close> (app.js 1-482, 507-531, 564-586): the object's fields, the
    page shown (auth or chat) with its login/register mode and auth message, the
    page's inputs, \<open>localStorage\<close>, emits, requests, the chat's messages and system
    messages, the users list, the typing indicator, the notification permission, the
    page's visibility, the notifications asked for and created, and the theme class, as
    one record; each method and listener a definition, with the null-element guards
    and exceptions of the code; \<open>client_step\<close> dispatches DOM events, timer
    callbacks, HTTP responses and socket events, \<open>connect_error\<close> once per failed
    attempt and the 3-second retry as events of their own. C24: the session invariant
    \<open>client_inv\<close> (the chat page only with a token, the auth page only with neither
    token nor user) holds in every run from \<open>init\<close>, by one frame lemma per handler.
    C17: the unsent draft of one account is restored into the next account's chat
    after a logout; a further lemma shows that the success messages of the auth page
    are never seen. C27,
    C32-C34: the doubled \<open>typing-start\<close>, the unescaped sender name, the restored
    session that does not know its user, and the run of failed attempts and retries,
    which keeps the token and the chat page, opens one socket per retry and logs one
    system message per failure (\<open>retry_run\<close>). Further lemmas: the typing timer
    after the idle window, the draft that outlives its message, \<open>escapeHtml\<close> and
    its inverse, the bound on a notification's body (and the surrogate pair it can
    split).
  \<^item> \<open>ChatTools\<close>: the chat page's search (\<open>searchMessages\<close>, \<open>highlightText\<close>,
    app.js 64-68, 588-627) and emoji picker (lines 533-562), on a page that has the
    elements they look up (neither template of app.js does). A message element keeps
    its sender, time, content (the text node of \<open>escapeHtml\<close>'s markup, or markup
    assigned later) and display state; the search walks the messages in order, and an
    exception of \<open>new RegExp\<close> (the engine is a parameter) stops the walk where it
    happens. C12: a search that finds its term in the sender's name assigns the
    message's text to \<open>innerHTML\<close>, so the text's \<open><\<close> become tags. C8: an
    engine that refuses the term stops the search at the first match and leaves the
    later messages as they were. Further lemmas: highlighting keeps the text of plain
    content, \<open>includes\<close> is the sublist relation, UTF-16
    encoding of the picker's 101 emoji literals and its inverse, and that an emoji put
    in the message box is neither saved as the draft nor announced as typing.
  \<^item> \<open>Password\<close>: \<open>bcryptjs\<close> as the server calls it, \<open>bcrypt.hash(password, 10)\<close>
    (server.js 141) and \<open>bcrypt.compare\<close> (line 178). The EksBlowfish digest is an
    opaque function of the salt prefix and the key, as \<open>Hash\<close> is a free constructor in
    the protocol models of \<open>HOL/Auth\<close>; the key is explicit: the password's UTF-8
    bytes (\<open>utf16_decode\<close>, \<open>utf8\<close>) with a NUL appended, read cyclically, 72 of
    them; the hash is the 29-character prefix and the 31-character digest. Lemmas:
    compare accepts what hash made, and exactly the passwords with the same key.
  \<^item> \<open>Identity\<close>: \<open>jsonwebtoken\<close> as the server uses it: \<open>jwt.sign\<close> with
    \<open>expiresIn: '7d'\<close> (server.js 186-190) and \<open>jwt.verify\<close> (lines 109, 245). The
    signature is modelled by the table of the tokens the server signed, each with the
    key it was signed with; \<open>jwt_secret\<close> is the key's choice (server.js 57).
    C29: a token's exact validity window.
  \<^item> \<open>ServiceWorker\<close>: \<^verbatim>\<open>src/public/sw.js\<close>: Cache Storage and the install, activate
    and fetch listeners. C38, C39: cache-first serving after install and the
    all-or-nothing precache; \<open>sw_activate_only_current\<close>: activation.
  \<^item> This theory: the properties that span components, C13, C14, C31, C35-C37 and C40:
    a password of 72 UTF-8 bytes or more has twins that log in to the account,
    a login through the page ends with the user online (client, account store, token
    and handshake), the typing stop reaches the other members after the idle window,
    the client's message payload is accepted by the server, the client's login and
    registration requests pass the server's field checks, a new connection empties the
    users list of every other client, and a client holding an expired token keeps it
    and stays on the chat page through any run of failed attempts and retries while
    the server refuses each of its handshakes.

  \<^bold>\<open>Modelling choices.\<close> Time is the clock's reading in milliseconds (\<open>nat\<close>); an
  ISO timestamp and the \<open>Date\<close> parsed back from it carry the same milliseconds, so a
  message stores the number. Strings keep their UTF-16 code units, so \<open>length\<close> is
  JavaScript's \<open>length\<close>. The server's handlers take the token verifier as a
  parameter, which \<open>Identity.jwt_verify\<close> under the process's key instantiates
  in \<open>Process.proc_step\<close>; the account store takes
  the password hash and compare as parameters, which \<open>Password\<close> instantiates. The
  digest of \<open>bcryptjs\<close> and the salt of each call, \<open>toLocaleTimeString\<close> and the
  network seen by the service worker are parameters of the definitions that call them, so every theorem holds for
  any implementation of them. The event loop is explicit: a run is a list of events,
  each handler runs to completion, and the two \<open>await\<close>s of the API are the only
  interleaving points. The client's reconnection is not a loop of the model: each
  failed attempt and each retry timer is an event of the run, so a run that never
  connects is any list of them. Every definition is total and executable, so no fuel
  is needed.

  \<^bold>\<open>Not modelled.\<close> The headers that \<open>helmet\<close> and \<open>cors\<close> add and the
  encoding of \<open>compression\<close> (they change no state and end no request), the
  Socket.IO server's CORS options (lines 19-24), percent-decoding of paths, logging
  and \<open>listen\<close>'s start-up messages, the content of the \<open>/login\<close> page
  (\<open>sendFile\<close>; the route is modelled), \<open>process.uptime\<close> and
  \<open>memoryUsage\<close> in \<open>/api/stats\<close> (runtime readings); in the client the sound
  (\<open>playNotificationSound\<close>, Web Audio only; its call is recorded), the focus
  \<open>insertEmoji\<close> gives the message box, case mapping outside ASCII in the search,
  the regular-expression engine beyond literal patterns (a parameter), and the
  service worker's registration by app.js (lines 630-646, a browser API whose install
  and activate events \<open>ServiceWorker\<close> takes as its inputs). The inside of
  EksBlowfish and the decoding of the salt's base64 are not modelled: the digest is a
  parameter, of which the theorems use only its length (31 characters); the version
  prefix is taken as \<open>$2a$\<close>, that of \<open>bcryptjs\<close> 2.
\<close>

text \<open>C35: the payload the client emits for a message that is not blank is one the
  server's \<open>send-message\<close> handler accepts: no crash, the message is appended to the
  log of the client's current room, with the trimmed text and type \<open>'text'\<close>.\<close>

theorem client_send_accepted:
  assumes "0 < c_sockets c" and "js_trim (field c (js ''message-input'')) \<noteq> []"
    and "jm_get (rt_sockets s) sid = Some k"
  shows "\<exists>d s'. c_emits (send_message c) = c_emits c @ [EmitSend d, EmitTypingStop (c_room c)] \<and>
           rt_step verify now (SendMessage sid (Some d) lag) s = Inr s' \<and>
           jm_get (rt_messages s') (c_room c) =
             Some (api_messages (rt_messages s) (c_room c) @ [new_message (s_user k) (now - lag) now d]) \<and>
           content (new_message (s_user k) (now - lag) now d) = js_trim (field c (js ''message-input'')) \<and>
           msg_type (new_message (s_user k) (now - lag) now d) = js ''text''"
  using assms
  by (simp add: send_message_def Let_def on_send_message_def sio_to_room_def log_append_get deliver_def
      new_message_def)

theorem client_send_accepted_witness:
  "\<exists>d s'. rt_step demo_verify 5 (SendMessage (js ''s1'') (Some d) 0)
       \<lparr>rt_rooms = [], rt_messages = [], rt_connected = [],
        rt_sockets = [(js ''s1'', \<lparr>s_user = demo_user, s_rooms = [js ''s1'']\<rparr>)], rt_outbox = []\<rparr> = Inr s' \<and>
     content (new_message demo_user 5 5 d) = js ''hi''"
  using client_send_accepted [where lag = 0, of "set_field (js ''message-input'') (js '' hi '') demo_client"
      "\<lparr>rt_rooms = [], rt_messages = [], rt_connected = [],
        rt_sockets = [(js ''s1'', \<lparr>s_user = demo_user, s_rooms = [js ''s1'']\<rparr>)], rt_outbox = []\<rparr>"
      "js ''s1''" "\<lparr>s_user = demo_user, s_rooms = [js ''s1'']\<rparr>" demo_verify 5]
  by (simp add: demo_client_simps js_def js_trim_def js_space_def) blast

text \<open>C36: a login or registration the client sends always passes the server's
  presence checks, and a registration also its password-length check: the client's
  checks (lines 215, 249, 254) imply the server's (lines 123, 133, 169); the address
  pattern of the server (line 128) has no client counterpart.\<close>

theorem client_requests_pass_server_checks:
  assumes "c_requests (login c) = c_requests c @ [ReqLogin b]"
    and "c_requests (register c') = c_requests c' @ [ReqRegister b']"
  shows "responses (login_start rid b s) \<noteq> responses s @ [(rid, Inl MissingFields)] \<and>
         responses (register_start rid b' s) \<notin>
           {responses s @ [(rid, Inl MissingFields)], responses s @ [(rid, Inl ShortPassword)]}"
proof -
  obtain e p where b: "b = \<lparr>lb_email = Some e, lb_password = Some p\<rparr>" "e \<noteq> []" "p \<noteq> []"
    using login_request_fields [OF assms(1)] by blast
  obtain e' p' n' where b': "b' = \<lparr>rb_email = Some e', rb_password = Some p', rb_name = Some n'\<rparr>"
      "e' \<noteq> []" "n' \<noteq> []" "6 \<le> length p'"
    using register_request_fields [OF assms(2)] by blast
  have "p' \<noteq> []" using b'(4) by auto
  with b b' show ?thesis
    by (auto simp: login_start_def register_start_def js_truthy_def Let_def responses_respond
        pending_suspend suspend_def split: option.splits)
qed

theorem client_requests_pass_server_checks_witness:
  "responses (register_start 1 \<lparr>rb_email = Some (js ''a@b.c''), rb_password = Some (js ''secret1''),
       rb_name = Some (js ''A'')\<rparr> acct_init) \<noteq> [(1, Inl ShortPassword)]"
proof -
  let ?c = "set_field (js ''display-name'') (js ''A'') (set_field (js ''password'') (js ''secret1'')
              (set_field (js ''email'') (js ''a@b.c'') demo_client))"
  have "c_requests (login ?c) = c_requests ?c @ [ReqLogin \<lparr>lb_email = Some (js ''a@b.c''), lb_password = Some (js ''secret1'')\<rparr>]"
    "c_requests (register ?c) = c_requests ?c @ [ReqRegister \<lparr>rb_email = Some (js ''a@b.c''),
       rb_password = Some (js ''secret1''), rb_name = Some (js ''A'')\<rparr>]"
    by (simp_all add: login_def register_def Let_def send_request_def js_def js_trim_def js_space_def)
  from client_requests_pass_server_checks [OF this, of 1 acct_init] show ?thesis
    by (simp add: acct_init_def)
qed

text \<open>C13: logging in through the page ends with the user online. The client sends the
  trimmed address and the password; \<open>/api/login\<close> finds the account, and once
  \<open>bcrypt.compare\<close> has accepted the password answers with a token for the account's
  identity; the client stores it, shows the chat page and opens a socket, whose
  handshake the server accepts within the token's seven days, registering the user
  online.\<close>

theorem login_flow_online:
  assumes fields: "js_trim (field c (js ''email'')) = e" "e \<noteq> []" "field c (js ''password'') = p" "p \<noteq> []"
    and acct: "jm_get (users a) e = Some r" "compare p (a_password (objs a ! r))"
      "jm_get (pending a) rid = None"
    and tok: "issued (sign (user_identity (objs a ! r))) = Some (k, jwt_sign_claims td (user_identity (objs a ! r)))"
      "sign (user_identity (objs a ! r)) \<noteq> []" "t \<le> td + 1000 * jwt_lifetime - 1000"
  shows "c_requests (login c) = c_requests c @ [ReqLogin \<lparr>lb_email = Some e, lb_password = Some p\<rparr>] \<and>
         responses (acct_step hash compare sign td (LoginDone rid)
             (acct_step hash compare sign tc (LoginReq rid \<lparr>lb_email = Some e, lb_password = Some p\<rparr>) a)) =
           responses a @ [(rid, Inr (LoggedIn (sign (user_identity (objs a ! r))) (user_identity (objs a ! r))))] \<and>
         c_page (client_step fmt td (LoginResponse (Some (Inr (sign (user_identity (objs a ! r)),
             user_identity (objs a ! r))))) (login c)) = ChatPage \<and>
         (\<exists>s'. rt_step (jwt_verify k issued t) t (Connect sid (c_token (client_step fmt td (LoginResponse
             (Some (Inr (sign (user_identity (objs a ! r)), user_identity (objs a ! r))))) (login c)))) s = Inr s' \<and>
           jm_has (rt_connected s') (uid (user_identity (objs a ! r))))"
proof -
  let ?u = "user_identity (objs a ! r)"
  have req: "c_requests (login c) = c_requests c @ [ReqLogin \<lparr>lb_email = Some e, lb_password = Some p\<rparr>]"
    using fields by (simp add: login_def Let_def send_request_def)
  let ?a1 = "suspend rid (LoginCont p r) a"
  have a1: "acct_step hash compare sign tc (LoginReq rid \<lparr>lb_email = Some e, lb_password = Some p\<rparr>) a = ?a1"
    using fields(2,4) acct(1) by (simp add: login_start_found)
  have g: "jm_get (pending ?a1) rid = Some (LoginCont p r)"
    using acct(3) by (simp add: pending_suspend map_add_def)
  have resp: "responses (acct_step hash compare sign td (LoginDone rid) ?a1) =
      responses a @ [(rid, Inr (LoggedIn (sign ?u) ?u))]"
    using acct(2) by (simp add: login_finish_cont [OF g] responses_respond)
  have v: "jwt_verify k issued t (sign ?u) = Some ?u"
    using tok(1,3) by (rule jwt_signed_valid)
  from connect_online [where verify = "jwt_verify k issued t" and now = t and sid = sid and s = s, OF tok(2) v]
  show ?thesis
    using req a1 resp by (simp add: login_response_ok login_ok_session)
qed

theorem login_flow_online_witness:
  "\<exists>s'. rt_step (jwt_verify (jwt_secret None) (jwt_issue (jwt_secret None) (js ''tok'') 7 demo_user Map.empty) 9) 9 (Connect (js ''s1'')
      (c_token (client_step (\<lambda>_. []) 7 (LoginResponse (Some (Inr (js ''tok'', demo_user))))
        (login (set_field (js ''password'') (js ''secret1'') (set_field (js ''email'') (js ''a@b.c'') (client_init [])))))))
      (rt_init 0) = Inr s' \<and> jm_has (rt_connected s') (uid demo_user)"
proof -
  let ?o = "\<lparr>a_id = js ''1'', a_email = js ''a@b.c'', a_password = js ''secret1'', a_name = js ''A'',
             a_status = Offline, a_created = 1, a_last_login = None\<rparr>"
  let ?a = "\<lparr>users = [(js ''a@b.c'', 0)], objs = [?o], pending = [], responses = []\<rparr>"
  let ?c = "set_field (js ''password'') (js ''secret1'') (set_field (js ''email'') (js ''a@b.c'') (client_init []))"
  have u: "user_identity ?o = demo_user"
    by (simp add: user_identity_def demo_user_def)
  have f: "js_trim (field ?c (js ''email'')) = js ''a@b.c''" "js ''a@b.c'' \<noteq> []"
      "field ?c (js ''password'') = js ''secret1''" "js ''secret1'' \<noteq> []"
    by (simp_all add: js_def js_trim_def js_space_def)
  have ac: "jm_get (users ?a) (js ''a@b.c'') = Some 0" "(\<lambda>x y. x = y) (js ''secret1'') (a_password (objs ?a ! 0))"
      "jm_get (pending ?a) 1 = None"
    by simp_all
  have tk: "jwt_issue (jwt_secret None) (js ''tok'') 7 demo_user Map.empty ((\<lambda>_. js ''tok'') (user_identity (objs ?a ! 0))) =
        Some (jwt_secret None, jwt_sign_claims 7 (user_identity (objs ?a ! 0)))"
      "(\<lambda>_. js ''tok'') (user_identity (objs ?a ! 0)) \<noteq> []" "(9::nat) \<le> 7 + 1000 * jwt_lifetime - 1000"
    by (simp_all add: jwt_issue_def js_def jwt_lifetime_def user_identity_def demo_user_def)
  have o0: "objs ?a ! 0 = ?o" by simp
  from login_flow_online [where issued = "jwt_issue (jwt_secret None) (js ''tok'') 7 demo_user Map.empty" and k = "jwt_secret None"
      and sign = "\<lambda>_. js ''tok''" and compare = "\<lambda>x y. x = y" and td = 7 and t = 9 and hash = id
      and tc = 7 and fmt = "\<lambda>_. []" and sid = "js ''s1''" and s = "rt_init 0", OF f ac tk]
  show ?thesis
    by (simp only: o0 u client_step.simps)
qed

text \<open>C31: a long password has twins. The server accepts any password of six
  characters or more, and bcrypt keys only the first 72 UTF-8 bytes of it (36 letters
  of Arabic script); so after registering with such a password, a login with any
  password that agrees on those bytes and differs after them is answered with a token
  for the account.\<close>

theorem long_password_twin_login:
  assumes fresh: "\<not> jm_has (users s) e" and re: "email_re e"
    and rids: "ra \<noteq> rb" "\<not> jm_has (pending s) ra" "\<not> jm_has (pending s) rb"
    and pw: "6 \<le> length p" "n \<noteq> []"
    and salt: "length salt = 22" and H: "\<forall>pre k. length (H pre k) = 31"
    and long: "72 \<le> length (utf8 p)" and twin: "take 72 (utf8 q) = take 72 (utf8 p)"
    and run: "acct_run (bcrypt_hash H salt) (bcrypt_compare H) sign
                [(ta, RegisterReq ra \<lparr>rb_email = Some e, rb_password = Some p, rb_name = Some n\<rparr>),
                 (tb, RegisterDone ra), (tc, LoginReq rb \<lparr>lb_email = Some e, lb_password = Some q\<rparr>),
                 (td, LoginDone rb)] s = s'"
  shows "responses s' = responses s @ [(ra, Inr Registered),
           (rb, Inr (LoggedIn (sign \<lparr>uid = js_nat_str tb, uemail = e, display_name = n\<rparr>)
                              \<lparr>uid = js_nat_str tb, uemail = e, display_name = n\<rparr>))]"
proof -
  have cmp: "bcrypt_compare H q (bcrypt_hash H salt p)"
    using salt H bcrypt_key_twin [OF long twin] by (rule bcrypt_compare_same_key)
  have q: "q \<noteq> []"
  proof
    assume "q = []"
    then show False using arg_cong [OF twin, of length] long by simp
  qed
  from register_login_flow [OF fresh re rids pw q cmp run] show ?thesis by simp
qed

theorem long_password_twin_login_witness:
  "responses (acct_run (bcrypt_hash (\<lambda>pre k. replicate 31 (of_nat (length k))) (replicate 22 65))
      (bcrypt_compare (\<lambda>pre k. replicate 31 (of_nat (length k)))) uid
      [(5, RegisterReq 1 \<lparr>rb_email = Some (js ''a@b.c''), rb_password = Some (replicate 72 97 @ [98]),
                          rb_name = Some (js ''A'')\<rparr>),
       (6, RegisterDone 1), (7, LoginReq 2 \<lparr>lb_email = Some (js ''a@b.c''), lb_password = Some (replicate 72 97 @ [99])\<rparr>),
       (8, LoginDone 2)] acct_init) =
   [(1, Inr Registered), (2, Inr (LoggedIn (js ''6'') \<lparr>uid = js ''6'', uemail = js ''a@b.c'', display_name = js ''A''\<rparr>))]"
proof -
  have a: "utf8 (replicate 72 97 @ [98]) = replicate 72 97 @ [98]" "utf8 (replicate 72 97 @ [99]) = replicate 72 97 @ [99]"
    by (simp_all add: utf8_ascii)
  have l: "72 \<le> length (utf8 (replicate 72 97 @ [98::16 word]))"
    and t: "take 72 (utf8 (replicate 72 97 @ [99::16 word])) = take 72 (utf8 (replicate 72 97 @ [98]))"
    by (simp_all only: a) simp_all
  show ?thesis
    using long_password_twin_login [where s = acct_init and e = "js ''a@b.c''" and ra = 1 and rb = 2
      and p = "replicate 72 97 @ [98]" and q = "replicate 72 97 @ [99]" and n = "js ''A''"
      and salt = "replicate 22 65" and H = "\<lambda>pre k. replicate 31 (of_nat (length k))"
      and sign = uid and ta = 5 and tb = 6 and tc = 7 and td = 8,
      OF _ email_re_demo _ _ _ _ _ _ _ l t refl]
    by (simp add: acct_init_def jm_has_def js_def js_nat_str_def dec_digits.simps)
qed

text \<open>C37: when another connection arrives, a connected client on the chat page
  receives exactly one \<open>user-online\<close>, and its handler empties the users list it shows
  (\<open>updateUsersList()\<close> with no argument, lines 303-306), although the registry now
  holds the new user.\<close>

theorem users_list_emptied:
  assumes r: "reachable verify t s" and k: "jm_get (rt_sockets s) sid = Some k"
    and ne: "sid' \<noteq> sid" "sid' \<notin> set (s_rooms k)"
    and st: "rt_step verify now (Connect sid' tok) s = Inr s'" and pg: "c_page c = ChatPage"
  shows "\<exists>u::identity. inbox sid s' = inbox sid s @ [UserOnline (uid u) (display_name u)] \<and>
           jm_has (rt_connected s') (uid u) \<and>
           c_users (fold (on_server_event fmt) (drop (length (inbox sid s)) (inbox sid s')) c) = []"
proof -
  obtain tk u where s': "s' = on_connection sid' u (sio_add sid' u s)"
    using connect_step [OF st] by blast
  let ?s1 = "(sio_add sid' u s)\<lparr>rt_connected := presence_register sid' u (rt_connected (sio_add sid' u s))\<rparr>"
  let ?s2 = "sio_join sid' (js ''general'') ?s1"
  let ?s3 = "sio_broadcast sid' (UserOnline (uid u) (display_name u)) ?s2"
  have emit: "s' = sio_emit sid' (UsersList (users_list (rt_connected ?s3))) ?s3"
    by (simp add: s' on_connection_def Let_def)
  have get: "jm_get (rt_sockets ?s2) sid = Some k"
    using k ne(1) by (simp only: sio_join_sockets_indep connect_sockets_get) simp
  have wf: "jm_wf (rt_sockets ?s2)"
    using reachable_wf [OF r] by (simp only: sio_join_sockets_indep) (simp add: sio_join_wf sio_add_def jm_wf_set)
  have "sid \<notin> set (room_members sid' ?s2)"
    using get ne(2) by (simp add: room_members_wf [OF wf])
  moreover have "sid \<in> set (jm_keys (rt_sockets ?s2))"
    using get by (force dest: map_of_SomeD)
  moreover have "distinct (jm_keys (rt_sockets ?s2))"
    using wf by (simp add: jm_wf_def)
  ultimately have "inbox sid ?s3 = inbox sid ?s2 @ [UserOnline (uid u) (display_name u)]"
    by (simp add: sio_broadcast_def deliver_once)
  moreover have "inbox sid ?s2 = inbox sid s"
    by (simp add: inbox_def sio_add_def)
  moreover have "inbox sid s' = inbox sid ?s3"
    using ne(1) by (simp add: emit sio_emit_def deliver_none)
  moreover have "jm_has (rt_connected s') (uid u)"
    by (simp add: s' on_connection_frame sio_add_def jm_has_get)
  ultimately have "inbox sid s' = inbox sid s @ [UserOnline (uid u) (display_name u)] \<and>
      jm_has (rt_connected s') (uid u) \<and>
      c_users (fold (on_server_event fmt) (drop (length (inbox sid s)) (inbox sid s')) c) = []"
    using pg by (simp add: on_server_event_def update_users_list_def add_system_message_def)
  then show ?thesis
    by blast
qed

theorem users_list_emptied_witness:
  "\<exists>s s'. reachable demo_verify 1 s \<and> rt_step demo_verify 2 (Connect (js ''s2'') (Some (js ''tokA''))) s = Inr s' \<and>
     c_users (fold (on_server_event (\<lambda>_. [])) (drop (length (inbox (js ''s1'') s)) (inbox (js ''s1'') s'))
       demo_client) = []"
proof -
  obtain s1 where s1: "rt_step demo_verify 1 (Connect (js ''s1'') (Some (js ''tokA''))) (rt_init 0) = Inr s1"
    by (simp add: authenticate_def demo_verify_def js_def)
  have r1: "reachable demo_verify 1 s1"
    by (rule reachable.step [OF reachable.init _ _ s1]) (simp_all add: rt_init_def jm_has_def)
  have k: "jm_get (rt_sockets s1) (js ''s1'') = Some \<lparr>s_user = demo_user, s_rooms = [js ''s1'', js ''general'']\<rparr>"
    using s1 by (clarsimp simp add: model_defs demo_verify_def demo_user_def del: set_map set_filter)
  obtain s2 where s2: "rt_step demo_verify 2 (Connect (js ''s2'') (Some (js ''tokA''))) s1 = Inr s2"
    by (simp add: authenticate_def demo_verify_def js_def)
  from users_list_emptied [OF r1 k _ _ s2 demo_client_simps(10), of "\<lambda>_. []"] r1 s2 show ?thesis
    by (auto simp: js_def)
qed

text \<open>C14: a typing state does not outlive the idle window. After a keystroke at time
  \<open>t\<close> in a connected client, the typing timer firing at any time from \<open>t + 2000\<close> on
  makes the client emit \<open>typing-stop\<close> for its room as its last event, and the server,
  receiving it from the client's live socket, delivers \<open>user-typing\<close> with
  \<open>typing: false\<close> once to every other member of the room and nothing to the sender.\<close>

theorem typing_stop_reaches_peers:
  assumes "0 < c_sockets c" and "t + 2000 \<le> t'"
    and "reachable verify t0 s" and "jm_get (rt_sockets s) sid = Some k"
  shows "last (c_emits (typing_timer t' (on_input t (js ''message-input'') v c))) = EmitTypingStop (c_room c) \<and>
         (\<exists>s'. rt_step verify now (TypingStop sid (c_room c)) s = Inr s' \<and> inbox sid s' = inbox sid s \<and>
            (\<forall>x \<in> set (room_members (c_room c) s). x \<notin> set (room_members sid s) \<longrightarrow>
               inbox x s' = inbox x s @ [UserTyping (uid (s_user k)) (display_name (s_user k)) False]))"
proof -
  have inv: "rt_inv t0 s" using assms(3) by (rule reachable_rt_inv)
  have "last (c_emits (typing_timer t' (on_input t (js ''message-input'') v c))) = EmitTypingStop (c_room c)"
    using assms(1,2) by (simp add: typing_timer_def on_input_msg)
  moreover have "rt_step verify now (TypingStop sid (c_room c)) s =
      Inr (sio_to_except sid (c_room c) (UserTyping (uid (s_user k)) (display_name (s_user k)) False) s)"
    using assms(4) by (simp add: on_typing_stop_def)
  ultimately show ?thesis
    using to_except_inbox [OF inv assms(4)] by blast
qed

theorem typing_stop_reaches_peers_witness:
  "\<exists>s s'. reachable demo_verify 2 s \<and> rt_step demo_verify 5000 (TypingStop (js ''s1'') (js ''general'')) s = Inr s' \<and>
     inbox (js ''s2'') s' = inbox (js ''s2'') s @ [UserTyping (js ''1'') (js ''A'') False]"
proof -
  obtain s where r: "reachable demo_verify 2 s"
    and k1: "jm_get (rt_sockets s) (js ''s1'') = Some \<lparr>s_user = demo_user, s_rooms = [js ''s1'', js ''general'']\<rparr>"
    and k2: "jm_get (rt_sockets s) (js ''s2'') = Some \<lparr>s_user = demo_user, s_rooms = [js ''s2'', js ''general'']\<rparr>"
    using demo_two_sessions by blast
  have wf: "jm_wf (rt_sockets s)" using r by (rule reachable_wf)
  have mem: "js ''s2'' \<in> set (room_members (js ''general'') s)"
    using k2 by (rule room_members_get) simp
  have out: "js ''s2'' \<notin> set (room_members (js ''s1'') s)"
    using k2 by (simp add: room_members_wf [OF wf] js_def)
  from typing_stop_reaches_peers [of demo_client 100 2100 demo_verify 2 s "js ''s1''" _ "js ''hi''" 5000, OF _ _ r k1]
  obtain s' where "rt_step demo_verify 5000 (TypingStop (js ''s1'') (js ''general'')) s = Inr s'"
      "\<forall>x \<in> set (room_members (js ''general'') s). x \<notin> set (room_members (js ''s1'') s) \<longrightarrow>
         inbox x s' = inbox x s @ [UserTyping (js ''1'') (js ''A'') False]"
    by (auto simp: demo_client_simps demo_user_def)
  with r mem out show ?thesis
    by blast
qed

text \<open>C40: a session token the client keeps past its seven days locks the client in
  its reconnection loop. Whatever sequence of \<open>connect_error\<close> events and retry
  timers follows, the client still holds the same token and shows the chat page, it has
  opened one more connection per timer, and every handshake that presents its token
  from the expiry on is refused with \<open>Authentication error\<close> (server.js 239-252 with
  \<open>jwt.verify\<close>), so the loop goes on and the login page never comes back.\<close>

theorem expired_token_reconnects_forever:
  assumes tok: "c_token c = Some tok" "tok \<noteq> []" "c_page c = ChatPage"
    and signed: "issued tok = Some (k', jwt_sign_claims tsign u)" and late: "tsign + 1000 * jwt_lifetime \<le> t"
    and retry: "\<forall>(t', ev) \<in> set evs. ev = ConnectError \<or> ev = ConnectRetry False"
  shows "c_token (client_run fmt evs c) = Some tok \<and> c_page (client_run fmt evs c) = ChatPage \<and>
         c_sockets (client_run fmt evs c) = c_sockets c + length (filter (\<lambda>(t', ev). ev = ConnectRetry False) evs) \<and>
         rt_step (jwt_verify k issued t) t (Connect sid (c_token (client_run fmt evs c))) s = Inl AuthenticationError"
proof -
  have run: "c_token (client_run fmt evs c) = Some tok \<and> c_page (client_run fmt evs c) = ChatPage \<and>
      c_sockets (client_run fmt evs c) = c_sockets c + length (filter (\<lambda>(t', ev). ev = ConnectRetry False) evs)"
    using retry_run [OF retry, of fmt c] tok by (simp add: js_truthy_def)
  have "tsign div 1000 + jwt_lifetime \<le> t div 1000"
    using late div_le_mono [OF late, of 1000] by simp
  moreover have "jc_exp (jwt_sign_claims tsign u) = tsign div 1000 + jwt_lifetime"
    by (simp add: jwt_sign_claims_def)
  ultimately have "jc_exp (jwt_sign_claims tsign u) \<le> t div 1000" by simp
  then have "jwt_verify k issued t tok = None"
    using jwt_verify_expired [of issued tok k' "jwt_sign_claims tsign u" t k] signed by blast
  with run tok(2) show ?thesis by (simp add: authenticate_def)
qed

theorem expired_token_reconnects_forever_witness:
  "c_token (client_run (\<lambda>_. []) [(604800000, ConnectError), (604803000, ConnectRetry False)] demo_client) = Some (js ''tokA'') \<and>
   c_page (client_run (\<lambda>_. []) [(604800000, ConnectError), (604803000, ConnectRetry False)] demo_client) = ChatPage \<and>
   c_sockets (client_run (\<lambda>_. []) [(604800000, ConnectError), (604803000, ConnectRetry False)] demo_client) =
     c_sockets demo_client + length (filter (\<lambda>(t', ev). ev = ConnectRetry False) [(604800000::nat, ConnectError), (604803000, ConnectRetry False)]) \<and>
   rt_step (jwt_verify (jwt_secret None) (jwt_issue (jwt_secret None) (js ''tokA'') 0 demo_user Map.empty) 604803000) 604803000
     (Connect (js ''s2'') (c_token (client_run (\<lambda>_. []) [(604800000, ConnectError), (604803000, ConnectRetry False)] demo_client))) (rt_init 0) = Inl AuthenticationError"
  by (rule expired_token_reconnects_forever [where k' = "jwt_secret None" and tsign = 0 and u = demo_user])
    (simp_all add: demo_client_simps js_def jwt_issue_def jwt_lifetime_def)

end
